theory Spec2Isabelle
  imports Complex_Main "HOL-Library.Word" "HOL-Library.Log_Nat" "HOL-Library.Monad_Syntax"
begin

unbundle bit_operations_syntax

section \<open>Machine types\<close>

type_synonym u8 = "8 word"
type_synonym u16 = "16 word"
type_synonym u32 = "32 word"
type_synonym u64 = "64 word"

section \<open>Single-precision floats\<close>

text \<open>
  A finite IEEE-754 binary32 value is a sign bit and a magnitude. Two finite floats have
  the same four bytes iff they have the same sign bit and the same magnitude, so equality
  of \<open>f32\<close> is the equality \<open>memcmp\<close> sees (\<open>+0\<close> and \<open>-0\<close> differ). The
  operations round to nearest, ties to even, with 24 significant bits and the subnormal
  grid \<open>2 powi -149\<close>. Every float of ICCProfile.c comes from a 32-bit integer, a
  product with a power of two or one quotient of two such values, so infinities and NaNs
  do not arise and are not modelled; expressions are evaluated in single precision.
\<close>

datatype f32 = F32 (f32_sign: bool) (f32_mag: rat)

definition round_even :: "rat \<Rightarrow> int" where
  "round_even q = (let n = \<lfloor>q\<rfloor>; r = q - of_int n in
     if r < 1 / 2 then n else if 1 / 2 < r then n + 1 else if even n then n else n + 1)"

definition ilog2 :: "rat \<Rightarrow> int" where
  "ilog2 x = (let (a, b) = quotient_of x; d = bitlen a - bitlen b in
     if 2 powi d \<le> x then d else d - 1)"

definition f32_rnd :: "rat \<Rightarrow> rat" where
  "f32_rnd x = (if x = 0 then 0 else
     let e = max (ilog2 x) (- 126); u = 2 powi (e - 23) in of_int (round_even (x / u)) * u)"

definition f32_val :: "f32 \<Rightarrow> rat" where
  "f32_val x = (if f32_sign x then - f32_mag x else f32_mag x)"

definition f32_of_rat :: "rat \<Rightarrow> f32" where
  "f32_of_rat r = F32 (r < 0) (f32_rnd \<bar>r\<bar>)"

definition f32_of_int :: "int \<Rightarrow> f32" where
  "f32_of_int k = f32_of_rat (of_int k)"

definition f32_mul :: "f32 \<Rightarrow> f32 \<Rightarrow> f32" where
  "f32_mul x y = F32 (f32_sign x \<noteq> f32_sign y) (f32_rnd (f32_mag x * f32_mag y))"

definition f32_div :: "f32 \<Rightarrow> f32 \<Rightarrow> f32" where
  "f32_div x y = F32 (f32_sign x \<noteq> f32_sign y) (f32_rnd (f32_mag x / f32_mag y))"

definition f32_neg :: "f32 \<Rightarrow> f32" where
  "f32_neg x = F32 (\<not> f32_sign x) (f32_mag x)"

definition f32_sub :: "f32 \<Rightarrow> f32 \<Rightarrow> f32" where
  "f32_sub x y = (let d = f32_val x - f32_val y in
     if d = 0 then F32 (f32_sign x \<and> \<not> f32_sign y) 0 else f32_of_rat d)"

definition fabsf :: "f32 \<Rightarrow> f32" where
  "fabsf x = F32 False (f32_mag x)"

definition f32_gt :: "f32 \<Rightarrow> f32 \<Rightarrow> bool" where
  "f32_gt x y = (f32_val y < f32_val x)"

definition f32_is_zero :: "f32 \<Rightarrow> bool" where
  "f32_is_zero x = (f32_mag x = 0)"

definition f32_zero :: f32 where
  "f32_zero = F32 False 0"

definition f32_one :: f32 where
  "f32_one = F32 False 1"

section \<open>Big-endian readers\<close>

text \<open>
  A pointer into the caller's buffer is the buffer (a list of bytes, whose length is the
  \<open>len\<close> the caller passed) and an offset; a pointer that may be \<open>NULL\<close> is a
  \<open>ptr option\<close>. A read that leaves the buffer is undefined behaviour in C; here it
  is the value \<open>None\<close>, so every model function that reads returns an option and
  \<open>None\<close> means that it read outside the buffer. A C function that returns
  \<open>bool\<close> and writes through an out-parameter takes the old value of that parameter
  and returns the flag with the new value, so that partial writes before a \<open>return
  false\<close> stay visible.
\<close>

definition make_signature :: "u8 \<Rightarrow> u8 \<Rightarrow> u8 \<Rightarrow> u8 \<Rightarrow> u32" where
  "make_signature a b c d =
     push_bit 24 (ucast a) OR push_bit 16 (ucast b) OR push_bit 8 (ucast c) OR ucast d"

type_synonym ptr = "u8 list \<times> nat"

definition ptr_add :: "ptr \<Rightarrow> nat \<Rightarrow> ptr" where
  "ptr_add p n = (fst p, snd p + n)"

definition be_bytes :: "u8 list \<Rightarrow> nat" where
  "be_bytes bs = foldl (\<lambda>n b. 256 * n + unat b) 0 bs"

definition in_bounds :: "ptr \<Rightarrow> nat \<Rightarrow> bool" where
  "in_bounds p n = (snd p + n \<le> length (fst p))"

definition bytes_at :: "ptr \<Rightarrow> nat \<Rightarrow> u8 list" where
  "bytes_at p n = take n (drop (snd p) (fst p))"

text \<open>The values that \<open>memcpy\<close> and the byte swap produce from the bytes at \<open>p\<close>.\<close>

definition be_u16 :: "ptr \<Rightarrow> u16" where
  "be_u16 p = word_of_nat (be_bytes (bytes_at p 2))"

definition be_u32 :: "ptr \<Rightarrow> u32" where
  "be_u32 p = word_of_nat (be_bytes (bytes_at p 4))"

definition be_u64 :: "ptr \<Rightarrow> u64" where
  "be_u64 p = word_of_nat (be_bytes (bytes_at p 8))"

text \<open>\<open>k * (1.0f / 65536.0f)\<close> for a 32-bit signed \<open>k\<close>.\<close>

definition fixed_of_i32 :: "int \<Rightarrow> f32" where
  "fixed_of_i32 k = f32_mul (f32_of_int k) (f32_div (f32_of_rat 1) (f32_of_rat 65536))"

definition be_fixed :: "ptr \<Rightarrow> f32" where
  "be_fixed p = fixed_of_i32 (sint (be_u32 p))"

definition read_bytes :: "ptr \<Rightarrow> nat \<Rightarrow> u8 list option" where
  "read_bytes p n = (if in_bounds p n then Some (bytes_at p n) else None)"

definition read_big_u16 :: "ptr \<Rightarrow> u16 option" where
  "read_big_u16 p = (if in_bounds p 2 then Some (be_u16 p) else None)"

definition read_big_u32 :: "ptr \<Rightarrow> u32 option" where
  "read_big_u32 p = (if in_bounds p 4 then Some (be_u32 p) else None)"

definition read_big_i32 :: "ptr \<Rightarrow> int option" where
  "read_big_i32 p = map_option sint (read_big_u32 p)"

definition read_big_u64 :: "ptr \<Rightarrow> u64 option" where
  "read_big_u64 p = (if in_bounds p 8 then Some (be_u64 p) else None)"

definition read_big_fixed :: "ptr \<Rightarrow> f32 option" where
  "read_big_fixed p = map_option fixed_of_i32 (read_big_i32 p)"

record skcms_ICCDateTime =
  year :: u16
  month :: u16
  day :: u16
  hour :: u16
  minute :: u16
  second :: u16

definition read_big_date_time :: "ptr \<Rightarrow> skcms_ICCDateTime option" where
  "read_big_date_time p = do {
     y \<leftarrow> read_big_u16 (ptr_add p 0);
     mo \<leftarrow> read_big_u16 (ptr_add p 2);
     d \<leftarrow> read_big_u16 (ptr_add p 4);
     h \<leftarrow> read_big_u16 (ptr_add p 6);
     mi \<leftarrow> read_big_u16 (ptr_add p 8);
     s \<leftarrow> read_big_u16 (ptr_add p 10);
     Some \<lparr>year = y, month = mo, day = d, hour = h, minute = mi, second = s\<rparr>
   }"


section \<open>Data model\<close>

text \<open>
  Modelled from the spec: Macros.h is not among the sources. \<open>SAFE_SIZEOF(x)\<close> is
  taken to be \<open>sizeof(x)\<close> as a 64-bit unsigned value, as the \<open>uint64_t\<close>
  variables it is assigned to and \<open>static_assert(SAFE_SIZEOF(header_Layout) == 132)\<close>
  say; the layouts are made of byte arrays, so their sizes are the sums of the array
  lengths. \<open>ARRAY_COUNT\<close> is the number of elements of an array.
\<close>

definition SAFE_SIZEOF_header_Layout :: u64 where "SAFE_SIZEOF_header_Layout = 132"
definition SAFE_SIZEOF_tag_Layout :: u64 where "SAFE_SIZEOF_tag_Layout = 12"
definition SAFE_SIZEOF_XYZ_Layout :: u64 where "SAFE_SIZEOF_XYZ_Layout = 20"
definition SAFE_SIZEOF_para_Layout :: u64 where "SAFE_SIZEOF_para_Layout = 12"
definition SAFE_SIZEOF_curv_Layout :: u64 where "SAFE_SIZEOF_curv_Layout = 12"
definition SAFE_SIZEOF_uint16_t :: u64 where "SAFE_SIZEOF_uint16_t = 2"
definition SAFE_SIZEOF_mft1_Layout :: u64 where "SAFE_SIZEOF_mft1_Layout = 48"
definition SAFE_SIZEOF_mft2_Layout :: u64 where "SAFE_SIZEOF_mft2_Layout = 52"

record skcms_TransferFunction =
  tf_g :: f32
  tf_a :: f32
  tf_b :: f32
  tf_c :: f32
  tf_d :: f32
  tf_e :: f32
  tf_f :: f32

record Curve =
  curve_parametric :: skcms_TransferFunction
  curve_table :: "ptr option"
  curve_table_size :: u32

record skcms_ICCTag =
  tag_signature :: u32
  tag_type :: u32
  tag_size :: u32
  tag_buf :: ptr

text \<open>
  The profile record has the fields that ICCProfile.c reads or assigns (\<open>size\<close> and
  \<open>signature\<close> are named \<open>profile_size\<close> and \<open>profile_signature\<close>), and the
  flag \<open>has_A2B\<close> that skcms.h declares: ICCProfile.c never assigns it, so it keeps
  the zero that \<open>memset\<close> writes. \<open>vals[r][c]\<close> of a matrix is \<open>m ! r ! c\<close>.
\<close>

type_synonym skcms_Matrix3x3 = "f32 list list"

record skcms_ICCProfile =
  buffer :: "ptr option"
  profile_size :: u32
  cmm_type :: u32
  version :: u32
  profile_class :: u32
  data_color_space :: u32
  pcs :: u32
  creation_date_time :: skcms_ICCDateTime
  profile_signature :: u32
  platform :: u32
  flags :: u32
  device_manufacturer :: u32
  device_model :: u32
  device_attributes :: u64
  rendering_intent :: u32
  illuminant_X :: f32
  illuminant_Y :: f32
  illuminant_Z :: f32
  creator :: u32
  profile_id :: "u8 list"
  tag_count :: u32
  has_tf :: bool
  tf :: skcms_TransferFunction
  has_toXYZD50 :: bool
  toXYZD50 :: skcms_Matrix3x3
  has_A2B :: bool

definition tf_zero :: skcms_TransferFunction where
  "tf_zero = \<lparr>tf_g = f32_zero, tf_a = f32_zero, tf_b = f32_zero, tf_c = f32_zero,
     tf_d = f32_zero, tf_e = f32_zero, tf_f = f32_zero\<rparr>"

definition matrix_zero :: skcms_Matrix3x3 where
  "matrix_zero = replicate 3 (replicate 3 f32_zero)"

definition date_time_zero :: skcms_ICCDateTime where
  "date_time_zero = \<lparr>year = 0, month = 0, day = 0, hour = 0, minute = 0, second = 0\<rparr>"

text \<open>The state after \<open>memset(profile, 0, SAFE_SIZEOF(*profile))\<close>.\<close>

definition profile_zero :: skcms_ICCProfile where
  "profile_zero = \<lparr>buffer = None, profile_size = 0, cmm_type = 0, version = 0,
     profile_class = 0, data_color_space = 0, pcs = 0, creation_date_time = date_time_zero,
     profile_signature = 0, platform = 0, flags = 0, device_manufacturer = 0,
     device_model = 0, device_attributes = 0, rendering_intent = 0,
     illuminant_X = f32_zero, illuminant_Y = f32_zero, illuminant_Z = f32_zero,
     creator = 0, profile_id = replicate 16 0, tag_count = 0,
     has_tf = False, tf = tf_zero, has_toXYZD50 = False, toXYZD50 = matrix_zero,
     has_A2B = False\<rparr>"

text \<open>
  The locals \<open>skcms_ICCTag rXYZ, ...\<close> and \<open>Curve rCurve, ...\<close> are declared without
  an initialiser. The callee assigns every field before it returns true and the caller
  reads them only after true, so the value they start with is never observed; the model
  starts them at these records.
\<close>

definition ICCTag_uninit :: skcms_ICCTag where
  "ICCTag_uninit = \<lparr>tag_signature = 0, tag_type = 0, tag_size = 0, tag_buf = ([], 0)\<rparr>"

definition Curve_uninit :: Curve where
  "Curve_uninit = \<lparr>curve_parametric = tf_zero, curve_table = None, curve_table_size = 0\<rparr>"

definition sig :: "string \<Rightarrow> u32" where
  "sig s = make_signature (of_char (s ! 0)) (of_char (s ! 1)) (of_char (s ! 2)) (of_char (s ! 3))"

section \<open>Tag table\<close>

definition get_tag_table :: "ptr \<Rightarrow> ptr" where
  "get_tag_table buf = ptr_add buf (unat SAFE_SIZEOF_header_Layout)"

text \<open>\<open>tags[i].signature\<close>, \<open>tags[i].offset\<close> and \<open>tags[i].size\<close>.\<close>

definition tags_signature :: "ptr \<Rightarrow> nat \<Rightarrow> ptr" where
  "tags_signature tags i = ptr_add tags (unat SAFE_SIZEOF_tag_Layout * i)"

definition tags_offset :: "ptr \<Rightarrow> nat \<Rightarrow> ptr" where
  "tags_offset tags i = ptr_add tags (unat SAFE_SIZEOF_tag_Layout * i + 4)"

definition tags_size :: "ptr \<Rightarrow> nat \<Rightarrow> ptr" where
  "tags_size tags i = ptr_add tags (unat SAFE_SIZEOF_tag_Layout * i + 8)"

text \<open>The four assignments to \<open>*tag\<close> from entry \<open>idx\<close> of the tag table.\<close>

definition fill_tag :: "ptr \<Rightarrow> ptr \<Rightarrow> nat \<Rightarrow> u32 \<Rightarrow> skcms_ICCTag option" where
  "fill_tag buf tags idx sg = do {
     sz \<leftarrow> read_big_u32 (tags_size tags idx);
     off \<leftarrow> read_big_u32 (tags_offset tags idx);
     let b = ptr_add buf (unat off);
     ty \<leftarrow> read_big_u32 b;
     Some \<lparr>tag_signature = sg, tag_type = ty, tag_size = sz, tag_buf = b\<rparr>
   }"

definition skcms_GetTagByIndex ::
  "skcms_ICCProfile \<Rightarrow> u32 \<Rightarrow> skcms_ICCTag \<Rightarrow> skcms_ICCTag option" where
  "skcms_GetTagByIndex profile idx tag =
     (case buffer profile of
        None \<Rightarrow> Some tag
      | Some buf \<Rightarrow>
          if idx > tag_count profile then Some tag
          else do {
            let tags = get_tag_table buf;
            sg \<leftarrow> read_big_u32 (tags_signature tags (unat idx));
            fill_tag buf tags (unat idx) sg
          })"

function GetTagBySignature_loop ::
  "ptr \<Rightarrow> u32 \<Rightarrow> u32 \<Rightarrow> skcms_ICCTag \<Rightarrow> nat \<Rightarrow> (bool \<times> skcms_ICCTag) option" where
  "GetTagBySignature_loop buf count sg tag i =
     (if i < unat count then
        (case read_big_u32 (tags_signature (get_tag_table buf) i) of
           None \<Rightarrow> None
         | Some s \<Rightarrow>
             if s = sg then map_option (Pair True) (fill_tag buf (get_tag_table buf) i sg)
             else GetTagBySignature_loop buf count sg tag (i + 1))
      else Some (False, tag))"
  by pat_completeness auto
termination
  by (relation "measure (\<lambda>(buf, count, sg, tag, i). unat count - i)") auto

declare GetTagBySignature_loop.simps [simp del]

definition skcms_GetTagBySignature ::
  "skcms_ICCProfile \<Rightarrow> u32 \<Rightarrow> skcms_ICCTag \<Rightarrow> (bool \<times> skcms_ICCTag) option" where
  "skcms_GetTagBySignature profile sg tag =
     (case buffer profile of
        None \<Rightarrow> Some (False, tag)
      | Some buf \<Rightarrow> GetTagBySignature_loop buf (tag_count profile) sg tag 0)"

section \<open>XYZ tags and the matrix to XYZD50\<close>

definition read_tag_xyz ::
  "skcms_ICCTag \<Rightarrow> f32 \<times> f32 \<times> f32 \<Rightarrow> (bool \<times> f32 \<times> f32 \<times> f32) option" where
  "read_tag_xyz tag xyz =
     (if tag_type tag = sig ''XYZ '' \<and> ucast (tag_size tag) \<ge> SAFE_SIZEOF_XYZ_Layout then do {
        x \<leftarrow> read_big_fixed (ptr_add (tag_buf tag) 8);
        y \<leftarrow> read_big_fixed (ptr_add (tag_buf tag) 12);
        z \<leftarrow> read_big_fixed (ptr_add (tag_buf tag) 16);
        Some (True, x, y, z)
      } else Some (False, xyz))"

text \<open>
  \<open>get_col\<close> and \<open>set_col\<close> stand for the three pointers
  \<open>&toXYZ->vals[0][c], &toXYZ->vals[1][c], &toXYZ->vals[2][c]\<close> passed to
  \<open>read_tag_xyz\<close>.
\<close>

definition get_col :: "skcms_Matrix3x3 \<Rightarrow> nat \<Rightarrow> f32 \<times> f32 \<times> f32" where
  "get_col m c = (m ! 0 ! c, m ! 1 ! c, m ! 2 ! c)"

definition set_col :: "skcms_Matrix3x3 \<Rightarrow> nat \<Rightarrow> f32 \<times> f32 \<times> f32 \<Rightarrow> skcms_Matrix3x3" where
  "set_col m c xyz = (case xyz of (x, y, z) \<Rightarrow>
     m[0 := (m ! 0)[c := x], 1 := (m ! 1)[c := y], 2 := (m ! 2)[c := z]])"

definition read_to_XYZD50 ::
  "skcms_ICCProfile \<Rightarrow> skcms_Matrix3x3 \<Rightarrow> (bool \<times> skcms_Matrix3x3) option" where
  "read_to_XYZD50 profile toXYZ = do {
     (fr, rXYZ) \<leftarrow> skcms_GetTagBySignature profile (sig ''rXYZ'') ICCTag_uninit;
     if \<not> fr then Some (False, toXYZ) else do {
     (fg, gXYZ) \<leftarrow> skcms_GetTagBySignature profile (sig ''gXYZ'') ICCTag_uninit;
     if \<not> fg then Some (False, toXYZ) else do {
     (fb, bXYZ) \<leftarrow> skcms_GetTagBySignature profile (sig ''bXYZ'') ICCTag_uninit;
     if \<not> fb then Some (False, toXYZ) else do {
     (okr, r) \<leftarrow> read_tag_xyz rXYZ (get_col toXYZ 0);
     let toXYZ = set_col toXYZ 0 r;
     if \<not> okr then Some (False, toXYZ) else do {
     (okg, g) \<leftarrow> read_tag_xyz gXYZ (get_col toXYZ 1);
     let toXYZ = set_col toXYZ 1 g;
     if \<not> okg then Some (False, toXYZ) else do {
     (okb, b) \<leftarrow> read_tag_xyz bXYZ (get_col toXYZ 2);
     let toXYZ = set_col toXYZ 2 b;
     Some (okb, toXYZ)
     }}}}}}"

section \<open>Curves\<close>

definition curve_bytes :: "u64 list" where
  "curve_bytes = [4, 12, 16, 20, 28]"

text \<open>\<open>paraTag->parameters + n\<close>: the parameters start after the 12 bytes of the layout.\<close>

definition para_parameters :: "ptr \<Rightarrow> nat \<Rightarrow> ptr" where
  "para_parameters buf n = ptr_add buf (12 + n)"

definition read_curve_para :: "ptr \<Rightarrow> u32 \<Rightarrow> Curve \<Rightarrow> (bool \<times> Curve) option" where
  "read_curve_para buf sz curve =
     (if ucast sz < SAFE_SIZEOF_para_Layout then Some (False, curve) else do {
        function_type \<leftarrow> read_big_u16 (ptr_add buf 8);
        if function_type > 4 then Some (False, curve)
        else if ucast sz < SAFE_SIZEOF_para_Layout + curve_bytes ! unat function_type
        then Some (False, curve)
        else do {
          g \<leftarrow> read_big_fixed (para_parameters buf 0);
          let p = \<lparr>tf_g = g, tf_a = f32_of_rat 1, tf_b = f32_of_rat 0, tf_c = f32_of_rat 0,
                   tf_d = f32_of_rat 0, tf_e = f32_of_rat 0, tf_f = f32_of_rat 0\<rparr>;
          let curve = curve\<lparr>curve_table := None, curve_table_size := 0, curve_parametric := p\<rparr>;
          if function_type = 1 then do {
            a \<leftarrow> read_big_fixed (para_parameters buf 4);
            b \<leftarrow> read_big_fixed (para_parameters buf 8);
            let p = p\<lparr>tf_a := a, tf_b := b\<rparr>;
            if f32_is_zero a then Some (False, curve\<lparr>curve_parametric := p\<rparr>)
            else Some (True, curve\<lparr>curve_parametric := p\<lparr>tf_d := f32_div (f32_neg b) a\<rparr>\<rparr>)
          } else if function_type = 2 then do {
            a \<leftarrow> read_big_fixed (para_parameters buf 4);
            b \<leftarrow> read_big_fixed (para_parameters buf 8);
            e \<leftarrow> read_big_fixed (para_parameters buf 12);
            let p = p\<lparr>tf_a := a, tf_b := b, tf_e := e\<rparr>;
            if f32_is_zero a then Some (False, curve\<lparr>curve_parametric := p\<rparr>)
            else Some (True,
              curve\<lparr>curve_parametric := p\<lparr>tf_d := f32_div (f32_neg b) a, tf_f := e\<rparr>\<rparr>)
          } else if function_type = 3 then do {
            a \<leftarrow> read_big_fixed (para_parameters buf 4);
            b \<leftarrow> read_big_fixed (para_parameters buf 8);
            c \<leftarrow> read_big_fixed (para_parameters buf 12);
            d \<leftarrow> read_big_fixed (para_parameters buf 16);
            Some (True, curve\<lparr>curve_parametric := p\<lparr>tf_a := a, tf_b := b, tf_c := c, tf_d := d\<rparr>\<rparr>)
          } else if function_type = 4 then do {
            a \<leftarrow> read_big_fixed (para_parameters buf 4);
            b \<leftarrow> read_big_fixed (para_parameters buf 8);
            c \<leftarrow> read_big_fixed (para_parameters buf 12);
            d \<leftarrow> read_big_fixed (para_parameters buf 16);
            e \<leftarrow> read_big_fixed (para_parameters buf 20);
            f \<leftarrow> read_big_fixed (para_parameters buf 24);
            Some (True, curve\<lparr>curve_parametric :=
              p\<lparr>tf_a := a, tf_b := b, tf_c := c, tf_d := d, tf_e := e, tf_f := f\<rparr>\<rparr>)
          } else Some (True, curve)
        }
      })"

text \<open>\<open>u * (1.0f / 256.0f)\<close> for a 16-bit unsigned \<open>u\<close>.\<close>

definition gamma_of_u16 :: "u16 \<Rightarrow> f32" where
  "gamma_of_u16 u = f32_mul (f32_of_int (uint u)) (f32_div (f32_of_rat 1) (f32_of_rat 256))"

definition read_curve_curv :: "ptr \<Rightarrow> u32 \<Rightarrow> Curve \<Rightarrow> (bool \<times> Curve) option" where
  "read_curve_curv buf sz curve =
     (if ucast sz < SAFE_SIZEOF_curv_Layout then Some (False, curve) else do {
        value_count \<leftarrow> read_big_u32 (ptr_add buf 8);
        if ucast sz < SAFE_SIZEOF_curv_Layout + ucast value_count * SAFE_SIZEOF_uint16_t
        then Some (False, curve)
        else if value_count < 2 then do {
          let p = \<lparr>tf_g = f32_zero, tf_a = f32_of_rat 1, tf_b = f32_of_rat 0,
                   tf_c = f32_of_rat 0, tf_d = f32_of_rat 0, tf_e = f32_of_rat 0,
                   tf_f = f32_of_rat 0\<rparr>;
          let curve = curve\<lparr>curve_table := None, curve_table_size := 0\<rparr>;
          if value_count = 0 then Some (True, curve\<lparr>curve_parametric := p\<lparr>tf_g := f32_of_rat 1\<rparr>\<rparr>)
          else do {
            u \<leftarrow> read_big_u16 (ptr_add buf 12);
            Some (True, curve\<lparr>curve_parametric := p\<lparr>tf_g :=
              gamma_of_u16 u\<rparr>\<rparr>)
          }
        } else
          Some (True, curve\<lparr>curve_parametric := tf_zero, curve_table_size := value_count,
                  curve_table := Some (ptr_add buf 12)\<rparr>)
      })"

definition read_curve :: "ptr option \<Rightarrow> u32 \<Rightarrow> Curve \<Rightarrow> (bool \<times> Curve) option" where
  "read_curve buf sz curve =
     (case buf of
        None \<Rightarrow> Some (False, curve)
      | Some b \<Rightarrow>
          if sz < 4 then Some (False, curve) else do {
            type \<leftarrow> read_big_u32 b;
            if type = sig ''para'' then read_curve_para b sz curve
            else if type = sig ''curv'' then read_curve_curv b sz curve
            else Some (False, curve)
          })"

definition get_transfer_function ::
  "skcms_ICCProfile \<Rightarrow> skcms_TransferFunction \<Rightarrow> (bool \<times> skcms_TransferFunction) option" where
  "get_transfer_function profile transferFunction = do {
     (fr, rTRC) \<leftarrow> skcms_GetTagBySignature profile (sig ''rTRC'') ICCTag_uninit;
     if \<not> fr then Some (False, transferFunction) else do {
     (fg, gTRC) \<leftarrow> skcms_GetTagBySignature profile (sig ''gTRC'') ICCTag_uninit;
     if \<not> fg then Some (False, transferFunction) else do {
     (fb, bTRC) \<leftarrow> skcms_GetTagBySignature profile (sig ''bTRC'') ICCTag_uninit;
     if \<not> fb then Some (False, transferFunction) else do {
     (okr, rCurve) \<leftarrow> read_curve (Some (tag_buf rTRC)) (tag_size rTRC) Curve_uninit;
     if \<not> okr \<or> curve_table rCurve \<noteq> None then Some (False, transferFunction) else do {
     (okg, gCurve) \<leftarrow> read_curve (Some (tag_buf gTRC)) (tag_size gTRC) Curve_uninit;
     if \<not> okg \<or> curve_table gCurve \<noteq> None then Some (False, transferFunction) else do {
     (okb, bCurve) \<leftarrow> read_curve (Some (tag_buf bTRC)) (tag_size bTRC) Curve_uninit;
     if \<not> okb \<or> curve_table bCurve \<noteq> None then Some (False, transferFunction)
     else if curve_parametric rCurve \<noteq> curve_parametric gCurve
           \<or> curve_parametric rCurve \<noteq> curve_parametric bCurve
     then Some (False, transferFunction)
     else Some (True, curve_parametric rCurve)
     }}}}}}"

section \<open>Parsing a profile\<close>

function check_tags :: "ptr \<Rightarrow> skcms_ICCProfile \<Rightarrow> nat \<Rightarrow> bool option" where
  "check_tags tags profile i =
     (if i < unat (tag_count profile) then
        (case read_big_u32 (tags_offset tags i) of
           None \<Rightarrow> None
         | Some t_offset \<Rightarrow>
            (case read_big_u32 (tags_size tags i) of
               None \<Rightarrow> None
             | Some t_size \<Rightarrow>
                 let tag_end = (ucast t_offset :: u64) + (ucast t_size :: u64) in
                 if t_size < 4 \<or> tag_end > ucast (profile_size profile) then Some False
                 else check_tags tags profile (i + 1)))
      else Some True)"
  by pat_completeness auto
termination
  by (relation "measure (\<lambda>(tags, profile, i). unat (tag_count profile) - i)") auto

declare check_tags.simps [simp del]

text \<open>The block "Byte-swap all header fields" of \<open>skcms_Parse\<close>.\<close>

definition parse_header :: "ptr \<Rightarrow> skcms_ICCProfile \<Rightarrow> skcms_ICCProfile option" where
  "parse_header buf profile = do {
     v_size \<leftarrow> read_big_u32 (ptr_add buf 0);
     v_cmm_type \<leftarrow> read_big_u32 (ptr_add buf 4);
     v_version \<leftarrow> read_big_u32 (ptr_add buf 8);
     v_profile_class \<leftarrow> read_big_u32 (ptr_add buf 12);
     v_data_color_space \<leftarrow> read_big_u32 (ptr_add buf 16);
     v_pcs \<leftarrow> read_big_u32 (ptr_add buf 20);
     v_creation_date_time \<leftarrow> read_big_date_time (ptr_add buf 24);
     v_signature \<leftarrow> read_big_u32 (ptr_add buf 36);
     v_platform \<leftarrow> read_big_u32 (ptr_add buf 40);
     v_flags \<leftarrow> read_big_u32 (ptr_add buf 44);
     v_device_manufacturer \<leftarrow> read_big_u32 (ptr_add buf 48);
     v_device_model \<leftarrow> read_big_u32 (ptr_add buf 52);
     v_device_attributes \<leftarrow> read_big_u64 (ptr_add buf 56);
     v_rendering_intent \<leftarrow> read_big_u32 (ptr_add buf 64);
     v_illuminant_X \<leftarrow> read_big_fixed (ptr_add buf 68);
     v_illuminant_Y \<leftarrow> read_big_fixed (ptr_add buf 72);
     v_illuminant_Z \<leftarrow> read_big_fixed (ptr_add buf 76);
     v_creator \<leftarrow> read_big_u32 (ptr_add buf 80);
     v_profile_id \<leftarrow> read_bytes (ptr_add buf 84) 16;
     v_tag_count \<leftarrow> read_big_u32 (ptr_add buf 128);
     Some (profile\<lparr>buffer := Some buf, profile_size := v_size,
       cmm_type := v_cmm_type, version := v_version, profile_class := v_profile_class,
       data_color_space := v_data_color_space, pcs := v_pcs,
       creation_date_time := v_creation_date_time, profile_signature := v_signature,
       platform := v_platform, flags := v_flags,
       device_manufacturer := v_device_manufacturer, device_model := v_device_model,
       device_attributes := v_device_attributes, rendering_intent := v_rendering_intent,
       illuminant_X := v_illuminant_X, illuminant_Y := v_illuminant_Y,
       illuminant_Z := v_illuminant_Z, creator := v_creator,
       profile_id := v_profile_id, tag_count := v_tag_count\<rparr>)
   }"

text \<open>
  The condition of the \<open>if\<close> under "Validate signature, size (smaller than buffer,
  large enough to hold tag table), and major version".
\<close>

definition header_rejected :: "skcms_ICCProfile \<Rightarrow> nat \<Rightarrow> bool" where
  "header_rejected profile len =
     (let tag_table_size = (ucast (tag_count profile) :: u64) * SAFE_SIZEOF_tag_Layout in
      profile_signature profile \<noteq> sig ''acsp''
      \<or> len < unat (profile_size profile)
      \<or> ucast (profile_size profile) < SAFE_SIZEOF_header_Layout + tag_table_size
      \<or> drop_bit 24 (version profile) > 4)"

text \<open>The float literals \<open>0.9642f\<close>, \<open>1.0000f\<close>, \<open>0.8249f\<close> and \<open>0.0100f\<close>.\<close>

definition lit_0_9642f :: f32 where "lit_0_9642f = f32_of_rat (9642 / 10000)"
definition lit_1_0000f :: f32 where "lit_1_0000f = f32_of_rat (10000 / 10000)"
definition lit_0_8249f :: f32 where "lit_0_8249f = f32_of_rat (8249 / 10000)"
definition lit_0_0100f :: f32 where "lit_0_0100f = f32_of_rat (100 / 10000)"

text \<open>The condition of the \<open>if\<close> under "Validate that illuminant is D50 white".\<close>

definition illuminant_rejected :: "skcms_ICCProfile \<Rightarrow> bool" where
  "illuminant_rejected profile =
     (f32_gt (fabsf (f32_sub (illuminant_X profile) lit_0_9642f)) lit_0_0100f
      \<or> f32_gt (fabsf (f32_sub (illuminant_Y profile) lit_1_0000f)) lit_0_0100f
      \<or> f32_gt (fabsf (f32_sub (illuminant_Z profile) lit_0_8249f)) lit_0_0100f)"

text \<open>
  The block "Pre-parse commonly used tags": two assignments to the profile, each from a
  call that gets a pointer to the field it fills.
\<close>

definition pre_parse :: "skcms_ICCProfile \<Rightarrow> skcms_ICCProfile option" where
  "pre_parse profile = do {
     (r_tf, v_tf) \<leftarrow> get_transfer_function profile (tf profile);
     let profile = profile\<lparr>tf := v_tf, has_tf := r_tf\<rparr>;
     (r_xyz, v_xyz) \<leftarrow> read_to_XYZD50 profile (toXYZD50 profile);
     Some (profile\<lparr>toXYZD50 := v_xyz, has_toXYZD50 := r_xyz\<rparr>)
   }"

text \<open>
  \<open>skcms_Parse(buf, len, profile)\<close>: \<open>bytes\<close> is the buffer with its length
  \<open>len\<close>; the result is the returned flag and the profile as the call leaves it.
  The caller's \<open>profile\<close> pointer is taken to be non-null.
\<close>

definition skcms_Parse :: "u8 list \<Rightarrow> (bool \<times> skcms_ICCProfile) option" where
  "skcms_Parse bytes =
     (let buf = (bytes, 0); len = length bytes; profile = profile_zero in
      if len < unat SAFE_SIZEOF_header_Layout then Some (False, profile) else do {
        profile \<leftarrow> parse_header buf profile;
        if header_rejected profile len then Some (False, profile)
        else if illuminant_rejected profile then Some (False, profile)
        else do {
          ok \<leftarrow> check_tags (get_tag_table buf) profile 0;
          if \<not> ok then Some (False, profile)
          else map_option (Pair True) (pre_parse profile)
        }
      })"

section \<open>Multi-function tables\<close>

text \<open>
  Modelled from the spec: the declaration of \<open>skcms_MultiFunctionTable\<close> is not among
  the sources. Its fields are the ones ICCProfile.c assigns; the integer fields are taken
  to be 32-bit unsigned. They hold a byte, a 16-bit value or a constant up to 256, so the
  products that \<open>init_mft_tables\<close> forms from them before it widens to \<open>uint64_t\<close>
  are below \<open>2 ^ 18\<close>. \<open>input_tables\<close> has four entries and \<open>output_tables\<close>
  three, as the comments of \<open>read_mft_common\<close> say of \<open>ARRAY_COUNT\<close>.
\<close>

record skcms_MultiFunctionTable =
  matrix :: skcms_Matrix3x3
  input_channels :: u32
  output_channels :: u32
  grid_points :: u32
  input_table_size :: u32
  output_table_size :: u32
  table_byte_width :: u32
  input_tables :: "ptr option list"
  grid :: "ptr option"
  output_tables :: "ptr option list"

definition read_u8 :: "ptr \<Rightarrow> u8 option" where
  "read_u8 p = (if in_bounds p 1 then Some (fst p ! snd p) else None)"

text \<open>
  The two nested loops over \<open>r\<close> and \<open>c\<close> read nine s15.16 values, four bytes apart,
  from \<open>mftTag->matrix\<close> at offset 12 of the tag.
\<close>

definition read_mft_matrix :: "ptr \<Rightarrow> skcms_Matrix3x3 option" where
  "read_mft_matrix mtx_ptr =
     those (map (\<lambda>r. those (map (\<lambda>c. read_big_fixed (ptr_add mtx_ptr (4 * (3 * r + c))))
       [0..<3])) [0..<3])"

definition read_mft_common ::
  "ptr \<Rightarrow> skcms_MultiFunctionTable \<Rightarrow> (bool \<times> skcms_MultiFunctionTable) option" where
  "read_mft_common mftTag mft = do {
     m \<leftarrow> read_mft_matrix (ptr_add mftTag 12);
     ic \<leftarrow> read_u8 (ptr_add mftTag 8);
     gp \<leftarrow> read_u8 (ptr_add mftTag 10);
     oc \<leftarrow> read_u8 (ptr_add mftTag 9);
     let mft = mft\<lparr>matrix := m, input_channels := ucast ic, grid_points := ucast gp,
                   output_channels := ucast oc\<rparr>;
     if output_channels mft \<noteq> 3 then Some (False, mft)
     else if input_channels mft < 1 \<or> input_channels mft > 4 then Some (False, mft)
     else if grid_points mft < 2 then Some (False, mft)
     else Some (True, mft)
   }"

text \<open>The loop \<open>for (axis = 0; axis < input_channels; ++axis) grid_size *= grid_points\<close>.\<close>

primrec grid_size_loop :: "u64 \<Rightarrow> u64 \<Rightarrow> nat \<Rightarrow> u64" where
  "grid_size_loop grid_size gp 0 = grid_size"
| "grid_size_loop grid_size gp (Suc n) = grid_size_loop (grid_size * gp) gp n"

definition init_mft_tables ::
  "ptr \<Rightarrow> u64 \<Rightarrow> skcms_MultiFunctionTable \<Rightarrow> bool \<times> skcms_MultiFunctionTable" where
  "init_mft_tables table_base max_tables_len mft =
     (let byte_len_per_input_table = (ucast (input_table_size mft * table_byte_width mft) :: u64);
          byte_len_per_output_table = (ucast (output_table_size mft * table_byte_width mft) :: u64);
          byte_len_all_input_tables = ucast (input_channels mft) * byte_len_per_input_table;
          byte_len_all_output_tables = ucast (output_channels mft) * byte_len_per_output_table;
          grid_size = grid_size_loop (ucast (output_channels mft * table_byte_width mft))
                        (ucast (grid_points mft)) (unat (input_channels mft))
      in if max_tables_len < byte_len_all_input_tables + grid_size + byte_len_all_output_tables
         then (False, mft)
         else (True, mft\<lparr>
           input_tables := map (\<lambda>i. if i < unat (input_channels mft)
                                 then Some (ptr_add table_base (unat (of_nat i * byte_len_per_input_table)))
                                 else input_tables mft ! i) [0..<4],
           grid := Some (ptr_add table_base (unat byte_len_all_input_tables)),
           output_tables := map (\<lambda>i. Some (ptr_add table_base
               (unat (byte_len_all_input_tables + grid_size + of_nat i * byte_len_per_output_table))))
             [0..<3]\<rparr>))"

definition read_tag_mft1 ::
  "skcms_ICCTag \<Rightarrow> skcms_MultiFunctionTable \<Rightarrow> (bool \<times> skcms_MultiFunctionTable) option" where
  "read_tag_mft1 tag mft =
     (if ucast (tag_size tag) < SAFE_SIZEOF_mft1_Layout then Some (False, mft) else do {
        (ok, mft) \<leftarrow> read_mft_common (tag_buf tag) mft;
        if \<not> ok then Some (False, mft) else do {
          let mft = mft\<lparr>input_table_size := 256, output_table_size := 256,
                        table_byte_width := 1\<rparr>;
          Some (init_mft_tables (ptr_add (tag_buf tag) 48)
                 (ucast (tag_size tag) - SAFE_SIZEOF_mft1_Layout) mft)
        }
      })"

definition read_tag_mft2 ::
  "skcms_ICCTag \<Rightarrow> skcms_MultiFunctionTable \<Rightarrow> (bool \<times> skcms_MultiFunctionTable) option" where
  "read_tag_mft2 tag mft =
     (if ucast (tag_size tag) < SAFE_SIZEOF_mft2_Layout then Some (False, mft) else do {
        (ok, mft) \<leftarrow> read_mft_common (tag_buf tag) mft;
        if \<not> ok then Some (False, mft) else do {
          its \<leftarrow> read_big_u16 (ptr_add (tag_buf tag) 48);
          ots \<leftarrow> read_big_u16 (ptr_add (tag_buf tag) 50);
          let mft = mft\<lparr>input_table_size := ucast its, output_table_size := ucast ots,
                        table_byte_width := 2\<rparr>;
          if input_table_size mft < 2 \<or> input_table_size mft > 4096
             \<or> output_table_size mft < 2 \<or> output_table_size mft > 4096
          then Some (False, mft)
          else Some (init_mft_tables (ptr_add (tag_buf tag) 52)
                      (ucast (tag_size tag) - SAFE_SIZEOF_mft2_Layout) mft)
        }
      })"

definition skcms_GetMultiFunctionTable ::
  "skcms_ICCProfile \<Rightarrow> skcms_MultiFunctionTable
     \<Rightarrow> (bool \<times> skcms_MultiFunctionTable) option" where
  "skcms_GetMultiFunctionTable profile mft = do {
     (found, a2b) \<leftarrow> skcms_GetTagBySignature profile (sig ''A2B0'') ICCTag_uninit;
     if \<not> found then Some (False, mft)
     else if tag_type a2b = sig ''mft1'' then read_tag_mft1 a2b mft
     else if tag_type a2b = sig ''mft2'' then read_tag_mft2 a2b mft
     else Some (False, mft)
   }"

section \<open>Example buffers\<close>

text \<open>A well-formed profile with an empty tag table: 132 bytes, version 4, signature acsp, illuminant D50.\<close>

definition profile_minimal :: "u8 list" where
  "profile_minimal =
    [0, 0, 0, 132, 0, 0, 0, 0, 4, 0, 0, 0, 0, 0, 0, 0, 0, 0, 0, 0, 0, 0, 0, 0, 0, 0, 0, 0, 0, 0,
     0, 0, 0, 0, 0, 0, 97, 99, 115, 112, 0, 0, 0, 0, 0, 0, 0, 0, 0, 0, 0, 0, 0, 0, 0, 0, 0, 0, 0,
     0, 0, 0, 0, 0, 0, 0, 0, 0, 0, 0, 246, 214, 0, 1, 0, 0, 0, 0, 211, 45, 0, 0, 0, 0, 0, 0, 0,
     0, 0, 0, 0, 0, 0, 0, 0, 0, 0, 0, 0, 0, 0, 0, 0, 0, 0, 0, 0, 0, 0, 0, 0, 0, 0, 0, 0, 0, 0, 0,
     0, 0, 0, 0, 0, 0, 0, 0, 0, 0, 0, 0, 0, 0]"

text \<open>The same header with major version 5.\<close>

definition profile_v5 :: "u8 list" where
  "profile_v5 =
    [0, 0, 0, 132, 0, 0, 0, 0, 5, 0, 0, 0, 0, 0, 0, 0, 0, 0, 0, 0, 0, 0, 0, 0, 0, 0, 0, 0, 0, 0,
     0, 0, 0, 0, 0, 0, 97, 99, 115, 112, 0, 0, 0, 0, 0, 0, 0, 0, 0, 0, 0, 0, 0, 0, 0, 0, 0, 0, 0,
     0, 0, 0, 0, 0, 0, 0, 0, 0, 0, 0, 246, 214, 0, 1, 0, 0, 0, 0, 211, 45, 0, 0, 0, 0, 0, 0, 0,
     0, 0, 0, 0, 0, 0, 0, 0, 0, 0, 0, 0, 0, 0, 0, 0, 0, 0, 0, 0, 0, 0, 0, 0, 0, 0, 0, 0, 0, 0, 0,
     0, 0, 0, 0, 0, 0, 0, 0, 0, 0, 0, 0, 0, 0]"

text \<open>Three TRC tags that share one 'curv' tag with a table of two samples.\<close>

definition profile_tabulated :: "u8 list" where
  "profile_tabulated =
    [0, 0, 0, 184, 0, 0, 0, 0, 4, 0, 0, 0, 0, 0, 0, 0, 0, 0, 0, 0, 0, 0, 0, 0, 0, 0, 0, 0, 0, 0,
     0, 0, 0, 0, 0, 0, 97, 99, 115, 112, 0, 0, 0, 0, 0, 0, 0, 0, 0, 0, 0, 0, 0, 0, 0, 0, 0, 0, 0,
     0, 0, 0, 0, 0, 0, 0, 0, 0, 0, 0, 246, 214, 0, 1, 0, 0, 0, 0, 211, 45, 0, 0, 0, 0, 0, 0, 0,
     0, 0, 0, 0, 0, 0, 0, 0, 0, 0, 0, 0, 0, 0, 0, 0, 0, 0, 0, 0, 0, 0, 0, 0, 0, 0, 0, 0, 0, 0, 0,
     0, 0, 0, 0, 0, 0, 0, 0, 0, 0, 0, 0, 0, 3, 114, 84, 82, 67, 0, 0, 0, 168, 0, 0, 0, 16, 103,
     84, 82, 67, 0, 0, 0, 168, 0, 0, 0, 16, 98, 84, 82, 67, 0, 0, 0, 168, 0, 0, 0, 16, 99, 117,
     114, 118, 0, 0, 0, 0, 0, 0, 0, 2, 0, 0, 255, 255]"

text \<open>Three TRC tags that share one 'curv' gamma of 0x0233 / 256, and the three XYZ tags.\<close>

definition profile_matrix :: "u8 list" where
  "profile_matrix =
    [0, 0, 1, 24, 0, 0, 0, 0, 4, 0, 0, 0, 0, 0, 0, 0, 0, 0, 0, 0, 0, 0, 0, 0, 0, 0, 0, 0, 0, 0,
     0, 0, 0, 0, 0, 0, 97, 99, 115, 112, 0, 0, 0, 0, 0, 0, 0, 0, 0, 0, 0, 0, 0, 0, 0, 0, 0, 0, 0,
     0, 0, 0, 0, 0, 0, 0, 0, 0, 0, 0, 246, 214, 0, 1, 0, 0, 0, 0, 211, 45, 0, 0, 0, 0, 0, 0, 0,
     0, 0, 0, 0, 0, 0, 0, 0, 0, 0, 0, 0, 0, 0, 0, 0, 0, 0, 0, 0, 0, 0, 0, 0, 0, 0, 0, 0, 0, 0, 0,
     0, 0, 0, 0, 0, 0, 0, 0, 0, 0, 0, 0, 0, 6, 114, 84, 82, 67, 0, 0, 0, 204, 0, 0, 0, 14, 103,
     84, 82, 67, 0, 0, 0, 204, 0, 0, 0, 14, 98, 84, 82, 67, 0, 0, 0, 204, 0, 0, 0, 14, 114, 88,
     89, 90, 0, 0, 0, 220, 0, 0, 0, 20, 103, 88, 89, 90, 0, 0, 0, 240, 0, 0, 0, 20, 98, 88, 89,
     90, 0, 0, 1, 4, 0, 0, 0, 20, 99, 117, 114, 118, 0, 0, 0, 0, 0, 0, 0, 1, 2, 51, 0, 0, 88, 89,
     90, 32, 0, 0, 0, 0, 0, 0, 111, 162, 0, 0, 56, 245, 0, 0, 3, 144, 88, 89, 90, 32, 0, 0, 0, 0,
     0, 0, 98, 153, 0, 0, 183, 133, 0, 0, 24, 218, 88, 89, 90, 32, 0, 0, 0, 0, 0, 0, 36, 160, 0,
     0, 15, 132, 0, 0, 182, 207]"

text \<open>One A2B0 tag of type 'mft2': one input channel, two grid points, tables of two entries.\<close>

definition profile_a2b :: "u8 list" where
  "profile_a2b =
    [0, 0, 0, 224, 0, 0, 0, 0, 4, 0, 0, 0, 0, 0, 0, 0, 0, 0, 0, 0, 0, 0, 0, 0, 0, 0, 0, 0, 0, 0,
     0, 0, 0, 0, 0, 0, 97, 99, 115, 112, 0, 0, 0, 0, 0, 0, 0, 0, 0, 0, 0, 0, 0, 0, 0, 0, 0, 0, 0,
     0, 0, 0, 0, 0, 0, 0, 0, 0, 0, 0, 246, 214, 0, 1, 0, 0, 0, 0, 211, 45, 0, 0, 0, 0, 0, 0, 0,
     0, 0, 0, 0, 0, 0, 0, 0, 0, 0, 0, 0, 0, 0, 0, 0, 0, 0, 0, 0, 0, 0, 0, 0, 0, 0, 0, 0, 0, 0, 0,
     0, 0, 0, 0, 0, 0, 0, 0, 0, 0, 0, 0, 0, 1, 65, 50, 66, 48, 0, 0, 0, 144, 0, 0, 0, 80, 109,
     102, 116, 50, 0, 0, 0, 0, 1, 3, 2, 0, 0, 1, 0, 0, 0, 0, 0, 0, 0, 0, 0, 0, 0, 0, 0, 0, 0, 1,
     0, 0, 0, 0, 0, 0, 0, 0, 0, 0, 0, 0, 0, 0, 0, 1, 0, 0, 0, 2, 0, 2, 0, 0, 255, 255, 0, 0, 0,
     0, 0, 0, 255, 255, 255, 255, 255, 255, 0, 0, 255, 255, 0, 0, 255, 255, 0, 0, 255, 255]"

text \<open>One A2B0 tag of type 'mft2' with four input channels: two grid points, tables of two entries, a grid of 96 bytes.\<close>

definition profile_a2b_four :: "u8 list" where
  "profile_a2b_four =
    [0, 0, 1, 64, 0, 0, 0, 0, 4, 0, 0, 0, 0, 0, 0, 0, 0, 0, 0, 0, 0, 0, 0, 0, 0, 0, 0, 0, 0, 0,
     0, 0, 0, 0, 0, 0, 97, 99, 115, 112, 0, 0, 0, 0, 0, 0, 0, 0, 0, 0, 0, 0, 0, 0, 0, 0, 0, 0, 0,
     0, 0, 0, 0, 0, 0, 0, 0, 0, 0, 0, 246, 214, 0, 1, 0, 0, 0, 0, 211, 45, 0, 0, 0, 0, 0, 0, 0,
     0, 0, 0, 0, 0, 0, 0, 0, 0, 0, 0, 0, 0, 0, 0, 0, 0, 0, 0, 0, 0, 0, 0, 0, 0, 0, 0, 0, 0, 0, 0,
     0, 0, 0, 0, 0, 0, 0, 0, 0, 0, 0, 0, 0, 1, 65, 50, 66, 48, 0, 0, 0, 144, 0, 0, 0, 176, 109,
     102, 116, 50, 0, 0, 0, 0, 4, 3, 2, 0, 0, 1, 0, 0, 0, 0, 0, 0, 0, 0, 0, 0, 0, 0, 0, 0, 0, 1,
     0, 0, 0, 0, 0, 0, 0, 0, 0, 0, 0, 0, 0, 0, 0, 1, 0, 0, 0, 2, 0, 2, 0, 0, 255, 255, 0, 0, 255,
     255, 0, 0, 255, 255, 0, 0, 255, 255, 0, 0, 0, 0, 0, 0, 255, 255, 255, 255, 255, 255, 0, 0,
     0, 0, 0, 0, 255, 255, 255, 255, 255, 255, 0, 0, 0, 0, 0, 0, 255, 255, 255, 255, 255, 255, 0,
     0, 0, 0, 0, 0, 255, 255, 255, 255, 255, 255, 0, 0, 0, 0, 0, 0, 255, 255, 255, 255, 255, 255,
     0, 0, 0, 0, 0, 0, 255, 255, 255, 255, 255, 255, 0, 0, 0, 0, 0, 0, 255, 255, 255, 255, 255,
     255, 0, 0, 0, 0, 0, 0, 255, 255, 255, 255, 255, 255, 0, 0, 255, 255, 0, 0, 255, 255, 0, 0,
     255, 255]"

text \<open>A 'curv' tag with no value.\<close>

definition curv_empty :: "u8 list" where
  "curv_empty =
    [99, 117, 114, 118, 0, 0, 0, 0, 0, 0, 0, 0]"

text \<open>A 'curv' tag with the single value 0x0233.\<close>

definition curv_gamma :: "u8 list" where
  "curv_gamma =
    [99, 117, 114, 118, 0, 0, 0, 0, 0, 0, 0, 1, 2, 51]"

text \<open>A 'curv' tag with the two samples 0x0000 and 0xFFFF.\<close>

definition curv_table :: "u8 list" where
  "curv_table =
    [99, 117, 114, 118, 0, 0, 0, 0, 0, 0, 0, 2, 0, 0, 255, 255]"

text \<open>A 'para' tag of function type 1 with g = 2, a = 1, b = 1/2.\<close>

definition para_GAB :: "u8 list" where
  "para_GAB =
    [112, 97, 114, 97, 0, 0, 0, 0, 0, 1, 0, 0, 0, 2, 0, 0, 0, 1, 0, 0, 0, 0, 128, 0]"

text \<open>The profile with the three TRC tags, with the size of the first tag entry set to 3.\<close>

definition profile_bad_tag :: "u8 list" where
  "profile_bad_tag = profile_tabulated[143 := 3]"

definition mft_zero :: skcms_MultiFunctionTable where
  "mft_zero = \<lparr>matrix = matrix_zero, input_channels = 0, output_channels = 0,
     grid_points = 0, input_table_size = 0, output_table_size = 0, table_byte_width = 0,
     input_tables = replicate 4 None, grid = None, output_tables = replicate 3 None\<rparr>"

section \<open>Predicates of the specification\<close>

text \<open>
  The conditions on the header, on the bytes of the buffer: the length, the signature at
  offset 36, the declared size at offset 0 against the length and against the end of the
  tag table (the tag count is at offset 128), the top byte of the version at offset 8,
  and the three illuminant components at offsets 68, 72 and 76, read as s15.16 and
  compared over the rationals with 0.9642, 1.0000 and 0.8249.
\<close>

definition spec_header_valid :: "u8 list \<Rightarrow> bool" where
  "spec_header_valid bytes =
     (132 \<le> length bytes
      \<and> be_u32 (bytes, 36) = sig ''acsp''
      \<and> unat (be_u32 (bytes, 0)) \<le> length bytes
      \<and> 132 + 12 * unat (be_u32 (bytes, 128)) \<le> unat (be_u32 (bytes, 0))
      \<and> unat (drop_bit 24 (be_u32 (bytes, 8))) \<le> 4
      \<and> \<bar>of_int (sint (be_u32 (bytes, 68))) / 65536 - 9642 / 10000\<bar> \<le> (1 / 100 :: rat)
      \<and> \<bar>of_int (sint (be_u32 (bytes, 72))) / 65536 - 10000 / 10000\<bar> \<le> (1 / 100 :: rat)
      \<and> \<bar>of_int (sint (be_u32 (bytes, 76))) / 65536 - 8249 / 10000\<bar> \<le> (1 / 100 :: rat))"

text \<open>
  Entry \<open>i\<close> of the tag table has its offset at \<open>132 + 12 * i + 4\<close> and its size
  at \<open>132 + 12 * i + 8\<close>; the sum is taken over the natural numbers.
\<close>

definition spec_tag_entry_valid :: "u8 list \<Rightarrow> nat \<Rightarrow> bool" where
  "spec_tag_entry_valid bytes i =
     (4 \<le> unat (be_u32 (bytes, 132 + 12 * i + 8))
      \<and> unat (be_u32 (bytes, 132 + 12 * i + 4)) + unat (be_u32 (bytes, 132 + 12 * i + 8))
          \<le> unat (be_u32 (bytes, 0)))"

text \<open>
  The transfer function with gamma \<open>g\<close>, \<open>a = 1\<close> and the other parameters zero, and
  the curve that the claim describes for a 'curv' tag, by its value count at offset 8.
\<close>

definition tf_gamma :: "f32 \<Rightarrow> skcms_TransferFunction" where
  "tf_gamma g = \<lparr>tf_g = g, tf_a = F32 False 1, tf_b = F32 False 0, tf_c = F32 False 0,
     tf_d = F32 False 0, tf_e = F32 False 0, tf_f = F32 False 0\<rparr>"

definition spec_curv_curve :: "ptr \<Rightarrow> Curve" where
  "spec_curv_curve buf = (let n = be_u32 (ptr_add buf 8) in
     if n = 0 then \<lparr>curve_parametric = tf_gamma (F32 False 1), curve_table = None,
                     curve_table_size = 0\<rparr>
     else if n = 1 then
       \<lparr>curve_parametric = tf_gamma (F32 False (of_nat (unat (be_u16 (ptr_add buf 12))) / 256)),
        curve_table = None, curve_table_size = 0\<rparr>
     else \<lparr>curve_parametric = tf_zero, curve_table = Some (ptr_add buf 12),
            curve_table_size = n\<rparr>)"

text \<open>
  The piecewise function of the comment on \<open>skcms_TransferFunction\<close> in skcms.h,
  over the reals: \<open>sign(x) * (c*|x| + f)\<close> for \<open>|x| < d\<close> and
  \<open>sign(x) * ((a*|x| + b)^g + e)\<close> otherwise.
\<close>

definition tf_eval :: "skcms_TransferFunction \<Rightarrow> real \<Rightarrow> real" where
  "tf_eval t x = (let v = (\<lambda>s. real_of_rat (f32_val (s t))) in
     if \<bar>x\<bar> < v tf_d then sgn x * (v tf_c * \<bar>x\<bar> + v tf_f)
     else sgn x * ((v tf_a * \<bar>x\<bar> + v tf_b) powr v tf_g + v tf_e))"

text \<open>
  The number of s15.16 parameters of the function types 0 to 4 of a 'para' tag, the
  transfer function that the claim describes for each type from the parameters
  \<open>P 0, P 1, ...\<close>, and parameter \<open>i\<close> of the tag, at offset \<open>12 + 4 * i\<close>.
\<close>

definition spec_para_count :: "u16 \<Rightarrow> nat" where
  "spec_para_count ft = [1, 3, 4, 5, 7] ! unat ft"

definition spec_para_function :: "u16 \<Rightarrow> (nat \<Rightarrow> f32) \<Rightarrow> skcms_TransferFunction" where
  "spec_para_function ft P =
     (if ft = 0 then tf_gamma (P 0)
      else if ft = 1 then
        (tf_gamma (P 0))\<lparr>tf_a := P 1, tf_b := P 2, tf_d := f32_div (f32_neg (P 2)) (P 1)\<rparr>
      else if ft = 2 then
        (tf_gamma (P 0))\<lparr>tf_a := P 1, tf_b := P 2, tf_d := f32_div (f32_neg (P 2)) (P 1),
           tf_e := P 3, tf_f := P 3\<rparr>
      else if ft = 3 then
        (tf_gamma (P 0))\<lparr>tf_a := P 1, tf_b := P 2, tf_c := P 3, tf_d := P 4\<rparr>
      else
        (tf_gamma (P 0))\<lparr>tf_a := P 1, tf_b := P 2, tf_c := P 3, tf_d := P 4, tf_e := P 5,
           tf_f := P 6\<rparr>)"

definition para_parameter :: "ptr \<Rightarrow> nat \<Rightarrow> f32" where
  "para_parameter buf i = be_fixed (ptr_add buf (12 + 4 * i))"

text \<open>
  The tag that entry \<open>i\<close> of the tag table describes, the validity of all entries,
  the first entry with a given signature, and the condition that the tag table and the
  declared size lie inside the buffer.
\<close>

definition tag_entry :: "u8 list \<Rightarrow> nat \<Rightarrow> skcms_ICCTag" where
  "tag_entry bytes i =
     (let off = unat (be_u32 (bytes, 132 + 12 * i + 4)) in
      \<lparr>tag_signature = be_u32 (bytes, 132 + 12 * i), tag_type = be_u32 (bytes, off),
       tag_size = be_u32 (bytes, 132 + 12 * i + 8), tag_buf = (bytes, off)\<rparr>)"

definition spec_tag_table_valid :: "u8 list \<Rightarrow> bool" where
  "spec_tag_table_valid bytes =
     (\<forall>i < unat (be_u32 (bytes, 128)). spec_tag_entry_valid bytes i)"

definition find_tag :: "u8 list \<Rightarrow> u32 \<Rightarrow> nat option" where
  "find_tag bytes sg =
     find (\<lambda>j. be_u32 (bytes, 132 + 12 * j) = sg) [0..<unat (be_u32 (bytes, 128))]"

definition table_in_buffer :: "u8 list \<Rightarrow> bool" where
  "table_in_buffer bytes =
     (132 + 12 * unat (be_u32 (bytes, 128)) \<le> unat (be_u32 (bytes, 0))
      \<and> unat (be_u32 (bytes, 0)) \<le> length bytes)"

text \<open>
  The parametric curve of the tag with signature \<open>sg\<close>: the tag is present, it parses
  as a curve, and the curve is not a table. \<open>xyz_of_tag\<close> is the triple of an
  'XYZ ' tag of at least 20 bytes, read at the offsets 8, 12 and 16.
\<close>

definition parametric_of_tag :: "u8 list \<Rightarrow> u32 \<Rightarrow> skcms_TransferFunction option" where
  "parametric_of_tag bytes sg =
     (case find_tag bytes sg of
        None \<Rightarrow> None
      | Some j \<Rightarrow>
          (case read_curve (Some (tag_buf (tag_entry bytes j))) (tag_size (tag_entry bytes j))
                  Curve_uninit of
             None \<Rightarrow> None
           | Some (ok, c) \<Rightarrow>
               if ok \<and> curve_table c = None then Some (curve_parametric c) else None))"

definition xyz_of_tag :: "u8 list \<Rightarrow> u32 \<Rightarrow> (f32 \<times> f32 \<times> f32) option" where
  "xyz_of_tag bytes sg =
     (case find_tag bytes sg of
        None \<Rightarrow> None
      | Some j \<Rightarrow>
          let t = tag_entry bytes j in
          if tag_type t = sig ''XYZ '' \<and> 20 \<le> unat (tag_size t)
          then Some (be_fixed (ptr_add (tag_buf t) 8), be_fixed (ptr_add (tag_buf t) 12),
                     be_fixed (ptr_add (tag_buf t) 16))
          else None)"

text \<open>
  The flag and the value that \<open>skcms_Parse\<close> leaves in \<open>has_tf\<close>, \<open>tf\<close> and
  in \<open>has_toXYZD50\<close>, \<open>toXYZD50\<close>, from the values \<open>tf0\<close> and \<open>m\<close> before.
\<close>

definition tf_result :: "u8 list \<Rightarrow> skcms_TransferFunction \<Rightarrow> bool \<times> skcms_TransferFunction" where
  "tf_result bytes tf0 =
     (case (parametric_of_tag bytes (sig ''rTRC''), parametric_of_tag bytes (sig ''gTRC''),
            parametric_of_tag bytes (sig ''bTRC'')) of
        (Some r, Some g, Some b) \<Rightarrow> if r = g \<and> r = b then (True, r) else (False, tf0)
      | _ \<Rightarrow> (False, tf0))"

definition xyz_result :: "u8 list \<Rightarrow> skcms_Matrix3x3 \<Rightarrow> bool \<times> skcms_Matrix3x3" where
  "xyz_result bytes m =
     (if find_tag bytes (sig ''rXYZ'') = None \<or> find_tag bytes (sig ''gXYZ'') = None
         \<or> find_tag bytes (sig ''bXYZ'') = None then (False, m)
      else case xyz_of_tag bytes (sig ''rXYZ'') of
        None \<Rightarrow> (False, m)
      | Some r \<Rightarrow>
         (case xyz_of_tag bytes (sig ''gXYZ'') of
            None \<Rightarrow> (False, set_col m 0 r)
          | Some g \<Rightarrow>
             (case xyz_of_tag bytes (sig ''bXYZ'') of
                None \<Rightarrow> (False, set_col (set_col m 0 r) 1 g)
              | Some b \<Rightarrow> (True, set_col (set_col (set_col m 0 r) 1 g) 2 b))))"

text \<open>
  The multi-function table in the words of the specification: the fields of
  the tag at their offsets (input channels at 8, output channels at 9, grid points at 10,
  the matrix at 12, and for 'mft2' the two table sizes at 48 and 50), and the conditions
  under which the tag is accepted.
\<close>

definition byte_at :: "ptr \<Rightarrow> nat \<Rightarrow> u8" where
  "byte_at b n = fst b ! (snd b + n)"

definition mft_fields :: "skcms_ICCTag \<Rightarrow> skcms_MultiFunctionTable \<Rightarrow> skcms_MultiFunctionTable" where
  "mft_fields t mft =
     (let b = tag_buf t; one = (tag_type t = sig ''mft1'') in
      mft\<lparr>matrix := map (\<lambda>r. map (\<lambda>c. be_fixed (ptr_add b (12 + 4 * (3 * r + c)))) [0..<3]) [0..<3],
          input_channels := ucast (byte_at b 8), grid_points := ucast (byte_at b 10),
          output_channels := ucast (byte_at b 9),
          input_table_size := (if one then 256 else ucast (be_u16 (ptr_add b 48))),
          output_table_size := (if one then 256 else ucast (be_u16 (ptr_add b 50))),
          table_byte_width := (if one then 1 else 2)\<rparr>)"

definition spec_mft_accepted :: "skcms_ICCTag \<Rightarrow> bool" where
  "spec_mft_accepted t =
     (let m = mft_fields t mft_zero;
          layout = (if tag_type t = sig ''mft1'' then 48 else 52);
          ic = unat (input_channels m); oc = unat (output_channels m);
          gp = unat (grid_points m); width = unat (table_byte_width m);
          its = unat (input_table_size m); ots = unat (output_table_size m) in
      (tag_type t = sig ''mft1'' \<or> tag_type t = sig ''mft2'')
      \<and> layout \<le> unat (tag_size t)
      \<and> oc = 3 \<and> 1 \<le> ic \<and> ic \<le> 4 \<and> 2 \<le> gp
      \<and> 2 \<le> its \<and> its \<le> 4096 \<and> 2 \<le> ots \<and> ots \<le> 4096
      \<and> ic * its * width + oc * width * gp ^ ic + oc * ots * width
          \<le> unat (tag_size t) - layout)"

section \<open>Facts about the float model\<close>

lemma ilog2_bounds:
  assumes "0 < x"
  shows "2 powi ilog2 x \<le> x \<and> x < 2 powi (ilog2 x + 1)"
proof -
  obtain a b where q: "quotient_of x = (a, b)" by (cases "quotient_of x")
  have b: "0 < b" using q by (rule quotient_of_denom_pos)
  have x: "x = of_int a / of_int b" using q by (rule quotient_of_div)
  have a: "0 < a" using assms b x by (simp add: zero_less_divide_iff)
  define la where "la = bitlen a"
  define lb where "lb = bitlen b"
  have la1: "1 \<le> la" and lb1: "1 \<le> lb"
    using a b bitlen_eq_zero_iff[of a] bitlen_eq_zero_iff[of b] bitlen_nonneg[of a] bitlen_nonneg[of b]
    by (auto simp: la_def lb_def)
  have ba: "2 ^ nat (la - 1) \<le> a" "a < 2 ^ nat la"
    using bitlen_bounds[OF a] by (auto simp: la_def)
  have bb: "2 ^ nat (lb - 1) \<le> b" "b < 2 ^ nat lb"
    using bitlen_bounds[OF b] by (auto simp: lb_def)
  have ra: "(2::rat) powi (la - 1) \<le> of_int a" "of_int a < (2::rat) powi la"
  proof -
    have "(of_int (2 ^ nat (la - 1)) :: rat) \<le> of_int a"
      using ba(1) by (rule iffD2[OF of_int_le_iff])
    then show "(2::rat) powi (la - 1) \<le> of_int a"
      using la1 by (simp add: power_int_nonneg_exp)
    have "(of_int a :: rat) < of_int (2 ^ nat la)"
      using ba(2) by (rule iffD2[OF of_int_less_iff])
    then show "of_int a < (2::rat) powi la"
      using la1 by (simp add: power_int_nonneg_exp)
  qed
  have rb: "(2::rat) powi (lb - 1) \<le> of_int b" "of_int b < (2::rat) powi lb"
  proof -
    have "(of_int (2 ^ nat (lb - 1)) :: rat) \<le> of_int b"
      using bb(1) by (rule iffD2[OF of_int_le_iff])
    then show "(2::rat) powi (lb - 1) \<le> of_int b"
      using lb1 by (simp add: power_int_nonneg_exp)
    have "(of_int b :: rat) < of_int (2 ^ nat lb)"
      using bb(2) by (rule iffD2[OF of_int_less_iff])
    then show "of_int b < (2::rat) powi lb"
      using lb1 by (simp add: power_int_nonneg_exp)
  qed
  have bpos: "(0::rat) < of_int b" using b by simp
  have up: "x < 2 powi (la - lb + 1)"
  proof -
    have "of_int a < (2::rat) powi la" by (rule ra)
    also have "\<dots> = 2 powi (la - lb + 1) * 2 powi (lb - 1)"
      by (simp flip: power_int_add)
    also have "\<dots> \<le> 2 powi (la - lb + 1) * of_int b"
      by (rule mult_left_mono[OF rb(1)]) simp
    finally show ?thesis using bpos by (simp add: x pos_divide_less_eq)
  qed
  have lo: "2 powi (la - lb - 1) \<le> x"
  proof -
    have "2 powi (la - lb - 1) * of_int b \<le> 2 powi (la - lb - 1) * (2::rat) powi lb"
      by (rule mult_left_mono) (use rb in simp_all)
    also have "\<dots> = 2 powi (la - 1)" by (simp flip: power_int_add)
    also have "\<dots> \<le> of_int a" by (rule ra)
    finally show ?thesis using bpos by (simp add: x pos_le_divide_eq)
  qed
  show ?thesis
  proof (cases "2 powi (la - lb) \<le> x")
    case True
    then have "ilog2 x = la - lb" by (simp add: ilog2_def q la_def lb_def)
    then show ?thesis using True up by simp
  next
    case False
    then have "ilog2 x = la - lb - 1" by (simp add: ilog2_def q la_def lb_def)
    then show ?thesis using False lo by simp
  qed
qed

lemma ilog2_ge: "0 < x \<Longrightarrow> 2 powi e \<le> x \<Longrightarrow> e \<le> ilog2 x"
proof (rule ccontr)
  assume x: "0 < x" and e: "2 powi e \<le> x" and n: "\<not> e \<le> ilog2 x"
  then have "ilog2 x + 1 \<le> e" by simp
  then have "(2::rat) powi (ilog2 x + 1) \<le> 2 powi e" by (intro power_int_increasing) simp_all
  with ilog2_bounds[OF x] e show False by simp
qed

lemma ilog2_less: "0 < x \<Longrightarrow> x < 2 powi e \<Longrightarrow> ilog2 x < e"
proof (rule ccontr)
  assume x: "0 < x" and e: "x < 2 powi e" and n: "\<not> ilog2 x < e"
  then have "(2::rat) powi e \<le> 2 powi ilog2 x" by (intro power_int_increasing) simp_all
  with ilog2_bounds[OF x] e show False by simp
qed

lemma round_even_of_int [simp]: "round_even (of_int n) = n"
  by (simp add: round_even_def)

lemma round_even_ge: "of_int m \<le> q \<Longrightarrow> m \<le> round_even q"
  using le_floor_iff[of m q] by (auto simp: round_even_def Let_def)

lemma f32_rnd_exact:
  assumes n: "0 \<le> n" "n < 2 ^ 24" and j: "- 149 \<le> j"
  shows "f32_rnd (of_int n * 2 powi j) = of_int n * 2 powi j"
proof (cases "n = 0")
  case True
  then show ?thesis by (simp add: f32_rnd_def)
next
  case False
  define x :: rat where "x = of_int n * 2 powi j"
  have xpos: "0 < x" using n False by (simp add: x_def)
  have "(of_int n :: rat) < of_int (2 ^ 24)" using n(2) by (rule iffD2[OF of_int_less_iff])
  then have "(of_int n :: rat) < 2 powi 24" by simp
  then have "x < 2 powi 24 * 2 powi j"
    unfolding x_def by (rule mult_strict_right_mono) simp
  also have "\<dots> = 2 powi (24 + j)" by (rule power_int_add[symmetric]) simp
  finally have lt: "ilog2 x < 24 + j" by (rule ilog2_less[OF xpos])
  define e where "e = max (ilog2 x) (- 126)"
  have e: "e - 23 \<le> j" using lt j by (simp add: e_def)
  define k where "k = nat (j - (e - 23))"
  have "x / 2 powi (e - 23) = of_int n * 2 powi (j - (e - 23))"
    by (simp add: x_def power_int_diff)
  also have "\<dots> = of_int (n * 2 ^ k)"
    using e by (simp add: k_def power_int_nonneg_exp)
  finally have q: "x / 2 powi (e - 23) = of_int (n * 2 ^ k)" .
  have "f32_rnd x = of_int (round_even (x / 2 powi (e - 23))) * 2 powi (e - 23)"
    using xpos by (simp add: f32_rnd_def Let_def e_def)
  also have "\<dots> = x / 2 powi (e - 23) * 2 powi (e - 23)"
    unfolding q round_even_of_int ..
  also have "\<dots> = x" by simp
  finally show ?thesis by (simp add: x_def)
qed

lemma f32_rnd_lower:
  assumes e0: "- 126 \<le> e0" and x: "2 powi e0 \<le> x"
  shows "2 powi e0 \<le> f32_rnd x"
proof -
  have "(0::rat) < 2 powi e0" by simp
  then have xpos: "0 < x" using x by (rule less_le_trans)
  define e where "e = ilog2 x"
  define u :: rat where "u = 2 powi (e - 23)"
  have upos: "0 < u" by (simp add: u_def)
  have ee: "e0 \<le> e" unfolding e_def by (rule ilog2_ge[OF xpos x])
  then have m: "max (ilog2 x) (- 126) = e" using e0 by (simp add: e_def)
  have pe: "(2::rat) powi e = of_int (2 ^ 23) * u"
    using power_int_add[of "2::rat" 23 "e - 23"] by (simp add: u_def)
  have "of_int (2 ^ 23) * u \<le> x" using ilog2_bounds[OF xpos] pe by (simp add: e_def)
  then have "of_int (2 ^ 23) \<le> x / u" using upos by (simp add: pos_le_divide_eq)
  then have "2 ^ 23 \<le> round_even (x / u)" by (rule round_even_ge)
  then have "(of_int (2 ^ 23) :: rat) \<le> of_int (round_even (x / u))"
    by (rule iffD2[OF of_int_le_iff])
  then have "of_int (2 ^ 23) * u \<le> of_int (round_even (x / u)) * u"
    using upos by (intro mult_right_mono) simp_all
  moreover have "f32_rnd x = of_int (round_even (x / u)) * u"
    using xpos m by (simp add: f32_rnd_def Let_def u_def)
  moreover have "(2::rat) powi e0 \<le> 2 powi e" using ee by (intro power_int_increasing) simp_all
  ultimately show ?thesis using pe by simp
qed

lemma lit_inv65536: "f32_div (f32_of_rat 1) (f32_of_rat 65536) = F32 False (1 / 65536)"
  by code_simp

lemma fixed_of_i32_alt:
  "fixed_of_i32 k = F32 (k < 0) (f32_rnd (f32_rnd (of_int \<bar>k\<bar>) / 65536))"
proof -
  have "fixed_of_i32 k = f32_mul (f32_of_int k) (F32 False (1 / 65536))"
    by (simp only: fixed_of_i32_def lit_inv65536)
  then show ?thesis by (simp add: f32_mul_def f32_of_int_def f32_of_rat_def flip: of_int_abs)
qed

lemma f32_rnd_of_int: "0 \<le> n \<Longrightarrow> n < 2 ^ 24 \<Longrightarrow> f32_rnd (of_int n) = of_int n"
  using f32_rnd_exact[of n 0] by simp

lemma f32_rnd_of_int_div:
  "0 \<le> n \<Longrightarrow> n < 2 ^ 24 \<Longrightarrow> f32_rnd (of_int n / 65536) = of_int n / 65536"
  using f32_rnd_exact[of n "- 16"] by (simp add: power_int_minus_divide)

lemma f32_rnd_ge_1: "1 \<le> x \<Longrightarrow> 1 \<le> f32_rnd x"
  using f32_rnd_lower[of 0 x] by simp

lemma fixed_of_i32_small:
  assumes "\<bar>k\<bar> < 2 ^ 24"
  shows "fixed_of_i32 k = F32 (k < 0) (of_int \<bar>k\<bar> / 65536)"
proof -
  have "f32_rnd (of_int \<bar>k\<bar>) = of_int \<bar>k\<bar>" using assms by (intro f32_rnd_of_int) simp_all
  moreover have "f32_rnd (of_int \<bar>k\<bar> / 65536) = of_int \<bar>k\<bar> / 65536"
    using assms by (intro f32_rnd_of_int_div) simp_all
  ultimately show ?thesis
    by (simp add: fixed_of_i32_alt)
qed

lemma fixed_of_i32_large:
  assumes "2 ^ 24 \<le> \<bar>k\<bar>"
  shows "256 \<le> f32_mag (fixed_of_i32 k)"
proof -
  have "(of_int (2 ^ 24) :: rat) \<le> of_int \<bar>k\<bar>" using assms by (rule iffD2[OF of_int_le_iff])
  then have "(2::rat) powi 24 \<le> of_int \<bar>k\<bar>" by simp
  then have "(2::rat) powi 24 \<le> f32_rnd (of_int \<bar>k\<bar>)" by (intro f32_rnd_lower) simp_all
  then have "(2::rat) powi 8 \<le> f32_rnd (of_int \<bar>k\<bar>) / 65536" by simp
  then have "(2::rat) powi 8 \<le> f32_rnd (f32_rnd (of_int \<bar>k\<bar>) / 65536)"
    by (intro f32_rnd_lower) simp_all
  then show ?thesis
    by (simp add: fixed_of_i32_alt)
qed

lemma within_tolerance:
  assumes c: "c = F32 False (of_int C / 2 ^ 24)" "0 \<le> C" "C \<le> 2 ^ 24"
    and t: "0 \<le> f32_val t" "f32_val t < 1"
    and ok: "\<not> f32_gt (fabsf (f32_sub (fixed_of_i32 k) c)) t"
  shows "\<bar>k\<bar> < 2 ^ 24 \<and> \<bar>of_int k / 65536 - of_int C / 2 ^ 24\<bar> \<le> f32_val t"
proof -
  define v where "v = fixed_of_i32 k"
  define d where "d = f32_val v - f32_val c"
  have cv: "f32_val c = of_int C / 2 ^ 24" "0 \<le> f32_val c" "f32_val c \<le> 1"
  proof -
    show "f32_val c = of_int C / 2 ^ 24" using c by (simp add: f32_val_def)
    show "0 \<le> f32_val c" using c by (simp add: f32_val_def)
    have "(of_int C :: rat) \<le> of_int (2 ^ 24)" using c(3) by (rule iffD2[OF of_int_le_iff])
    then show "f32_val c \<le> 1" using c by (simp add: f32_val_def)
  qed
  have big: "f32_val t < f32_val (fabsf (f32_sub v c))" if "1 \<le> \<bar>d\<bar>"
  proof -
    have "d \<noteq> 0" using that by auto
    then have "f32_val (fabsf (f32_sub v c)) = f32_rnd \<bar>d\<bar>"
      by (simp add: f32_sub_def Let_def d_def fabsf_def f32_of_rat_def f32_val_def)
    moreover have "1 \<le> f32_rnd \<bar>d\<bar>" using that by (rule f32_rnd_ge_1)
    ultimately show ?thesis using t by simp
  qed
  have small: "\<bar>k\<bar> < 2 ^ 24"
  proof (rule ccontr)
    assume "\<not> \<bar>k\<bar> < 2 ^ 24"
    then have "256 \<le> f32_mag v" unfolding v_def by (intro fixed_of_i32_large) simp
    then have "255 \<le> \<bar>d\<bar>" using cv by (auto simp: d_def f32_val_def split: if_splits)
    then have "1 \<le> \<bar>d\<bar>" by simp
    from big[OF this] ok show False by (simp add: f32_gt_def v_def)
  qed
  then have vv: "f32_val v = of_int k / 65536"
    by (auto simp: v_def fixed_of_i32_small f32_val_def)
  define N where "N = 256 * k - C"
  have dN: "d = of_int N * 2 powi (- 24)"
    by (simp add: d_def vv cv N_def power_int_minus_divide field_simps)
  have "\<bar>d\<bar> \<le> f32_val t"
  proof (cases "\<bar>N\<bar> < 2 ^ 24")
    case True
    have ad: "\<bar>d\<bar> = of_int \<bar>N\<bar> * 2 powi (- 24)" by (simp add: dN abs_mult)
    have ex: "f32_rnd \<bar>d\<bar> = \<bar>d\<bar>" unfolding ad using True by (intro f32_rnd_exact) simp_all
    show ?thesis
    proof (cases "d = 0")
      case True
      then show ?thesis using t by simp
    next
      case False
      then have "f32_val (fabsf (f32_sub v c)) = f32_rnd \<bar>d\<bar>"
        by (simp add: f32_sub_def Let_def d_def fabsf_def f32_of_rat_def f32_val_def)
      then show ?thesis using ok ex by (simp add: f32_gt_def v_def)
    qed
  next
    case False
    then have "2 ^ 24 \<le> \<bar>N\<bar>" by simp
    then have "(of_int (2 ^ 24) :: rat) \<le> of_int \<bar>N\<bar>" by (rule iffD2[OF of_int_le_iff])
    then have "1 \<le> \<bar>d\<bar>" by (simp add: dN abs_mult power_int_minus_divide)
    from big[OF this] ok show ?thesis by (simp add: f32_gt_def v_def)
  qed
  then show ?thesis using small by (simp add: d_def vv cv)
qed

lemma lit_0_9642f_val: "lit_0_9642f = F32 False (of_int 16176592 / 2 ^ 24)" by code_simp
lemma lit_1_0000f_val: "lit_1_0000f = F32 False (of_int 16777216 / 2 ^ 24)" by code_simp
lemma lit_0_8249f_val: "lit_0_8249f = F32 False (of_int 13839525 / 2 ^ 24)" by code_simp
lemma lit_0_0100f_val: "f32_val lit_0_0100f = 10737418 / 2 ^ 30" by code_simp

lemma int_range_to_rat:
  assumes "lo \<le> k \<and> k \<le> hi"
  shows "(of_int lo :: rat) \<le> of_int k \<and> (of_int k :: rat) \<le> of_int hi"
  using assms by (simp only: of_int_le_iff)

lemma scaled_range_to_int:
  assumes "(of_int lo :: rat) \<le> 16384 * of_int k" "16384 * (of_int k :: rat) \<le> of_int hi"
  shows "lo \<le> 16384 * k \<and> 16384 * k \<le> hi"
proof -
  have "(of_int lo :: rat) \<le> of_int (16384 * k)" "(of_int (16384 * k) :: rat) \<le> of_int hi"
    using assms by simp_all
  then show ?thesis by (simp only: of_int_le_iff)
qed

lemma illuminant_X_ok:
  assumes "\<not> f32_gt (fabsf (f32_sub (fixed_of_i32 k) lit_0_9642f)) lit_0_0100f"
  shows "\<bar>of_int k / 65536 - 9642 / 10000\<bar> \<le> (1 / 100 :: rat)"
proof -
  define r where "r = (of_int k :: rat)"
  have "\<bar>of_int k / 65536 - of_int 16176592 / 2 ^ 24\<bar> \<le> f32_val lit_0_0100f"
    using within_tolerance[OF lit_0_9642f_val _ _ _ _ assms] by (simp add: lit_0_0100f_val)
  then have "\<bar>r / 65536 - 16176592 / 16777216\<bar> \<le> 10737418 / 1073741824"
    by (simp add: lit_0_0100f_val r_def)
  then have "1024564470 \<le> 16384 * r" "16384 * r \<le> 1046039306" by linarith+
  then have "of_int 1024564470 \<le> 16384 * r" "16384 * r \<le> of_int 1046039306" by simp_all
  then have "1024564470 \<le> 16384 * k \<and> 16384 * k \<le> 1046039306"
    unfolding r_def by (rule scaled_range_to_int)
  then have "62535 \<le> k \<and> k \<le> 63845" by arith
  from int_range_to_rat[OF this] have "62535 \<le> r \<and> r \<le> 63845" by (simp add: r_def)
  then have "\<bar>r / 65536 - 9642 / 10000\<bar> \<le> 1 / 100" by linarith
  then show ?thesis by (simp add: r_def)
qed

lemma illuminant_Y_ok:
  assumes "\<not> f32_gt (fabsf (f32_sub (fixed_of_i32 k) lit_1_0000f)) lit_0_0100f"
  shows "\<bar>of_int k / 65536 - 10000 / 10000\<bar> \<le> (1 / 100 :: rat)"
proof -
  define r where "r = (of_int k :: rat)"
  have "\<bar>of_int k / 65536 - of_int 16777216 / 2 ^ 24\<bar> \<le> f32_val lit_0_0100f"
    using within_tolerance[OF lit_1_0000f_val _ _ _ _ assms] by (simp add: lit_0_0100f_val)
  then have "\<bar>r / 65536 - 16777216 / 16777216\<bar> \<le> 10737418 / 1073741824"
    by (simp add: lit_0_0100f_val r_def)
  then have "1063004406 \<le> 16384 * r" "16384 * r \<le> 1084479242" by linarith+
  then have "of_int 1063004406 \<le> 16384 * r" "16384 * r \<le> of_int 1084479242" by simp_all
  then have "1063004406 \<le> 16384 * k \<and> 16384 * k \<le> 1084479242"
    unfolding r_def by (rule scaled_range_to_int)
  then have "64881 \<le> k \<and> k \<le> 66191" by arith
  from int_range_to_rat[OF this] have "64881 \<le> r \<and> r \<le> 66191" by (simp add: r_def)
  then have "\<bar>r / 65536 - 10000 / 10000\<bar> \<le> 1 / 100" by linarith
  then show ?thesis by (simp add: r_def)
qed

lemma illuminant_Z_ok:
  assumes "\<not> f32_gt (fabsf (f32_sub (fixed_of_i32 k) lit_0_8249f)) lit_0_0100f"
  shows "\<bar>of_int k / 65536 - 8249 / 10000\<bar> \<le> (1 / 100 :: rat)"
proof -
  define r where "r = (of_int k :: rat)"
  have "\<bar>of_int k / 65536 - of_int 13839525 / 2 ^ 24\<bar> \<le> f32_val lit_0_0100f"
    using within_tolerance[OF lit_0_8249f_val _ _ _ _ assms] by (simp add: lit_0_0100f_val)
  then have "\<bar>r / 65536 - 13839525 / 16777216\<bar> \<le> 10737418 / 1073741824"
    by (simp add: lit_0_0100f_val r_def)
  then have "874992182 \<le> 16384 * r" "16384 * r \<le> 896467018" by linarith+
  then have "of_int 874992182 \<le> 16384 * r" "16384 * r \<le> of_int 896467018" by simp_all
  then have "874992182 \<le> 16384 * k \<and> 16384 * k \<le> 896467018"
    unfolding r_def by (rule scaled_range_to_int)
  then have "53406 \<le> k \<and> k \<le> 54716" by arith
  from int_range_to_rat[OF this] have "53406 \<le> r \<and> r \<le> 54716" by (simp add: r_def)
  then have "\<bar>r / 65536 - 8249 / 10000\<bar> \<le> 1 / 100" by linarith
  then show ?thesis by (simp add: r_def)
qed

lemma within_tolerance_accepts:
  assumes c: "c = F32 False (of_int C / 2 ^ 24)" and t: "0 \<le> f32_val t"
    and k: "\<bar>k\<bar> < 2 ^ 24" and N: "\<bar>256 * k - C\<bar> < 2 ^ 24"
    and le: "\<bar>of_int k / 65536 - of_int C / 2 ^ 24\<bar> \<le> f32_val t"
  shows "\<not> f32_gt (fabsf (f32_sub (fixed_of_i32 k) c)) t"
proof -
  define d :: rat where "d = of_int k / 65536 - of_int C / 2 ^ 24"
  have vv: "f32_val (fixed_of_i32 k) = of_int k / 65536"
    using k by (auto simp: fixed_of_i32_small f32_val_def)
  have cv: "f32_val c = of_int C / 2 ^ 24" using c by (simp add: f32_val_def)
  have dd: "f32_val (fixed_of_i32 k) - f32_val c = d" by (simp add: vv cv d_def)
  have "d = of_int (256 * k - C) * 2 powi (- 24)"
    by (simp add: d_def power_int_minus_divide field_simps)
  then have dN: "\<bar>d\<bar> = of_int \<bar>256 * k - C\<bar> * 2 powi (- 24)"
    by (simp add: abs_mult)
  have ex: "f32_rnd \<bar>d\<bar> = \<bar>d\<bar>" unfolding dN using N by (intro f32_rnd_exact) simp_all
  show ?thesis
  proof (cases "d = 0")
    case True
    have "f32_mag (f32_sub (fixed_of_i32 k) c) = 0"
      unfolding f32_sub_def Let_def dd using True by simp
    then show ?thesis using t by (simp add: fabsf_def f32_gt_def f32_val_def)
  next
    case False
    have "f32_mag (f32_sub (fixed_of_i32 k) c) = f32_rnd \<bar>d\<bar>"
      unfolding f32_sub_def Let_def dd using False by (simp add: f32_of_rat_def)
    then have "f32_val (fabsf (f32_sub (fixed_of_i32 k) c)) = f32_rnd \<bar>d\<bar>"
      by (simp add: fabsf_def f32_val_def)
    then show ?thesis using le ex by (simp add: f32_gt_def d_def)
  qed
qed

lemma scaled_range_to_int':
  assumes "(of_int lo :: rat) \<le> 10000 * of_int k" "10000 * (of_int k :: rat) \<le> of_int hi"
  shows "lo \<le> 10000 * k \<and> 10000 * k \<le> hi"
proof -
  have "(of_int lo :: rat) \<le> of_int (10000 * k)" "(of_int (10000 * k) :: rat) \<le> of_int hi"
    using assms by simp_all
  then show ?thesis by (simp only: of_int_le_iff)
qed

lemma illuminant_X_accepts:
  assumes "\<bar>of_int k / 65536 - 9642 / 10000\<bar> \<le> (1 / 100 :: rat)"
  shows "\<not> f32_gt (fabsf (f32_sub (fixed_of_i32 k) lit_0_9642f)) lit_0_0100f"
proof -
  define r where "r = (of_int k :: rat)"
  have "\<bar>r / 65536 - 9642 / 10000\<bar> \<le> 1 / 100" using assms by (simp add: r_def)
  then have "625344512 \<le> 10000 * r" "10000 * r \<le> 638451712" by linarith+
  then have "of_int 625344512 \<le> 10000 * r" "10000 * r \<le> of_int 638451712" by simp_all
  then have "625344512 \<le> 10000 * k \<and> 10000 * k \<le> 638451712"
    unfolding r_def by (rule scaled_range_to_int')
  then have kr: "62535 \<le> k \<and> k \<le> 63845" by arith
  from int_range_to_rat[OF this] have "62535 \<le> r \<and> r \<le> 63845" by (simp add: r_def)
  then have "\<bar>r / 65536 - 16176592 / 16777216\<bar> \<le> 10737418 / 1073741824" by linarith
  then have le: "\<bar>of_int k / 65536 - of_int 16176592 / 2 ^ 24\<bar> \<le> f32_val lit_0_0100f"
    by (simp add: lit_0_0100f_val r_def)
  have t: "0 \<le> f32_val lit_0_0100f" by (simp add: lit_0_0100f_val)
  have k: "\<bar>k\<bar> < 2 ^ 24" using kr by simp
  have "\<bar>256 * k - 16176592\<bar> < 16777216" using kr by arith
  then have N: "\<bar>256 * k - 16176592\<bar> < 2 ^ 24" by simp
  show ?thesis by (rule within_tolerance_accepts[OF lit_0_9642f_val t k N le])
qed

lemma illuminant_Y_accepts:
  assumes "\<bar>of_int k / 65536 - 10000 / 10000\<bar> \<le> (1 / 100 :: rat)"
  shows "\<not> f32_gt (fabsf (f32_sub (fixed_of_i32 k) lit_1_0000f)) lit_0_0100f"
proof -
  define r where "r = (of_int k :: rat)"
  have "\<bar>r / 65536 - 10000 / 10000\<bar> \<le> 1 / 100" using assms by (simp add: r_def)
  then have "648806400 \<le> 10000 * r" "10000 * r \<le> 661913600" by linarith+
  then have "of_int 648806400 \<le> 10000 * r" "10000 * r \<le> of_int 661913600" by simp_all
  then have "648806400 \<le> 10000 * k \<and> 10000 * k \<le> 661913600"
    unfolding r_def by (rule scaled_range_to_int')
  then have kr: "64881 \<le> k \<and> k \<le> 66191" by arith
  from int_range_to_rat[OF this] have "64881 \<le> r \<and> r \<le> 66191" by (simp add: r_def)
  then have "\<bar>r / 65536 - 16777216 / 16777216\<bar> \<le> 10737418 / 1073741824" by linarith
  then have le: "\<bar>of_int k / 65536 - of_int 16777216 / 2 ^ 24\<bar> \<le> f32_val lit_0_0100f"
    by (simp add: lit_0_0100f_val r_def)
  have t: "0 \<le> f32_val lit_0_0100f" by (simp add: lit_0_0100f_val)
  have k: "\<bar>k\<bar> < 2 ^ 24" using kr by simp
  have "\<bar>256 * k - 16777216\<bar> < 16777216" using kr by arith
  then have N: "\<bar>256 * k - 16777216\<bar> < 2 ^ 24" by simp
  show ?thesis by (rule within_tolerance_accepts[OF lit_1_0000f_val t k N le])
qed


lemma illuminant_Z_accepts:
  assumes "\<bar>of_int k / 65536 - 8249 / 10000\<bar> \<le> (1 / 100 :: rat)"
  shows "\<not> f32_gt (fabsf (f32_sub (fixed_of_i32 k) lit_0_8249f)) lit_0_0100f"
proof -
  define r where "r = (of_int k :: rat)"
  have "\<bar>r / 65536 - 8249 / 10000\<bar> \<le> 1 / 100" using assms by (simp add: r_def)
  then have "534052864 \<le> 10000 * r" "10000 * r \<le> 547160064" by linarith+
  then have "of_int 534052864 \<le> 10000 * r" "10000 * r \<le> of_int 547160064" by simp_all
  then have "534052864 \<le> 10000 * k \<and> 10000 * k \<le> 547160064"
    unfolding r_def by (rule scaled_range_to_int')
  then have kr: "53406 \<le> k \<and> k \<le> 54716" by arith
  from int_range_to_rat[OF this] have "53406 \<le> r \<and> r \<le> 54716" by (simp add: r_def)
  then have "\<bar>r / 65536 - 13839525 / 16777216\<bar> \<le> 10737418 / 1073741824" by linarith
  then have le: "\<bar>of_int k / 65536 - of_int 13839525 / 2 ^ 24\<bar> \<le> f32_val lit_0_0100f"
    by (simp add: lit_0_0100f_val r_def)
  have t: "0 \<le> f32_val lit_0_0100f" by (simp add: lit_0_0100f_val)
  have k: "\<bar>k\<bar> < 2 ^ 24" using kr by simp
  have "\<bar>256 * k - 13839525\<bar> < 16777216" using kr by arith
  then have N: "\<bar>256 * k - 13839525\<bar> < 2 ^ 24" by simp
  show ?thesis by (rule within_tolerance_accepts[OF lit_0_8249f_val t k N le])
qed

section \<open>Facts about words and readers\<close>

lemma in_bounds_ptr [simp]: "in_bounds (bs, off) n = (off + n \<le> length bs)"
  by (simp add: in_bounds_def)

lemma ptr_add_pair [simp]: "ptr_add (bs, off) n = (bs, off + n)"
  by (simp add: ptr_add_def)

lemma unat_u32_lt: "unat (x :: u32) < 4294967296"
  using unsigned_less[of x, where 'a = nat] by simp

lemma unat_u16_lt: "unat (x :: u16) < 65536"
  using unsigned_less[of x, where 'a = nat] by simp

lemma unat_u8_lt: "unat (x :: u8) < 256"
  using unsigned_less[of x, where 'a = nat] by simp

lemma unat_ucast_u32_u64 [simp]: "unat (ucast (x :: u32) :: u64) = unat x"
  using unat_u32_lt[of x] by (simp add: unsigned_ucast_eq take_bit_nat_eq_self)

lemma ucast_u32_u64_less [simp]: "((ucast (x :: u32) :: u64) < ucast (y :: u32)) = (x < y)"
  by (simp add: word_less_nat_alt)

lemma tag_table_end: "unat (132 + (ucast (tc :: u32) :: u64) * 12) = 132 + 12 * unat tc"
  using unat_u32_lt[of tc] by (simp add: unat_word_ariths)

lemma tag_end_nowrap: "unat ((ucast (a :: u32) :: u64) + ucast (b :: u32)) = unat a + unat b"
  using unat_u32_lt[of a] unat_u32_lt[of b] by (simp add: unat_word_ariths)

lemma curv_end_nowrap: "unat (12 + (ucast (vc :: u32) :: u64) * 2) = 12 + 2 * unat vc"
  using unat_u32_lt[of vc] by (simp add: unat_word_ariths)

lemma header_rejected_iff:
  "header_rejected h len \<longleftrightarrow>
     profile_signature h \<noteq> sig ''acsp'' \<or> len < unat (profile_size h)
     \<or> unat (profile_size h) < 132 + 12 * unat (tag_count h)
     \<or> 4 < unat (drop_bit 24 (version h))"
  by (simp add: header_rejected_def Let_def SAFE_SIZEOF_header_Layout_def SAFE_SIZEOF_tag_Layout_def
      word_less_nat_alt tag_table_end)

section \<open>Parsing: header and tag table\<close>

lemmas reader_defs = read_big_u16_def read_big_u32_def read_big_u64_def read_big_i32_def
  read_big_fixed_def read_bytes_def read_big_date_time_def read_u8_def

lemma be_fixed_alt: "map_option fixed_of_i32 (map_option sint (Some (be_u32 p))) = Some (be_fixed p)"
  by (simp add: be_fixed_def)

lemma parse_header_Some:
  assumes "132 \<le> length bytes"
  shows "parse_header (bytes, 0) profile = Some (profile\<lparr>buffer := Some (bytes, 0),
       profile_size := be_u32 (bytes, 0),
       cmm_type := be_u32 (bytes, 4), version := be_u32 (bytes, 8),
       profile_class := be_u32 (bytes, 12),
       data_color_space := be_u32 (bytes, 16), pcs := be_u32 (bytes, 20),
       creation_date_time := \<lparr>year = be_u16 (bytes, 24), month = be_u16 (bytes, 26),
         day = be_u16 (bytes, 28), hour = be_u16 (bytes, 30), minute = be_u16 (bytes, 32),
         second = be_u16 (bytes, 34)\<rparr>,
       profile_signature := be_u32 (bytes, 36),
       platform := be_u32 (bytes, 40), flags := be_u32 (bytes, 44),
       device_manufacturer := be_u32 (bytes, 48), device_model := be_u32 (bytes, 52),
       device_attributes := be_u64 (bytes, 56), rendering_intent := be_u32 (bytes, 64),
       illuminant_X := be_fixed (bytes, 68), illuminant_Y := be_fixed (bytes, 72),
       illuminant_Z := be_fixed (bytes, 76), creator := be_u32 (bytes, 80),
       profile_id := bytes_at (bytes, 84) 16, tag_count := be_u32 (bytes, 128)\<rparr>)"
  using assms by (simp add: parse_header_def reader_defs be_fixed_def)

lemma parse_header_fields:
  assumes "132 \<le> length bytes" "parse_header (bytes, 0) profile = Some h"
  shows "buffer h = Some (bytes, 0)" "profile_size h = be_u32 (bytes, 0)"
    "version h = be_u32 (bytes, 8)" "profile_signature h = be_u32 (bytes, 36)"
    "illuminant_X h = be_fixed (bytes, 68)" "illuminant_Y h = be_fixed (bytes, 72)"
    "illuminant_Z h = be_fixed (bytes, 76)" "tag_count h = be_u32 (bytes, 128)"
    "has_tf h = has_tf profile" "tf h = tf profile" "has_toXYZD50 h = has_toXYZD50 profile"
    "toXYZD50 h = toXYZD50 profile" "has_A2B h = has_A2B profile"
  using assms(2) unfolding parse_header_Some[OF assms(1)] by auto

lemma skcms_Parse_True_iff:
  "skcms_Parse bytes = Some (True, p) \<longleftrightarrow>
     132 \<le> length bytes \<and>
     (\<exists>h. parse_header (bytes, 0) profile_zero = Some h
        \<and> \<not> header_rejected h (length bytes) \<and> \<not> illuminant_rejected h
        \<and> check_tags (get_tag_table (bytes, 0)) h 0 = Some True
        \<and> pre_parse h = Some p)"
  by (auto simp: skcms_Parse_def Let_def SAFE_SIZEOF_header_Layout_def
      split: Option.bind_splits if_splits)

lemma skcms_Parse_False_cases:
  assumes "skcms_Parse bytes = Some (False, p)"
  shows "p = profile_zero \<or> parse_header (bytes, 0) profile_zero = Some p"
  using assms
  by (auto simp: skcms_Parse_def Let_def SAFE_SIZEOF_header_Layout_def
      split: Option.bind_splits if_splits)

lemma header_accepted_valid:
  assumes len: "132 \<le> length bytes" and h: "parse_header (bytes, 0) profile_zero = Some h"
    and acc: "\<not> header_rejected h (length bytes)" "\<not> illuminant_rejected h"
  shows "spec_header_valid bytes"
proof -
  note f = parse_header_fields[OF len h]
  have hdr: "be_u32 (bytes, 36) = sig ''acsp''" "unat (be_u32 (bytes, 0)) \<le> length bytes"
    "132 + 12 * unat (be_u32 (bytes, 128)) \<le> unat (be_u32 (bytes, 0))"
    "unat (drop_bit 24 (be_u32 (bytes, 8))) \<le> 4"
    using acc(1) by (auto simp: header_rejected_iff f)
  have ill: "\<not> f32_gt (fabsf (f32_sub (fixed_of_i32 (sint (be_u32 (bytes, 68)))) lit_0_9642f)) lit_0_0100f"
    "\<not> f32_gt (fabsf (f32_sub (fixed_of_i32 (sint (be_u32 (bytes, 72)))) lit_1_0000f)) lit_0_0100f"
    "\<not> f32_gt (fabsf (f32_sub (fixed_of_i32 (sint (be_u32 (bytes, 76)))) lit_0_8249f)) lit_0_0100f"
    using acc(2) by (auto simp: illuminant_rejected_def f be_fixed_def)
  show ?thesis
    unfolding spec_header_valid_def
    using len hdr illuminant_X_ok[OF ill(1)] illuminant_Y_ok[OF ill(2)] illuminant_Z_ok[OF ill(3)]
    by blast
qed

lemma skcms_Parse_rejects:
  assumes "\<not> spec_header_valid bytes"
  shows "\<exists>q. skcms_Parse bytes = Some (False, q)"
proof (cases "132 \<le> length bytes")
  case False
  then show ?thesis by (simp add: skcms_Parse_def Let_def SAFE_SIZEOF_header_Layout_def)
next
  case True
  obtain h where h: "parse_header (bytes, 0) profile_zero = Some h"
    using parse_header_Some[OF True] by blast
  have "header_rejected h (length bytes) \<or> illuminant_rejected h"
    using header_accepted_valid[OF True h] assms by blast
  then show ?thesis
    using True h by (auto simp: skcms_Parse_def Let_def SAFE_SIZEOF_header_Layout_def)
qed

lemma tags_ptrs [simp]:
  "tags_signature (get_tag_table (bytes, 0)) i = (bytes, 132 + 12 * i)"
  "tags_offset (get_tag_table (bytes, 0)) i = (bytes, 132 + 12 * i + 4)"
  "tags_size (get_tag_table (bytes, 0)) i = (bytes, 132 + 12 * i + 8)"
  by (simp_all add: tags_signature_def tags_offset_def tags_size_def get_tag_table_def
      SAFE_SIZEOF_header_Layout_def SAFE_SIZEOF_tag_Layout_def)

lemma all_from_split:
  "(\<forall>j. i \<le> j \<and> j < (n::nat) \<longrightarrow> P j) \<longleftrightarrow>
     (i < n \<longrightarrow> P i) \<and> (\<forall>j. i + 1 \<le> j \<and> j < n \<longrightarrow> P j)"
proof -
  have "\<And>j. i \<le> j \<longleftrightarrow> j = i \<or> i + 1 \<le> j" by auto
  then show ?thesis by auto
qed

lemma check_tags_step:
  assumes "profile_size h = be_u32 (bytes, 0)" "i < unat (tag_count h)"
    "132 + 12 * i + 12 \<le> length bytes"
  shows "check_tags (get_tag_table (bytes, 0)) h i =
     (if spec_tag_entry_valid bytes i then check_tags (get_tag_table (bytes, 0)) h (i + 1)
      else Some False)"
  apply (subst check_tags.simps)
  using assms
  apply (simp add: read_big_u32_def Let_def spec_tag_entry_valid_def 
        word_less_nat_alt word_le_nat_alt tag_end_nowrap not_less)
  done

lemma check_tags_eq:
  assumes "profile_size h = be_u32 (bytes, 0)"
    and "132 + 12 * unat (tag_count h) \<le> length bytes"
  shows "check_tags (get_tag_table (bytes, 0)) h i =
           Some (\<forall>j. i \<le> j \<and> j < unat (tag_count h) \<longrightarrow> spec_tag_entry_valid bytes j)"
proof (induction "unat (tag_count h) - i" arbitrary: i)
  case 0
  then have "\<not> i < unat (tag_count h)" by simp
  then show ?case by (subst check_tags.simps) auto
next
  case (Suc n)
  then have i: "i < unat (tag_count h)" and n: "n = unat (tag_count h) - (i + 1)" by simp_all
  have ib: "132 + 12 * i + 12 \<le> length bytes" using i assms(2) by simp
  show ?case
    unfolding check_tags_step[OF assms(1) i ib] Suc.hyps(1)[OF n]
    by (subst all_from_split) (use i in simp)
qed

section \<open>Parsing: curves\<close>

lemma lit_inv256: "f32_div (f32_of_rat 1) (f32_of_rat 256) = F32 False (1 / 256)"
  by code_simp

lemma lit_one: "f32_of_rat 1 = F32 False 1" by code_simp

lemma lit_zero: "f32_of_rat 0 = F32 False 0" by code_simp

lemma gamma_of_u16_exact: "gamma_of_u16 u = F32 False (of_nat (unat u) / 256)"
proof -
  define n where "n = uint u"
  have "n < 2 ^ 16" unfolding n_def using unsigned_less[of u, where 'a = int] by simp
  then have n: "0 \<le> n" "n < 2 ^ 24" by (simp_all add: n_def)
  have un: "(of_nat (unat u) :: rat) = of_int n" by (simp add: n_def)
  have 1: "f32_rnd (of_int n) = of_int n" using n by (rule f32_rnd_of_int)
  have "f32_rnd (of_int n * 2 powi (- 8)) = of_int n * 2 powi (- 8)"
    using n by (intro f32_rnd_exact) simp_all
  then have 2: "f32_rnd (of_int n / 256) = of_int n / 256" by (simp add: power_int_minus_divide)
  have "gamma_of_u16 u = f32_mul (f32_of_int n) (F32 False (1 / 256))"
    by (simp only: gamma_of_u16_def lit_inv256 n_def)
  also have "\<dots> = F32 False (of_int n / 256)"
    using n(1) by (simp add: f32_mul_def f32_of_int_def f32_of_rat_def 1 2)
  finally show ?thesis by (simp only: un)
qed

lemma u32_less_2: "((x::u32) < 2) = (x = 0 \<or> x = 1)"
proof -
  have "(x < 2) = (unat x < 2)" by (simp add: word_less_nat_alt)
  also have "\<dots> = (unat x = unat (0::u32) \<or> unat x = unat (1::u32))" by auto
  also have "\<dots> = (x = 0 \<or> x = 1)" by (simp only: word_unat_eq_iff)
  finally show ?thesis .
qed

lemma in_bounds_weaken: "in_bounds p n \<Longrightarrow> m \<le> n \<Longrightarrow> in_bounds p m"
  by (simp add: in_bounds_def)

lemma in_bounds_add: "in_bounds p n \<Longrightarrow> k + m \<le> n \<Longrightarrow> in_bounds (ptr_add p k) m"
  by (simp add: in_bounds_def ptr_add_def)

lemma u32_less_u64_numeral:
  "((ucast (sz :: u32) :: u64) < 12) = (unat sz < 12)"
  "((ucast (sz :: u32) :: u64) < 12 + ucast (vc :: u32) * 2) = (unat sz < 12 + 2 * unat vc)"
  by (simp_all add: word_less_nat_alt curv_end_nowrap)

lemma read_curve_curv_eq:
  assumes "in_bounds buf (unat sz)"
  shows "read_curve_curv buf sz curve =
     (if unat sz < 12 \<or> unat sz < 12 + 2 * unat (be_u32 (ptr_add buf 8))
      then Some (False, curve) else Some (True, spec_curv_curve buf))"
proof (cases "unat sz < 12")
  case True
  then show ?thesis
    by (simp add: read_curve_curv_def SAFE_SIZEOF_curv_Layout_def u32_less_u64_numeral)
next
  case False
  then have "8 + 4 \<le> unat sz" by arith
  with assms have b8: "in_bounds (ptr_add buf 8) 4" by (rule in_bounds_add)
  show ?thesis
  proof (cases "unat sz < 12 + 2 * unat (be_u32 (ptr_add buf 8))")
    case True
    then show ?thesis using False b8
      by (simp add: read_curve_curv_def SAFE_SIZEOF_curv_Layout_def SAFE_SIZEOF_uint16_t_def
          u32_less_u64_numeral read_big_u32_def)
  next
    case big: False
    have one: "in_bounds (ptr_add buf 12) 2" if "be_u32 (ptr_add buf 8) = 1"
    proof -
      have "12 + 2 \<le> unat sz" using big that by simp
      with assms show ?thesis by (rule in_bounds_add)
    qed
    show ?thesis using False big b8 one
      by (auto simp: u32_less_2 read_curve_curv_def SAFE_SIZEOF_curv_Layout_def
          SAFE_SIZEOF_uint16_t_def u32_less_u64_numeral read_big_u32_def read_big_u16_def
          Let_def spec_curv_curve_def tf_gamma_def lit_one lit_zero gamma_of_u16_exact)
  qed
qed

lemma u16_le_4: "\<not> 4 < (x::u16) \<Longrightarrow> x = 0 \<or> x = 1 \<or> x = 2 \<or> x = 3 \<or> x = 4"
proof -
  assume "\<not> 4 < x"
  then have "unat x \<le> 4" by (simp add: word_less_nat_alt)
  then have "unat x = unat (0::u16) \<or> unat x = unat (1::u16) \<or> unat x = unat (2::u16)
     \<or> unat x = unat (3::u16) \<or> unat x = unat (4::u16)" by auto
  then show ?thesis by (simp only: word_unat_eq_iff)
qed

lemma read_big_fixed_in: "in_bounds p 4 \<Longrightarrow> read_big_fixed p = Some (be_fixed p)"
  by (simp add: read_big_fixed_def read_big_i32_def read_big_u32_def be_fixed_def)

lemma u32_less_u64_para:
  "((ucast (sz :: u32) :: u64) < 12 + n) = (unat sz < 12 + unat n)" if "unat n < 100"
  using that unat_u32_lt[of sz] by (simp add: word_less_nat_alt unat_word_ariths)

lemma read_curve_para_eq:
  assumes ib: "in_bounds buf (unat sz)"
  shows "read_curve_para buf sz curve =
     (let ft = be_u16 (ptr_add buf 8); P = para_parameter buf;
          partial = (tf_gamma (P 0))\<lparr>tf_a := P 1, tf_b := P 2\<rparr> in
      if unat sz < 12 \<or> 4 < ft \<or> unat sz < 12 + 4 * spec_para_count ft then Some (False, curve)
      else if ft = 1 \<and> f32_is_zero (P 1)
      then Some (False,
        \<lparr>curve_parametric = partial, curve_table = None, curve_table_size = 0\<rparr>)
      else if ft = 2 \<and> f32_is_zero (P 1)
      then Some (False,
        \<lparr>curve_parametric = partial\<lparr>tf_e := P 3\<rparr>, curve_table = None, curve_table_size = 0\<rparr>)
      else Some (True, \<lparr>curve_parametric = spec_para_function ft P, curve_table = None,
                         curve_table_size = 0\<rparr>))"
proof (cases "unat sz < 12")
  case True
  then show ?thesis
    by (simp add: read_curve_para_def SAFE_SIZEOF_para_Layout_def u32_less_u64_numeral Let_def)
next
  case False
  define ft where "ft = be_u16 (ptr_add buf 8)"
  have "8 + 2 \<le> unat sz" using False by arith
  with ib have b8: "in_bounds (ptr_add buf 8) 2" by (rule in_bounds_add)
  show ?thesis
  proof (cases "4 < ft")
    case True
    then show ?thesis using False b8
      by (simp add: read_curve_para_def SAFE_SIZEOF_para_Layout_def u32_less_u64_numeral
          Let_def read_big_u16_def ft_def)
  next
    case le: False
    from u16_le_4[OF le] have cases: "ft = 0 \<or> ft = 1 \<or> ft = 2 \<or> ft = 3 \<or> ft = 4" .
    have cb: "unat (curve_bytes ! unat ft) = 4 * spec_para_count ft" "unat (curve_bytes ! unat ft) < 100"
      using cases by (auto simp: curve_bytes_def spec_para_count_def)
    have cmp: "((ucast sz :: u64) < 12 + curve_bytes ! unat ft) = (unat sz < 12 + 4 * spec_para_count ft)"
      using u32_less_u64_para[OF cb(2)] cb(1) by simp
    show ?thesis
    proof (cases "unat sz < 12 + 4 * spec_para_count ft")
      case True
      then show ?thesis using False b8 le cmp
        by (simp add: read_curve_para_def SAFE_SIZEOF_para_Layout_def u32_less_u64_numeral
            Let_def read_big_u16_def ft_def)
    next
      case big: False
      have par: "read_big_fixed (para_parameters buf (4 * i)) = Some (para_parameter buf i)"
        if "i < spec_para_count ft" for i
      proof -
        have "(12 + 4 * i) + 4 \<le> unat sz" using big that by simp
        with ib have "in_bounds (ptr_add buf (12 + 4 * i)) 4" by (rule in_bounds_add)
        then show ?thesis by (simp add: read_big_fixed_in para_parameters_def para_parameter_def)
      qed
      have pars: "read_big_fixed (para_parameters buf 0) = Some (para_parameter buf 0)"
        "1 < spec_para_count ft \<Longrightarrow> read_big_fixed (para_parameters buf 4) = Some (para_parameter buf 1)"
        "2 < spec_para_count ft \<Longrightarrow> read_big_fixed (para_parameters buf 8) = Some (para_parameter buf 2)"
        "3 < spec_para_count ft \<Longrightarrow> read_big_fixed (para_parameters buf 12) = Some (para_parameter buf 3)"
        "4 < spec_para_count ft \<Longrightarrow> read_big_fixed (para_parameters buf 16) = Some (para_parameter buf 4)"
        "5 < spec_para_count ft \<Longrightarrow> read_big_fixed (para_parameters buf 20) = Some (para_parameter buf 5)"
        "6 < spec_para_count ft \<Longrightarrow> read_big_fixed (para_parameters buf 24) = Some (para_parameter buf 6)"
        using par[of 0] par[of 1] par[of 2] par[of 3] par[of 4] par[of 5] par[of 6] cases
        by (auto simp: spec_para_count_def)
      have sz12: "\<not> unat sz < 12" by (rule False)
      note defs = read_curve_para_def SAFE_SIZEOF_para_Layout_def u32_less_u64_numeral
        read_big_u16_def Let_def spec_para_function_def tf_gamma_def lit_one lit_zero
      from cases show ?thesis
      proof (elim disjE)
        assume f: "ft = 0"
        then have "spec_para_count ft = 1" by (simp add: spec_para_count_def)
        then show ?thesis using pars sz12 b8 le big cmp f unfolding ft_def by (simp add: defs)
      next
        assume f: "ft = 1"
        then have "spec_para_count ft = 3" by (simp add: spec_para_count_def)
        then show ?thesis using pars sz12 b8 le big cmp f unfolding ft_def by (simp add: defs)
      next
        assume f: "ft = 2"
        then have "spec_para_count ft = 4" by (simp add: spec_para_count_def)
        then show ?thesis using pars sz12 b8 le big cmp f unfolding ft_def by (simp add: defs)
      next
        assume f: "ft = 3"
        then have "spec_para_count ft = 5" by (simp add: spec_para_count_def)
        then show ?thesis using pars sz12 b8 le big cmp f unfolding ft_def by (simp add: defs)
      next
        assume f: "ft = 4"
        then have "spec_para_count ft = 7" by (simp add: spec_para_count_def)
        then show ?thesis using pars sz12 b8 le big cmp f unfolding ft_def by (simp add: defs)
      qed
    qed
  qed
qed

lemma tf_eval_identity: "tf_eval (tf_gamma (F32 False 1)) x = x"
  by (simp add: tf_eval_def tf_gamma_def f32_val_def Let_def sgn_mult_abs)

lemma tf_eval_gamma:
  "tf_eval (tf_gamma (F32 False (of_nat n / 256))) x = sgn x * (\<bar>x\<bar> powr (real n / 256))"
  by (simp add: tf_eval_def tf_gamma_def f32_val_def Let_def of_rat_divide)

lemmas be_eval = be_u16_def be_u32_def bytes_at_def be_bytes_def

lemma curv_gamma_facts:
  "length curv_gamma = 14" "be_u32 (curv_gamma, 8) = 1" "be_u16 (curv_gamma, 12) = 563"
  by (simp_all add: be_eval curv_gamma_def)

lemma curv_empty_facts: "length curv_empty = 12" "be_u32 (curv_empty, 8) = 0"
  by (simp_all add: be_eval curv_empty_def)

lemma curv_table_facts: "length curv_table = 16" "be_u32 (curv_table, 8) = 2"
  by (simp_all add: be_eval curv_table_def)

lemma para_GAB_facts:
  "length para_GAB = 24" "be_u16 (para_GAB, 8) = 1"
  "be_u32 (para_GAB, 12) = 0x20000" "be_u32 (para_GAB, 16) = 0x10000"
  "be_u32 (para_GAB, 20) = 0x8000"
  by (simp_all add: be_eval para_GAB_def)

lemma para_GAB_values:
  "fixed_of_i32 0x20000 = F32 False 2" "fixed_of_i32 0x10000 = F32 False 1"
  "fixed_of_i32 0x8000 = F32 False (1 / 2)"
  "f32_div (f32_neg (F32 False (1 / 2))) (F32 False 1) = F32 True (1 / 2)"
  by code_simp+

section \<open>Parsing: tag lookup and the pre-parsed fields\<close>

lemma fill_tag_eq:
  assumes "table_in_buffer bytes" "i < unat (be_u32 (bytes, 128))" "spec_tag_entry_valid bytes i"
  shows "fill_tag (bytes, 0) (get_tag_table (bytes, 0)) i sg =
           Some ((tag_entry bytes i)\<lparr>tag_signature := sg\<rparr>)"
  using assms
  by (simp add: fill_tag_def read_big_u32_def tag_entry_def Let_def table_in_buffer_def
      spec_tag_entry_valid_def)

lemma GetTagBySignature_loop_eq:
  assumes "table_in_buffer bytes" "spec_tag_table_valid bytes"
  shows "GetTagBySignature_loop (bytes, 0) (be_u32 (bytes, 128)) sg t i =
     Some (case find (\<lambda>j. be_u32 (bytes, 132 + 12 * j) = sg) [i..<unat (be_u32 (bytes, 128))] of
             None \<Rightarrow> (False, t) | Some j \<Rightarrow> (True, tag_entry bytes j))"
proof (induction "unat (be_u32 (bytes, 128)) - i" arbitrary: i)
  case 0
  then show ?case by (subst GetTagBySignature_loop.simps) simp
next
  case (Suc n)
  then have i: "i < unat (be_u32 (bytes, 128))" and n: "n = unat (be_u32 (bytes, 128)) - (i + 1)"
    by simp_all
  have v: "spec_tag_entry_valid bytes i" using assms(2) i by (simp add: spec_tag_table_valid_def)
  have ib: "132 + 12 * i + 4 \<le> length bytes" using i assms(1) by (simp add: table_in_buffer_def)
  have up: "[i..<unat (be_u32 (bytes, 128))] = i # [i + 1..<unat (be_u32 (bytes, 128))]"
    using i by (simp add: upt_conv_Cons)
  have same: "(tag_entry bytes i)\<lparr>tag_signature := be_u32 (bytes, 132 + 12 * i)\<rparr> = tag_entry bytes i"
    by (simp add: tag_entry_def Let_def)
  show ?case
    apply (subst GetTagBySignature_loop.simps)
    apply (subst up)
    using i ib Suc.hyps(1)[OF n] fill_tag_eq[OF assms(1) i v] same
    by (auto simp: read_big_u32_def)
qed

lemma skcms_GetTagBySignature_eq:
  assumes "table_in_buffer bytes" "spec_tag_table_valid bytes"
    and "buffer h = Some (bytes, 0)" "tag_count h = be_u32 (bytes, 128)"
  shows "skcms_GetTagBySignature h sg t =
     Some (case find_tag bytes sg of None \<Rightarrow> (False, t) | Some j \<Rightarrow> (True, tag_entry bytes j))"
  using GetTagBySignature_loop_eq[OF assms(1,2), of sg t 0] assms(3,4)
  by (simp add: skcms_GetTagBySignature_def find_tag_def)

lemma find_tag_Some:
  assumes "find_tag bytes sg = Some j"
  shows "j < unat (be_u32 (bytes, 128))" "be_u32 (bytes, 132 + 12 * j) = sg"
  using assms by (auto simp: find_tag_def find_Some_iff)

lemma tag_entry_in_bounds:
  assumes "table_in_buffer bytes" "spec_tag_table_valid bytes" "j < unat (be_u32 (bytes, 128))"
  shows "in_bounds (tag_buf (tag_entry bytes j)) (unat (tag_size (tag_entry bytes j)))"
    "4 \<le> unat (tag_size (tag_entry bytes j))"
proof -
  have v: "spec_tag_entry_valid bytes j" using assms(2,3) by (simp add: spec_tag_table_valid_def)
  show "in_bounds (tag_buf (tag_entry bytes j)) (unat (tag_size (tag_entry bytes j)))"
    using v assms(1) by (simp add: table_in_buffer_def spec_tag_entry_valid_def tag_entry_def Let_def)
  show "4 \<le> unat (tag_size (tag_entry bytes j))"
    using v by (simp add: spec_tag_entry_valid_def tag_entry_def Let_def)
qed

lemma read_curve_total:
  assumes "in_bounds b (unat sz)"
  shows "\<exists>r. read_curve (Some b) sz c = Some r"
proof (cases "sz < 4")
  case True
  then show ?thesis by (auto simp: read_curve_def)
next
  case False
  then have "4 \<le> unat sz" by (simp add: word_less_nat_alt)
  with assms have "in_bounds b 4" by (rule in_bounds_weaken)
  then show ?thesis
    using False read_curve_curv_eq[OF assms, of c] read_curve_para_eq[OF assms, of c]
    by (auto simp: read_curve_def read_big_u32_def Let_def)
qed

lemma read_tag_xyz_eq:
  assumes "in_bounds (tag_buf tag) (unat (tag_size tag))"
  shows "read_tag_xyz tag xyz =
     (if tag_type tag = sig ''XYZ '' \<and> 20 \<le> unat (tag_size tag)
      then Some (True, be_fixed (ptr_add (tag_buf tag) 8), be_fixed (ptr_add (tag_buf tag) 12),
                 be_fixed (ptr_add (tag_buf tag) 16))
      else Some (False, xyz))"
proof (cases "20 \<le> unat (tag_size tag)")
  case True
  have "in_bounds (ptr_add (tag_buf tag) 8) 4" "in_bounds (ptr_add (tag_buf tag) 12) 4"
    "in_bounds (ptr_add (tag_buf tag) 16) 4"
    using True by (auto intro!: in_bounds_add[OF assms])
  then show ?thesis using True
    by (simp add: read_tag_xyz_def SAFE_SIZEOF_XYZ_Layout_def word_le_nat_alt read_big_fixed_in)
next
  case False
  then show ?thesis
    by (simp add: read_tag_xyz_def SAFE_SIZEOF_XYZ_Layout_def word_le_nat_alt)
qed

lemma get_transfer_function_eq:
  assumes v: "table_in_buffer bytes" "spec_tag_table_valid bytes"
    and h: "buffer h = Some (bytes, 0)" "tag_count h = be_u32 (bytes, 128)"
  shows "get_transfer_function h tf0 =
     Some (case (parametric_of_tag bytes (sig ''rTRC''), parametric_of_tag bytes (sig ''gTRC''),
                 parametric_of_tag bytes (sig ''bTRC'')) of
             (Some r, Some g, Some b) \<Rightarrow> if r = g \<and> r = b then (True, r) else (False, tf0)
           | _ \<Rightarrow> (False, tf0))"
proof -
  note look = skcms_GetTagBySignature_eq[OF v h]
  have rc: "\<exists>ok c. read_curve (Some (tag_buf (tag_entry bytes j))) (tag_size (tag_entry bytes j))
              Curve_uninit = Some (ok, c)"
    if "find_tag bytes sg = Some j" for sg j
    using read_curve_total[OF tag_entry_in_bounds(1)[OF v find_tag_Some(1)[OF that]], of Curve_uninit]
    by auto
  show ?thesis
  proof (cases "find_tag bytes (sig ''rTRC'')")
    case None
    then show ?thesis by (simp add: get_transfer_function_def look parametric_of_tag_def)
  next
    case r: (Some jr)
    show ?thesis
    proof (cases "find_tag bytes (sig ''gTRC'')")
      case None
      then show ?thesis using r
        by (simp add: get_transfer_function_def look parametric_of_tag_def split: option.splits)
    next
      case g: (Some jg)
      show ?thesis
      proof (cases "find_tag bytes (sig ''bTRC'')")
        case None
        then show ?thesis using r g
          by (simp add: get_transfer_function_def look parametric_of_tag_def split: option.splits)
      next
        case b: (Some jb)
        obtain okr cr okg cg okb cb where
          "read_curve (Some (tag_buf (tag_entry bytes jr))) (tag_size (tag_entry bytes jr))
              Curve_uninit = Some (okr, cr)"
          "read_curve (Some (tag_buf (tag_entry bytes jg))) (tag_size (tag_entry bytes jg))
              Curve_uninit = Some (okg, cg)"
          "read_curve (Some (tag_buf (tag_entry bytes jb))) (tag_size (tag_entry bytes jb))
              Curve_uninit = Some (okb, cb)"
          using rc[OF r] rc[OF g] rc[OF b] by blast
        then show ?thesis using r g b
          by (auto simp: get_transfer_function_def look parametric_of_tag_def)
      qed
    qed
  qed
qed

lemma set_col_get_col [simp]: "set_col m c (get_col m c) = m"
  by (simp add: set_col_def get_col_def)

lemma read_to_XYZD50_eq:
  assumes v: "table_in_buffer bytes" "spec_tag_table_valid bytes"
    and h: "buffer h = Some (bytes, 0)" "tag_count h = be_u32 (bytes, 128)"
  shows "read_to_XYZD50 h m =
     Some (if find_tag bytes (sig ''rXYZ'') = None \<or> find_tag bytes (sig ''gXYZ'') = None
              \<or> find_tag bytes (sig ''bXYZ'') = None then (False, m)
           else case xyz_of_tag bytes (sig ''rXYZ'') of
             None \<Rightarrow> (False, m)
           | Some r \<Rightarrow>
              (case xyz_of_tag bytes (sig ''gXYZ'') of
                 None \<Rightarrow> (False, set_col m 0 r)
               | Some g \<Rightarrow>
                  (case xyz_of_tag bytes (sig ''bXYZ'') of
                     None \<Rightarrow> (False, set_col (set_col m 0 r) 1 g)
                   | Some b \<Rightarrow> (True, set_col (set_col (set_col m 0 r) 1 g) 2 b))))"
proof -
  note look = skcms_GetTagBySignature_eq[OF v h]
  have rx: "read_tag_xyz (tag_entry bytes j) xyz =
      (if tag_type (tag_entry bytes j) = sig ''XYZ '' \<and> 20 \<le> unat (tag_size (tag_entry bytes j))
       then Some (True, be_fixed (ptr_add (tag_buf (tag_entry bytes j)) 8),
                  be_fixed (ptr_add (tag_buf (tag_entry bytes j)) 12),
                  be_fixed (ptr_add (tag_buf (tag_entry bytes j)) 16))
       else Some (False, xyz))"
    if "find_tag bytes sg = Some j" for sg j xyz
    by (rule read_tag_xyz_eq[OF tag_entry_in_bounds(1)[OF v find_tag_Some(1)[OF that]]])
  show ?thesis
  proof (cases "find_tag bytes (sig ''rXYZ'')")
    case None
    then show ?thesis by (simp add: read_to_XYZD50_def look)
  next
    case r: (Some jr)
    show ?thesis
    proof (cases "find_tag bytes (sig ''gXYZ'')")
      case None
      then show ?thesis using r by (simp add: read_to_XYZD50_def look)
    next
      case g: (Some jg)
      show ?thesis
      proof (cases "find_tag bytes (sig ''bXYZ'')")
        case None
        then show ?thesis using r g by (simp add: read_to_XYZD50_def look)
      next
        case b: (Some jb)
        show ?thesis using r g b
          by (simp add: read_to_XYZD50_def look rx[OF r] rx[OF g] rx[OF b] xyz_of_tag_def Let_def)
      qed
    qed
  qed
qed

lemma pre_parse_eq:
  assumes v: "table_in_buffer bytes" "spec_tag_table_valid bytes"
    and h: "buffer h = Some (bytes, 0)" "tag_count h = be_u32 (bytes, 128)"
  shows "pre_parse h = Some (h\<lparr>tf := snd (tf_result bytes (tf h)),
           has_tf := fst (tf_result bytes (tf h)),
           toXYZD50 := snd (xyz_result bytes (toXYZD50 h)),
           has_toXYZD50 := fst (xyz_result bytes (toXYZD50 h))\<rparr>)"
proof -
  define h' where "h' = h\<lparr>tf := snd (tf_result bytes (tf h)), has_tf := fst (tf_result bytes (tf h))\<rparr>"
  have h': "buffer h' = Some (bytes, 0)" "tag_count h' = be_u32 (bytes, 128)"
    "toXYZD50 h' = toXYZD50 h"
    using h by (simp_all add: h'_def)
  have 1: "get_transfer_function h (tf h) = Some (tf_result bytes (tf h))"
    unfolding tf_result_def by (rule get_transfer_function_eq[OF v h])
  have 2: "read_to_XYZD50 h' (toXYZD50 h') = Some (xyz_result bytes (toXYZD50 h))"
    unfolding xyz_result_def h'(3)[symmetric] by (rule read_to_XYZD50_eq[OF v h'(1,2)])
  show ?thesis
    using 1 2 by (simp add: pre_parse_def h'_def case_prod_unfold Let_def)
qed

lemma table_in_buffer_iff:
  assumes "132 \<le> length bytes" "parse_header (bytes, 0) profile_zero = Some h"
    "\<not> header_rejected h (length bytes)"
  shows "table_in_buffer bytes"
  using assms(3) parse_header_fields[OF assms(1,2)]
  by (simp add: header_rejected_iff table_in_buffer_def)

lemma skcms_Parse_eq:
  assumes len: "132 \<le> length bytes" and h: "parse_header (bytes, 0) profile_zero = Some h"
  shows "skcms_Parse bytes =
     Some (if header_rejected h (length bytes) \<or> illuminant_rejected h
              \<or> \<not> spec_tag_table_valid bytes then (False, h)
           else (True, h\<lparr>tf := snd (tf_result bytes tf_zero),
                   has_tf := fst (tf_result bytes tf_zero),
                   toXYZD50 := snd (xyz_result bytes matrix_zero),
                   has_toXYZD50 := fst (xyz_result bytes matrix_zero)\<rparr>))"
proof (cases "header_rejected h (length bytes) \<or> illuminant_rejected h")
  case True
  then show ?thesis using len h
    by (auto simp: skcms_Parse_def Let_def SAFE_SIZEOF_header_Layout_def)
next
  case False
  note f = parse_header_fields[OF len h]
  have tib: "table_in_buffer bytes" using table_in_buffer_iff[OF len h] False by blast
  have "132 + 12 * unat (tag_count h) \<le> length bytes"
    using tib by (simp add: table_in_buffer_def f)
  from check_tags_eq[OF f(2) this, of 0]
  have ct: "check_tags (get_tag_table (bytes, 0)) h 0 = Some (spec_tag_table_valid bytes)"
    by (simp add: spec_tag_table_valid_def f)
  show ?thesis
  proof (cases "spec_tag_table_valid bytes")
    case v: True
    have z: "tf h = tf_zero" "toXYZD50 h = matrix_zero"
      using f by (simp_all add: profile_zero_def)
    show ?thesis using len h False ct v pre_parse_eq[OF tib v f(1) f(8)]
      by (simp add: skcms_Parse_def Let_def SAFE_SIZEOF_header_Layout_def z)
  next
    case nv: False
    then show ?thesis using len h False ct
      by (simp add: skcms_Parse_def Let_def SAFE_SIZEOF_header_Layout_def)
  qed
qed

text \<open>
  \<open>skcms_GetTagByIndex\<close> on a parsed profile: an index below \<open>tag_count\<close> gives
  the entry of the tag table, an index above it leaves the tag as it was. The test of the
  source is \<open>idx > profile->tag_count\<close>, so the index equal to \<open>tag_count\<close>
  is neither.
\<close>

lemma skcms_GetTagByIndex_in_range:
  assumes "table_in_buffer bytes" "spec_tag_table_valid bytes"
    and "buffer h = Some (bytes, 0)" "tag_count h = be_u32 (bytes, 128)"
    and "idx < tag_count h"
  shows "skcms_GetTagByIndex h idx t = Some (tag_entry bytes (unat idx))"
proof -
  have i: "unat idx < unat (be_u32 (bytes, 128))"
    using assms(4,5) by (simp add: word_less_nat_alt)
  have v: "spec_tag_entry_valid bytes (unat idx)"
    using assms(2) i by (simp add: spec_tag_table_valid_def)
  have s: "read_big_u32 (bytes, 132 + 12 * unat idx) = Some (be_u32 (bytes, 132 + 12 * unat idx))"
    using assms(1) i by (simp add: read_big_u32_def table_in_buffer_def)
  have n: "\<not> tag_count h < idx" using assms(5) by simp
  show ?thesis
    using fill_tag_eq[OF assms(1) i v, of "be_u32 (bytes, 132 + 12 * unat idx)"]
    by (simp add: skcms_GetTagByIndex_def assms(3) n s tag_entry_def Let_def)
qed

lemma skcms_GetTagByIndex_above: "tag_count h < idx \<Longrightarrow> skcms_GetTagByIndex h idx t = Some t"
  by (simp add: skcms_GetTagByIndex_def split: option.splits)

section \<open>Parsing: the result of \<open>skcms_Parse\<close>\<close>

lemma header_accepted_iff:
  assumes len: "132 \<le> length bytes" and h: "parse_header (bytes, 0) profile_zero = Some h"
  shows "(\<not> header_rejected h (length bytes) \<and> \<not> illuminant_rejected h) = spec_header_valid bytes"
proof
  assume "\<not> header_rejected h (length bytes) \<and> \<not> illuminant_rejected h"
  then show "spec_header_valid bytes" using header_accepted_valid[OF len h] by blast
next
  assume v: "spec_header_valid bytes"
  note f = parse_header_fields[OF len h]
  have "\<not> header_rejected h (length bytes)"
    using v by (auto simp: header_rejected_iff f spec_header_valid_def)
  moreover have "\<not> illuminant_rejected h"
    using v illuminant_X_accepts[of "sint (be_u32 (bytes, 68))"]
      illuminant_Y_accepts[of "sint (be_u32 (bytes, 72))"]
      illuminant_Z_accepts[of "sint (be_u32 (bytes, 76))"]
    unfolding spec_header_valid_def illuminant_rejected_def f be_fixed_def by blast
  ultimately show "\<not> header_rejected h (length bytes) \<and> \<not> illuminant_rejected h" ..
qed

lemma skcms_Parse_total: "\<exists>ok p. skcms_Parse bytes = Some (ok, p)"
proof (cases "132 \<le> length bytes")
  case False
  then show ?thesis by (auto simp: skcms_Parse_def Let_def SAFE_SIZEOF_header_Layout_def)
next
  case True
  obtain h where h: "parse_header (bytes, 0) profile_zero = Some h"
    using parse_header_Some[OF True] by blast
  show ?thesis unfolding skcms_Parse_eq[OF True h] by auto
qed

lemma skcms_Parse_True_iff_valid:
  "(\<exists>p. skcms_Parse bytes = Some (True, p)) = (spec_header_valid bytes \<and> spec_tag_table_valid bytes)"
proof (cases "132 \<le> length bytes")
  case False
  then show ?thesis
    by (simp add: skcms_Parse_def Let_def SAFE_SIZEOF_header_Layout_def spec_header_valid_def)
next
  case True
  obtain h where h: "parse_header (bytes, 0) profile_zero = Some h"
    using parse_header_Some[OF True] by blast
  show ?thesis
    unfolding skcms_Parse_eq[OF True h] header_accepted_iff[OF True h, symmetric] by auto
qed

lemma skcms_Parse_False_iff_invalid:
  "(\<exists>p. skcms_Parse bytes = Some (False, p)) = (\<not> (spec_header_valid bytes \<and> spec_tag_table_valid bytes))"
  using skcms_Parse_total[of bytes] skcms_Parse_True_iff_valid[of bytes]
  by (metis (full_types) option.inject prod.inject)

lemma skcms_Parse_True_result:
  assumes "skcms_Parse bytes = Some (True, p)"
  shows "132 \<le> length bytes" "table_in_buffer bytes" "spec_tag_table_valid bytes"
    "buffer p = Some (bytes, 0)" "tag_count p = be_u32 (bytes, 128)"
    "(has_tf p, tf p) = tf_result bytes tf_zero"
    "(has_toXYZD50 p, toXYZD50 p) = xyz_result bytes matrix_zero"
    "has_A2B p = False"
proof -
  show len: "132 \<le> length bytes" using assms by (simp add: skcms_Parse_True_iff)
  obtain h where h: "parse_header (bytes, 0) profile_zero = Some h"
    using parse_header_Some[OF len] by blast
  note f = parse_header_fields[OF len h]
  note e = assms[unfolded skcms_Parse_eq[OF len h]]
  have acc: "\<not> header_rejected h (length bytes)" "spec_tag_table_valid bytes"
    and p: "p = h\<lparr>tf := snd (tf_result bytes tf_zero),
                   has_tf := fst (tf_result bytes tf_zero),
                   toXYZD50 := snd (xyz_result bytes matrix_zero),
                   has_toXYZD50 := fst (xyz_result bytes matrix_zero)\<rparr>"
    using e by (auto split: if_splits)
  show "table_in_buffer bytes" by (rule table_in_buffer_iff[OF len h acc(1)])
  show "spec_tag_table_valid bytes" by (rule acc(2))
  show "buffer p = Some (bytes, 0)" "tag_count p = be_u32 (bytes, 128)"
    "(has_tf p, tf p) = tf_result bytes tf_zero"
    "(has_toXYZD50 p, toXYZD50 p) = xyz_result bytes matrix_zero"
    "has_A2B p = False"
    using f by (simp_all add: p profile_zero_def)
qed

lemma skcms_Parse_False_result:
  assumes "skcms_Parse bytes = Some (False, p)"
  shows "has_tf p = False" "tf p = tf_zero" "has_toXYZD50 p = False" "toXYZD50 p = matrix_zero"
    "has_A2B p = False"
proof -
  have "has_tf p = False \<and> tf p = tf_zero \<and> has_toXYZD50 p = False \<and> toXYZD50 p = matrix_zero
    \<and> has_A2B p = False"
  proof (cases "132 \<le> length bytes")
    case False
    then have "p = profile_zero" using assms
      by (simp add: skcms_Parse_def Let_def SAFE_SIZEOF_header_Layout_def)
    then show ?thesis by (simp add: profile_zero_def)
  next
    case True
    obtain h where h: "parse_header (bytes, 0) profile_zero = Some h"
      using parse_header_Some[OF True] by blast
    note f = parse_header_fields[OF True h]
    have "p = h" using assms[unfolded skcms_Parse_eq[OF True h]] by (auto split: if_splits)
    then show ?thesis using f by (simp add: profile_zero_def)
  qed
  then show "has_tf p = False" "tf p = tf_zero" "has_toXYZD50 p = False" "toXYZD50 p = matrix_zero"
    "has_A2B p = False" by simp_all
qed

section \<open>Facts about the example buffers\<close>

lemma sig_values:
  "sig ''acsp'' = 0x61637370" "sig ''rTRC'' = 0x72545243" "sig ''gTRC'' = 0x67545243"
  "sig ''bTRC'' = 0x62545243" "sig ''rXYZ'' = 0x7258595A" "sig ''gXYZ'' = 0x6758595A"
  "sig ''bXYZ'' = 0x6258595A" "sig ''XYZ '' = 0x58595A20" "sig ''para'' = 0x70617261"
  "sig ''curv'' = 0x63757276" "sig ''A2B0'' = 0x41324230" "sig ''mft1'' = 0x6D667431"
  "sig ''mft2'' = 0x6D667432"
  by (simp_all add: sig_def make_signature_def)

lemma profile_minimal_facts:
  "length profile_minimal = 132" "be_u32 (profile_minimal, 0) = 132"
  "be_u32 (profile_minimal, 8) = 0x04000000" "be_u32 (profile_minimal, 36) = 0x61637370"
  "be_u32 (profile_minimal, 68) = 0xF6D6" "be_u32 (profile_minimal, 72) = 0x10000"
  "be_u32 (profile_minimal, 76) = 0xD32D" "be_u32 (profile_minimal, 128) = 0"
  by (simp_all add: be_eval profile_minimal_def)

lemma profile_v5_facts:
  "length profile_v5 = 132" "be_u32 (profile_v5, 8) = 0x05000000"
  by (simp_all add: be_eval profile_v5_def)

lemma profile_minimal_valid: "spec_header_valid profile_minimal \<and> spec_tag_table_valid profile_minimal"
  by (simp add: spec_header_valid_def spec_tag_table_valid_def profile_minimal_facts sig_values)

lemma profile_v5_invalid: "\<not> spec_header_valid profile_v5"
  by (simp add: spec_header_valid_def profile_v5_facts)

lemma profile_tabulated_facts:
  "length profile_tabulated = 184" "be_u32 (profile_tabulated, 0) = 184"
  "be_u32 (profile_tabulated, 8) = 0x04000000" "be_u32 (profile_tabulated, 36) = 0x61637370"
  "be_u32 (profile_tabulated, 68) = 0xF6D6" "be_u32 (profile_tabulated, 72) = 0x10000"
  "be_u32 (profile_tabulated, 76) = 0xD32D" "be_u32 (profile_tabulated, 128) = 3"
  "be_u32 (profile_tabulated, 132) = 0x72545243" "be_u32 (profile_tabulated, 136) = 168"
  "be_u32 (profile_tabulated, 140) = 16"
  "be_u32 (profile_tabulated, 144) = 0x67545243" "be_u32 (profile_tabulated, 148) = 168"
  "be_u32 (profile_tabulated, 152) = 16"
  "be_u32 (profile_tabulated, 156) = 0x62545243" "be_u32 (profile_tabulated, 160) = 168"
  "be_u32 (profile_tabulated, 164) = 16"
  "be_u32 (profile_tabulated, 168) = 0x63757276" "be_u32 (profile_tabulated, 176) = 2"
  by (simp_all add: be_eval profile_tabulated_def)

lemma less_3_cases: "(i::nat) < 3 \<Longrightarrow> i = 0 \<or> i = 1 \<or> i = 2"
  by arith

lemma profile_tabulated_valid:
  "spec_header_valid profile_tabulated \<and> spec_tag_table_valid profile_tabulated"
  by (auto simp: spec_header_valid_def spec_tag_table_valid_def spec_tag_entry_valid_def
      profile_tabulated_facts sig_values dest!: less_3_cases)

lemma profile_bad_tag_facts:
  "be_u32 (profile_bad_tag, 128) = 3" "be_u32 (profile_bad_tag, 140) = 3"
  by (simp_all add: be_eval profile_bad_tag_def profile_tabulated_def)

lemma profile_bad_tag_invalid: "\<not> spec_tag_table_valid profile_bad_tag"
proof
  assume "spec_tag_table_valid profile_bad_tag"
  then have "spec_tag_entry_valid profile_bad_tag 0"
    by (simp add: spec_tag_table_valid_def profile_bad_tag_facts)
  then show False by (simp add: spec_tag_entry_valid_def profile_bad_tag_facts)
qed

lemma find_tag_upt3:
  assumes "be_u32 (bytes, 128) = 3"
  shows "find_tag bytes sg =
     (if be_u32 (bytes, 132) = sg then Some 0
      else if be_u32 (bytes, 144) = sg then Some 1
      else if be_u32 (bytes, 156) = sg then Some 2 else None)"
proof -
  have "[0..<3] = [0, 1, 2::nat]" by (simp add: upt_rec)
  then show ?thesis by (simp add: find_tag_def assms)
qed

lemma profile_tabulated_tags:
  "find_tag profile_tabulated (sig ''rTRC'') = Some 0"
  "find_tag profile_tabulated (sig ''gTRC'') = Some 1"
  "find_tag profile_tabulated (sig ''bTRC'') = Some 2"
  "find_tag profile_tabulated (sig ''rXYZ'') = None"
  "tag_entry profile_tabulated 0 = \<lparr>tag_signature = 0x72545243, tag_type = 0x63757276,
     tag_size = 16, tag_buf = (profile_tabulated, 168)\<rparr>"
  "tag_entry profile_tabulated 1 = \<lparr>tag_signature = 0x67545243, tag_type = 0x63757276,
     tag_size = 16, tag_buf = (profile_tabulated, 168)\<rparr>"
  "tag_entry profile_tabulated 2 = \<lparr>tag_signature = 0x62545243, tag_type = 0x63757276,
     tag_size = 16, tag_buf = (profile_tabulated, 168)\<rparr>"
  by (simp_all add: find_tag_upt3 tag_entry_def profile_tabulated_facts sig_values Let_def)

lemma profile_tabulated_curve:
  "read_curve (Some (profile_tabulated, 168)) 16 Curve_uninit =
     Some (True, \<lparr>curve_parametric = tf_zero, curve_table = Some (profile_tabulated, 180),
                   curve_table_size = 2\<rparr>)"
proof -
  have ib: "in_bounds (profile_tabulated, 168) (unat (16 :: u32))"
    by (simp add: profile_tabulated_facts)
  show ?thesis
    using read_curve_curv_eq[OF ib, of Curve_uninit]
    by (simp add: read_curve_def read_big_u32_def profile_tabulated_facts sig_values
        spec_curv_curve_def)
qed

lemma profile_tabulated_results:
  "tf_result profile_tabulated tf_zero = (False, tf_zero)"
  "xyz_result profile_tabulated matrix_zero = (False, matrix_zero)"
  by (simp_all add: tf_result_def xyz_result_def parametric_of_tag_def profile_tabulated_tags
      profile_tabulated_curve)

lemma profile_matrix_facts:
  "length profile_matrix = 280"
  "be_u32 (profile_matrix, 0) = 280"
  "be_u32 (profile_matrix, 8) = 0x4000000"
  "be_u32 (profile_matrix, 36) = 0x61637370"
  "be_u32 (profile_matrix, 68) = 0xf6d6"
  "be_u32 (profile_matrix, 72) = 0x10000"
  "be_u32 (profile_matrix, 76) = 0xd32d"
  "be_u32 (profile_matrix, 128) = 6"
  "be_u32 (profile_matrix, 132) = 0x72545243"
  "be_u32 (profile_matrix, 136) = 204"
  "be_u32 (profile_matrix, 140) = 14"
  "be_u32 (profile_matrix, 144) = 0x67545243"
  "be_u32 (profile_matrix, 148) = 204"
  "be_u32 (profile_matrix, 152) = 14"
  "be_u32 (profile_matrix, 156) = 0x62545243"
  "be_u32 (profile_matrix, 160) = 204"
  "be_u32 (profile_matrix, 164) = 14"
  "be_u32 (profile_matrix, 168) = 0x7258595a"
  "be_u32 (profile_matrix, 172) = 220"
  "be_u32 (profile_matrix, 176) = 20"
  "be_u32 (profile_matrix, 180) = 0x6758595a"
  "be_u32 (profile_matrix, 184) = 240"
  "be_u32 (profile_matrix, 188) = 20"
  "be_u32 (profile_matrix, 192) = 0x6258595a"
  "be_u32 (profile_matrix, 196) = 260"
  "be_u32 (profile_matrix, 200) = 20"
  "be_u32 (profile_matrix, 204) = 0x63757276"
  "be_u32 (profile_matrix, 212) = 1"
  "be_u32 (profile_matrix, 220) = 0x58595a20"
  "be_u32 (profile_matrix, 228) = 0x6fa2"
  "be_u32 (profile_matrix, 232) = 0x38f5"
  "be_u32 (profile_matrix, 236) = 912"
  "be_u32 (profile_matrix, 240) = 0x58595a20"
  "be_u32 (profile_matrix, 248) = 0x6299"
  "be_u32 (profile_matrix, 252) = 0xb785"
  "be_u32 (profile_matrix, 256) = 6362"
  "be_u32 (profile_matrix, 260) = 0x58595a20"
  "be_u32 (profile_matrix, 268) = 9376"
  "be_u32 (profile_matrix, 272) = 3972"
  "be_u32 (profile_matrix, 276) = 0xb6cf"
  "be_u16 (profile_matrix, 216) = 0x0233"
  by (simp_all add: be_eval profile_matrix_def)

lemma less_6_cases: "(i::nat) < 6 \<Longrightarrow> i = 0 \<or> i = 1 \<or> i = 2 \<or> i = 3 \<or> i = 4 \<or> i = 5"
  by arith

lemma profile_matrix_valid:
  "spec_header_valid profile_matrix \<and> spec_tag_table_valid profile_matrix"
  by (auto simp: spec_header_valid_def spec_tag_table_valid_def spec_tag_entry_valid_def
      profile_matrix_facts sig_values dest!: less_6_cases)

lemma find_tag_upt6:
  assumes "be_u32 (bytes, 128) = 6"
  shows "find_tag bytes sg =
     (if be_u32 (bytes, 132) = sg then Some 0
      else if be_u32 (bytes, 144) = sg then Some 1
      else if be_u32 (bytes, 156) = sg then Some 2
      else if be_u32 (bytes, 168) = sg then Some 3
      else if be_u32 (bytes, 180) = sg then Some 4
      else if be_u32 (bytes, 192) = sg then Some 5 else None)"
proof -
  have "[0..<6] = [0, 1, 2, 3, 4, 5::nat]" by (simp add: upt_rec)
  then show ?thesis by (simp add: find_tag_def assms)
qed

lemma profile_matrix_tags:
  "find_tag profile_matrix (sig ''rTRC'') = Some 0"
  "find_tag profile_matrix (sig ''gTRC'') = Some 1"
  "find_tag profile_matrix (sig ''bTRC'') = Some 2"
  "find_tag profile_matrix (sig ''rXYZ'') = Some 3"
  "find_tag profile_matrix (sig ''gXYZ'') = Some 4"
  "find_tag profile_matrix (sig ''bXYZ'') = Some 5"
  by (simp_all add: find_tag_upt6 profile_matrix_facts sig_values)

lemma profile_matrix_entries:
  "tag_entry profile_matrix 0 = \<lparr>tag_signature = 0x72545243, tag_type = 0x63757276,
     tag_size = 14, tag_buf = (profile_matrix, 204)\<rparr>"
  "tag_entry profile_matrix 1 = \<lparr>tag_signature = 0x67545243, tag_type = 0x63757276,
     tag_size = 14, tag_buf = (profile_matrix, 204)\<rparr>"
  "tag_entry profile_matrix 2 = \<lparr>tag_signature = 0x62545243, tag_type = 0x63757276,
     tag_size = 14, tag_buf = (profile_matrix, 204)\<rparr>"
  "tag_entry profile_matrix 3 = \<lparr>tag_signature = 0x7258595A, tag_type = 0x58595A20,
     tag_size = 20, tag_buf = (profile_matrix, 220)\<rparr>"
  "tag_entry profile_matrix 4 = \<lparr>tag_signature = 0x6758595A, tag_type = 0x58595A20,
     tag_size = 20, tag_buf = (profile_matrix, 240)\<rparr>"
  "tag_entry profile_matrix 5 = \<lparr>tag_signature = 0x6258595A, tag_type = 0x58595A20,
     tag_size = 20, tag_buf = (profile_matrix, 260)\<rparr>"
  by (simp_all add: tag_entry_def profile_matrix_facts Let_def)

lemma profile_matrix_entry_Suc_0:
  "tag_entry profile_matrix (Suc 0) = \<lparr>tag_signature = 0x67545243, tag_type = 0x63757276,
     tag_size = 14, tag_buf = (profile_matrix, 204)\<rparr>"
  using profile_matrix_entries(2) by simp

lemma profile_matrix_curve:
  "read_curve (Some (profile_matrix, 204)) 14 Curve_uninit =
     Some (True, \<lparr>curve_parametric = tf_gamma (F32 False (563 / 256)), curve_table = None,
                   curve_table_size = 0\<rparr>)"
proof -
  have ib: "in_bounds (profile_matrix, 204) (unat (14 :: u32))"
    by (simp add: profile_matrix_facts)
  show ?thesis
    using read_curve_curv_eq[OF ib, of Curve_uninit]
    by (simp add: read_curve_def read_big_u32_def profile_matrix_facts sig_values
        spec_curv_curve_def)
qed

lemma profile_matrix_parametric:
  "parametric_of_tag profile_matrix (sig ''rTRC'') = Some (tf_gamma (F32 False (563 / 256)))"
  "parametric_of_tag profile_matrix (sig ''gTRC'') = Some (tf_gamma (F32 False (563 / 256)))"
  "parametric_of_tag profile_matrix (sig ''bTRC'') = Some (tf_gamma (F32 False (563 / 256)))"
  by (simp_all add: parametric_of_tag_def profile_matrix_tags profile_matrix_entries
      profile_matrix_entry_Suc_0 profile_matrix_curve)

lemma matrix_zero_rows: "matrix_zero = [[f32_zero, f32_zero, f32_zero],
    [f32_zero, f32_zero, f32_zero], [f32_zero, f32_zero, f32_zero]]"
  by (simp add: matrix_zero_def numeral_3_eq_3)

lemma columns_of_filled_matrix:
  "set_col (set_col (set_col matrix_zero 0 (rx, ry, rz)) 1 (gx, gy, gz)) 2 (bx, by, bz)
     = [[rx, gx, bx], [ry, gy, by], [rz, gz, bz]]"
  by (simp add: matrix_zero_rows set_col_def)

lemma columns_of_filled_matrix_Suc:
  "set_col (set_col (set_col matrix_zero 0 (rx, ry, rz)) (Suc 0) (gx, gy, gz)) 2 (bx, by, bz)
     = [[rx, gx, bx], [ry, gy, by], [rz, gz, bz]]"
  using columns_of_filled_matrix[of rx ry rz gx gy gz bx "by" bz] by simp

lemma xyz_of_tag_Some_found: "xyz_of_tag bytes sg = Some v \<Longrightarrow> find_tag bytes sg \<noteq> None"
  by (auto simp: xyz_of_tag_def split: option.splits)

lemma profile_matrix_fixed:
  "fixed_of_i32 0x6FA2 = F32 False (0x6FA2 / 65536)"
  "fixed_of_i32 0x38F5 = F32 False (0x38F5 / 65536)"
  "fixed_of_i32 0x0390 = F32 False (0x0390 / 65536)"
  "fixed_of_i32 0x6299 = F32 False (0x6299 / 65536)"
  "fixed_of_i32 0xB785 = F32 False (0xB785 / 65536)"
  "fixed_of_i32 0x18DA = F32 False (0x18DA / 65536)"
  "fixed_of_i32 0x24A0 = F32 False (0x24A0 / 65536)"
  "fixed_of_i32 0x0F84 = F32 False (0x0F84 / 65536)"
  "fixed_of_i32 0xB6CF = F32 False (0xB6CF / 65536)"
  by (simp_all add: fixed_of_i32_small)

lemma profile_matrix_xyz:
  "xyz_of_tag profile_matrix (sig ''rXYZ'') =
     Some (F32 False (0x6FA2 / 65536), F32 False (0x38F5 / 65536), F32 False (0x0390 / 65536))"
  "xyz_of_tag profile_matrix (sig ''gXYZ'') =
     Some (F32 False (0x6299 / 65536), F32 False (0xB785 / 65536), F32 False (0x18DA / 65536))"
  "xyz_of_tag profile_matrix (sig ''bXYZ'') =
     Some (F32 False (0x24A0 / 65536), F32 False (0x0F84 / 65536), F32 False (0xB6CF / 65536))"
  unfolding xyz_of_tag_def profile_matrix_tags
  by (simp_all add: profile_matrix_entries Let_def sig_values
      be_fixed_def profile_matrix_facts profile_matrix_fixed)

section \<open>Multi-function tables: sizes and acceptance\<close>

lemma grid_size_loop_unat:
  "unat g * unat gp ^ n < 2 ^ 64 \<Longrightarrow> unat (grid_size_loop g gp n) = unat g * unat gp ^ n"
proof (induction n arbitrary: g)
  case 0
  then show ?case by simp
next
  case (Suc n)
  have le: "unat g * unat gp \<le> unat g * unat gp ^ Suc n"
  proof (cases "unat gp = 0")
    case True
    then show ?thesis by simp
  next
    case False
    then have "1 \<le> unat gp ^ n" by simp
    then have "unat g * unat gp * 1 \<le> unat g * unat gp * unat gp ^ n"
      by (rule mult_left_mono) simp
    then show ?thesis by (simp add: mult.assoc)
  qed
  from le Suc.prems have "unat g * unat gp < 2 ^ 64" by (rule le_less_trans)
  then have m: "unat (g * gp) = unat g * unat gp"
    by (simp add: unat_mult_lem[THEN iffD1])
  have "unat (g * gp) * unat gp ^ n < 2 ^ 64" using Suc.prems by (simp add: m mult.assoc)
  from Suc.IH[OF this] show ?case by (simp add: m mult.assoc)
qed

lemma unat_ucast_u8_u32 [simp]: "unat (ucast (x :: u8) :: u32) = unat x"
  using unat_u8_lt[of x] by (simp add: unsigned_ucast_eq take_bit_nat_eq_self)

lemma unat_ucast_u16_u32 [simp]: "unat (ucast (x :: u16) :: u32) = unat x"
  using unat_u16_lt[of x] by (simp add: unsigned_ucast_eq take_bit_nat_eq_self)

lemma u32_mult_small:
  "unat (a :: u32) \<le> 65535 \<Longrightarrow> unat (b :: u32) \<le> 4 \<Longrightarrow> unat (a * b) = unat a * unat b"
proof -
  assume a: "unat a \<le> 65535" and b: "unat b \<le> 4"
  have "unat a * unat b \<le> 65535 * 4" using a b by (rule mult_le_mono)
  then have "unat a * unat b < 2 ^ 32" by simp
  then show ?thesis by (simp add: unat_mult_lem[THEN iffD1])
qed

lemma u64_mult_small:
  "unat (a :: u64) \<le> 4 \<Longrightarrow> unat (b :: u64) \<le> 262140 \<Longrightarrow> unat (a * b) = unat a * unat b"
proof -
  assume a: "unat a \<le> 4" and b: "unat b \<le> 262140"
  have "unat a * unat b \<le> 4 * 262140" using a b by (rule mult_le_mono)
  then have "unat a * unat b < 2 ^ 64" by simp
  then show ?thesis by (simp add: unat_mult_lem[THEN iffD1])
qed

text \<open>The sizes of \<open>init_mft_tables\<close> as natural numbers.\<close>

lemma init_mft_tables_sizes:
  assumes ic: "unat (input_channels m) \<le> 4" and oc: "unat (output_channels m) \<le> 4"
    and gp: "unat (grid_points m) \<le> 255" and w: "unat (table_byte_width m) \<le> 2"
    and its: "unat (input_table_size m) \<le> 65535" and ots: "unat (output_table_size m) \<le> 65535"
  shows "unat ((ucast (input_channels m) :: u64)
            * ucast (input_table_size m * table_byte_width m)
          + grid_size_loop (ucast (output_channels m * table_byte_width m))
              (ucast (grid_points m)) (unat (input_channels m))
          + ucast (output_channels m) * ucast (output_table_size m * table_byte_width m))
       = unat (input_channels m) * unat (input_table_size m) * unat (table_byte_width m)
         + unat (output_channels m) * unat (table_byte_width m)
             * unat (grid_points m) ^ unat (input_channels m)
         + unat (output_channels m) * unat (output_table_size m) * unat (table_byte_width m)"
    (is "unat (?A + ?G + ?O) = ?a + ?g + ?o")
    and "unat ((ucast (input_channels m) :: u64)
            * ucast (input_table_size m * table_byte_width m)
          + grid_size_loop (ucast (output_channels m * table_byte_width m))
              (ucast (grid_points m)) (unat (input_channels m)))
       = unat (input_channels m) * unat (input_table_size m) * unat (table_byte_width m)
         + unat (output_channels m) * unat (table_byte_width m)
             * unat (grid_points m) ^ unat (input_channels m)"
proof -
  have w4: "unat (table_byte_width m) \<le> 4" using w by simp
  have p1: "unat (input_table_size m * table_byte_width m)
      = unat (input_table_size m) * unat (table_byte_width m)"
    by (rule u32_mult_small[OF its w4])
  have p2: "unat (output_table_size m * table_byte_width m)
      = unat (output_table_size m) * unat (table_byte_width m)"
    by (rule u32_mult_small[OF ots w4])
  have p3: "unat (output_channels m * table_byte_width m)
      = unat (output_channels m) * unat (table_byte_width m)"
    using oc w4 by (intro u32_mult_small) simp_all
  have b1: "unat (input_table_size m) * unat (table_byte_width m) \<le> 65535 * 2"
    using its w by (rule mult_le_mono)
  have b2: "unat (output_table_size m) * unat (table_byte_width m) \<le> 65535 * 2"
    using ots w by (rule mult_le_mono)
  have b3: "unat (output_channels m) * unat (table_byte_width m) \<le> 4 * 2"
    using oc w by (rule mult_le_mono)
  have A: "unat ?A = ?a"
    using ic b1 by (simp add: u64_mult_small p1 mult.assoc)
  have O: "unat ?O = ?o"
    using oc b2 by (simp add: u64_mult_small p2 mult.assoc)
  have pw: "unat (grid_points m) ^ unat (input_channels m) \<le> 255 ^ 4"
  proof -
    have "unat (grid_points m) ^ unat (input_channels m) \<le> 255 ^ unat (input_channels m)"
      using gp by (rule power_mono) simp
    also have "\<dots> \<le> (255::nat) ^ 4" using ic by (intro power_increasing) simp_all
    finally show ?thesis .
  qed
  have "?g \<le> (4 * 2) * 255 ^ 4" using b3 pw by (rule mult_le_mono)
  then have gb: "?g \<le> 8 * 255 ^ 4" by simp
  then have "unat (ucast (output_channels m * table_byte_width m) :: u64)
               * unat (ucast (grid_points m) :: u64) ^ unat (input_channels m) < 2 ^ 64"
    by (simp add: p3)
  from grid_size_loop_unat[OF this] have G: "unat ?G = ?g" by (simp add: p3)
  have "unat (input_channels m) * (unat (input_table_size m) * unat (table_byte_width m))
      \<le> 4 * (65535 * 2)" using ic b1 by (rule mult_le_mono)
  then have ab: "?a \<le> 4 * (65535 * 2)" by (simp add: mult.assoc)
  have "unat (output_channels m) * (unat (output_table_size m) * unat (table_byte_width m))
      \<le> 4 * (65535 * 2)" using oc b2 by (rule mult_le_mono)
  then have ob: "?o \<le> 4 * (65535 * 2)" by (simp add: mult.assoc)
  have lt: "?a + ?g + ?o < 2 ^ 64" using ab gb ob by simp
  then show "unat (?A + ?G + ?O) = ?a + ?g + ?o"
    using A G O by (simp add: unat_word_ariths)
  from lt have "?a + ?g < 2 ^ 64" by simp
  then show "unat (?A + ?G) = ?a + ?g"
    using A G by (simp add: unat_word_ariths)
qed

lemma those_map_Some: "those (map (\<lambda>x. Some (f x)) xs) = Some (map f xs)"
  by (induction xs) simp_all

lemma upt_3: "[0..<3] = [0, 1, 2::nat]"
  by (simp add: upt_rec)

lemma read_mft_matrix_eq:
  assumes "in_bounds p 36"
  shows "read_mft_matrix p =
     Some (map (\<lambda>r. map (\<lambda>c. be_fixed (ptr_add p (4 * (3 * r + c)))) [0..<3]) [0..<3])"
proof -
  have r: "read_big_fixed (ptr_add p (4 * (3 * r + c))) = Some (be_fixed (ptr_add p (4 * (3 * r + c))))"
    if "r < 3" "c < 3" for r c
  proof -
    have "4 * (3 * r + c) + 4 \<le> 36" using that by simp
    with assms have "in_bounds (ptr_add p (4 * (3 * r + c))) 4" by (rule in_bounds_add)
    then show ?thesis by (rule read_big_fixed_in)
  qed
  show ?thesis
    unfolding read_mft_matrix_def upt_3 using r[of 0 0] r[of 0 1] r[of 0 2] r[of 1 0] r[of 1 1]
      r[of 1 2] r[of 2 0] r[of 2 1] r[of 2 2]
    by simp
qed

lemma ptr_add_add [simp]: "ptr_add (ptr_add p a) b = ptr_add p (a + b)"
  by (simp add: ptr_add_def)

lemma read_u8_in: "in_bounds p 1 \<Longrightarrow> read_u8 p = Some (fst p ! snd p)"
  by (simp add: read_u8_def)

lemma read_mft_common_eq:
  assumes "in_bounds b 48"
  shows "read_mft_common b mft =
     (let m = mft\<lparr>matrix := map (\<lambda>r. map (\<lambda>c. be_fixed (ptr_add b (12 + 4 * (3 * r + c)))) [0..<3]) [0..<3],
                  input_channels := ucast (byte_at b 8), grid_points := ucast (byte_at b 10),
                  output_channels := ucast (byte_at b 9)\<rparr> in
      Some (unat (output_channels m) = 3 \<and> 1 \<le> unat (input_channels m)
            \<and> unat (input_channels m) \<le> 4 \<and> 2 \<le> unat (grid_points m), m))"
proof -
  have "12 + 36 \<le> (48::nat)" by simp
  with assms have "in_bounds (ptr_add b 12) 36" by (rule in_bounds_add)
  note m = read_mft_matrix_eq[OF this]
  have u: "read_u8 (ptr_add b 8) = Some (byte_at b 8)" "read_u8 (ptr_add b 9) = Some (byte_at b 9)"
    "read_u8 (ptr_add b 10) = Some (byte_at b 10)"
    using assms by (simp_all add: read_u8_def in_bounds_def ptr_add_def byte_at_def)
  have w: "\<And>x :: u32. (x \<noteq> 3) = (unat x \<noteq> 3)" "\<And>x :: u32. (x < 1) = (unat x < 1)"
    "\<And>x :: u32. (4 < x) = (4 < unat x)" "\<And>x :: u32. (x < 2) = (unat x < 2)"
    by (simp_all add: word_less_nat_alt word_unat_eq_iff)
  have un0: "\<And>x :: u8. ((ucast x :: u32) = 0) = (unat x = 0)"
    using word_unat_eq_iff[where 'a = 32] by (simp add: word_unat_eq_iff)
  have ge1: "\<And>n :: nat. (Suc 0 \<le> n) = (n \<noteq> 0)" by auto
  show ?thesis
    by (auto simp: read_mft_common_def m u Let_def w un0 ge1)
qed

lemma read_big_fixed_Some_in_bounds: "read_big_fixed p = Some v \<Longrightarrow> in_bounds p 4"
  by (simp add: read_big_fixed_def read_big_i32_def read_big_u32_def split: if_splits)

lemma those_map_Some_elem:
  "those (map f xs) = Some ys \<Longrightarrow> x \<in> set xs \<Longrightarrow> \<exists>y. f x = Some y"
  by (induction xs arbitrary: ys) (auto split: option.splits)

lemma read_mft_common_in_bounds:
  assumes "read_mft_common b mft = Some r"
  shows "in_bounds b 48"
proof -
  have two: "(2::nat) \<in> set [0..<3]" by simp
  obtain M where M: "read_mft_matrix (ptr_add b 12) = Some M"
    using assms by (auto simp: read_mft_common_def split: Option.bind_splits)
  from those_map_Some_elem[OF M[unfolded read_mft_matrix_def] two]
  obtain row where row: "those (map (\<lambda>c. read_big_fixed (ptr_add (ptr_add b 12) (4 * (3 * 2 + c))))
      [0..<3]) = Some row" by blast
  from those_map_Some_elem[OF row two]
  obtain v where "read_big_fixed (ptr_add (ptr_add b 12) (4 * (3 * 2 + 2))) = Some v" by blast
  then have "in_bounds (ptr_add (ptr_add b 12) (4 * (3 * 2 + 2))) 4"
    by (rule read_big_fixed_Some_in_bounds)
  then show ?thesis by (simp add: in_bounds_def ptr_add_def)
qed

lemma init_mft_tables_True:
  assumes ic: "unat (input_channels m) \<le> 4" and oc: "unat (output_channels m) \<le> 4"
    and gp: "unat (grid_points m) \<le> 255" and w: "unat (table_byte_width m) \<le> 2"
    and its: "unat (input_table_size m) \<le> 65535" and ots: "unat (output_table_size m) \<le> 65535"
    and r: "init_mft_tables base maxlen m = (True, m')"
  shows "unat (input_channels m) * unat (input_table_size m) * unat (table_byte_width m)
         + unat (output_channels m) * unat (table_byte_width m)
             * unat (grid_points m) ^ unat (input_channels m)
         + unat (output_channels m) * unat (output_table_size m) * unat (table_byte_width m)
         \<le> unat maxlen"
    and "input_channels m' = input_channels m" "output_channels m' = output_channels m"
    and "grid_points m' = grid_points m" "table_byte_width m' = table_byte_width m"
    and "input_table_size m' = input_table_size m" "output_table_size m' = output_table_size m"
    and "matrix m' = matrix m"
    and "grid m' = Some (ptr_add base
           (unat (input_channels m) * unat (input_table_size m) * unat (table_byte_width m)))"
    and "output_tables m' ! 0 = Some (ptr_add base
           (unat (input_channels m) * unat (input_table_size m) * unat (table_byte_width m)
            + unat (output_channels m) * unat (table_byte_width m)
                * unat (grid_points m) ^ unat (input_channels m)))"
proof -
  note sz = init_mft_tables_sizes[OF ic oc gp w its ots]
  define A :: u64 where "A = ucast (input_channels m) * ucast (input_table_size m * table_byte_width m)"
  define G :: u64 where "G = grid_size_loop (ucast (output_channels m * table_byte_width m))
              (ucast (grid_points m)) (unat (input_channels m))"
  define Ob :: u64 where "Ob = ucast (output_channels m) * ucast (output_table_size m * table_byte_width m)"
  have nlt: "\<not> maxlen < A + G + Ob" and m': "m' = m\<lparr>
           input_tables := map (\<lambda>i. if i < unat (input_channels m)
                                 then Some (ptr_add base (unat (of_nat i * (ucast (input_table_size m * table_byte_width m) :: u64))))
                                 else input_tables m ! i) [0..<4],
           grid := Some (ptr_add base (unat A)),
           output_tables := map (\<lambda>i. Some (ptr_add base
               (unat (A + G + of_nat i * (ucast (output_table_size m * table_byte_width m) :: u64)))))
             [0..<3]\<rparr>"
    using r unfolding init_mft_tables_def Let_def A_def G_def Ob_def
    by (auto split: if_splits)
  show "unat (input_channels m) * unat (input_table_size m) * unat (table_byte_width m)
         + unat (output_channels m) * unat (table_byte_width m)
             * unat (grid_points m) ^ unat (input_channels m)
         + unat (output_channels m) * unat (output_table_size m) * unat (table_byte_width m)
         \<le> unat maxlen"
    using nlt sz(1) by (simp add: word_less_nat_alt A_def G_def Ob_def)
  show "input_channels m' = input_channels m" "output_channels m' = output_channels m"
    "grid_points m' = grid_points m" "table_byte_width m' = table_byte_width m"
    "input_table_size m' = input_table_size m" "output_table_size m' = output_table_size m"
    "matrix m' = matrix m"
    by (simp_all add: m')
  have w4: "unat (table_byte_width m) \<le> 4" using w by simp
  have p1: "unat (input_table_size m * table_byte_width m)
      = unat (input_table_size m) * unat (table_byte_width m)"
    by (rule u32_mult_small[OF its w4])
  have b1: "unat (input_table_size m) * unat (table_byte_width m) \<le> 65535 * 2"
    using its w by (rule mult_le_mono)
  have uA: "unat A = unat (input_channels m) * unat (input_table_size m) * unat (table_byte_width m)"
    unfolding A_def using ic b1 by (simp add: u64_mult_small p1 mult.assoc)
  show "grid m' = Some (ptr_add base
           (unat (input_channels m) * unat (input_table_size m) * unat (table_byte_width m)))"
    by (simp add: m' uA)
  have uAG: "unat (A + G) = unat (input_channels m) * unat (input_table_size m) * unat (table_byte_width m)
            + unat (output_channels m) * unat (table_byte_width m)
                * unat (grid_points m) ^ unat (input_channels m)"
    unfolding A_def G_def by (rule sz(2))
  show "output_tables m' ! 0 = Some (ptr_add base
           (unat (input_channels m) * unat (input_table_size m) * unat (table_byte_width m)
            + unat (output_channels m) * unat (table_byte_width m)
                * unat (grid_points m) ^ unat (input_channels m)))"
    by (simp add: m' upt_3 uAG)
qed

lemma init_mft_tables_fst:
  assumes ic: "unat (input_channels m) \<le> 4" and oc: "unat (output_channels m) \<le> 4"
    and gp: "unat (grid_points m) \<le> 255" and w: "unat (table_byte_width m) \<le> 2"
    and its: "unat (input_table_size m) \<le> 65535" and ots: "unat (output_table_size m) \<le> 65535"
  shows "fst (init_mft_tables base maxlen m) =
     (unat (input_channels m) * unat (input_table_size m) * unat (table_byte_width m)
         + unat (output_channels m) * unat (table_byte_width m)
             * unat (grid_points m) ^ unat (input_channels m)
         + unat (output_channels m) * unat (output_table_size m) * unat (table_byte_width m)
         \<le> unat maxlen)"
  using init_mft_tables_sizes(1)[OF ic oc gp w its ots]
  by (auto simp: init_mft_tables_def Let_def word_less_nat_alt)

lemma mft_fields_sel [simp]:
  "input_channels (mft_fields t m) = ucast (byte_at (tag_buf t) 8)"
  "output_channels (mft_fields t m) = ucast (byte_at (tag_buf t) 9)"
  "grid_points (mft_fields t m) = ucast (byte_at (tag_buf t) 10)"
  "table_byte_width (mft_fields t m) = (if tag_type t = sig ''mft1'' then 1 else 2)"
  "input_table_size (mft_fields t m)
     = (if tag_type t = sig ''mft1'' then 256 else ucast (be_u16 (ptr_add (tag_buf t) 48)))"
  "output_table_size (mft_fields t m)
     = (if tag_type t = sig ''mft1'' then 256 else ucast (be_u16 (ptr_add (tag_buf t) 50)))"
  "matrix (mft_fields t m)
     = map (\<lambda>r. map (\<lambda>c. be_fixed (ptr_add (tag_buf t) (12 + 4 * (3 * r + c)))) [0..<3]) [0..<3]"
  by (simp_all add: mft_fields_def Let_def)

lemma unat_sub_layout:
  "unat (n :: u64) \<le> unat (s :: u32) \<Longrightarrow> unat ((ucast s :: u64) - n) = unat s - unat n"
  by (simp add: unat_sub word_le_nat_alt)

lemma sig_mft_neq: "sig ''mft1'' \<noteq> sig ''mft2''"
  by (simp add: sig_def make_signature_def)

lemma u32_numeral_cmp:
  "\<And>x :: u32. (x < 2) = (unat x < 2)" "\<And>x :: u32. (4096 < x) = (4096 < unat x)"
  by (simp_all add: word_less_nat_alt)

lemma read_big_u16_Some_in_bounds: "read_big_u16 p = Some v \<Longrightarrow> in_bounds p 2 \<and> v = be_u16 p"
  by (simp add: read_big_u16_def split: if_splits)

text \<open>What a true return of \<open>read_tag_mft1\<close> and \<open>read_tag_mft2\<close> says of the tag.\<close>

lemma read_tag_mft1_True:
  assumes r: "read_tag_mft1 t mft = Some (True, m')" and ty: "tag_type t = sig ''mft1''"
  shows "spec_mft_accepted t"
    and "input_channels m' = input_channels (mft_fields t mft)"
    and "output_channels m' = output_channels (mft_fields t mft)"
    and "grid_points m' = grid_points (mft_fields t mft)"
    and "table_byte_width m' = table_byte_width (mft_fields t mft)"
    and "input_table_size m' = input_table_size (mft_fields t mft)"
    and "output_table_size m' = output_table_size (mft_fields t mft)"
    and "matrix m' = matrix (mft_fields t mft)"
    and "grid m' = Some (ptr_add (tag_buf t)
           (48 + unat (input_channels m') * unat (input_table_size m') * unat (table_byte_width m')))"
    and "output_tables m' ! 0 = Some (ptr_add (tag_buf t)
           (48 + unat (input_channels m') * unat (input_table_size m') * unat (table_byte_width m')
            + unat (output_channels m') * unat (table_byte_width m')
                * unat (grid_points m') ^ unat (input_channels m')))"
proof -
  let ?b = "tag_buf t"
  from r have sz: "48 \<le> unat (tag_size t)"
    by (auto simp: read_tag_mft1_def SAFE_SIZEOF_mft1_Layout_def word_less_nat_alt
        split: if_splits)
  from r sz obtain ok m1 where c: "read_mft_common ?b mft = Some (ok, m1)"
    by (auto simp: read_tag_mft1_def SAFE_SIZEOF_mft1_Layout_def word_less_nat_alt
        split: if_splits Option.bind_splits)
  have ib: "in_bounds ?b 48" by (rule read_mft_common_in_bounds[OF c])
  define m0 where "m0 = mft\<lparr>matrix := map (\<lambda>r. map (\<lambda>c. be_fixed (ptr_add ?b (12 + 4 * (3 * r + c)))) [0..<3]) [0..<3],
                  input_channels := ucast (byte_at ?b 8), grid_points := ucast (byte_at ?b 10),
                  output_channels := ucast (byte_at ?b 9)\<rparr>"
  from c read_mft_common_eq[OF ib, of mft]
  have ok_eq: "ok = (unat (output_channels m0) = 3 \<and> 1 \<le> unat (input_channels m0)
            \<and> unat (input_channels m0) \<le> 4 \<and> 2 \<le> unat (grid_points m0))" and m1: "m1 = m0"
    by (auto simp: Let_def m0_def)
  define m2 where "m2 = m0\<lparr>input_table_size := 256, output_table_size := 256,
                        table_byte_width := 1\<rparr>"
  from r c sz have ok: ok
    and i: "init_mft_tables (ptr_add ?b 48) (ucast (tag_size t) - 48) m2 = (True, m')"
    by (auto simp: read_tag_mft1_def SAFE_SIZEOF_mft1_Layout_def word_less_nat_alt m1 m2_def
        split: if_splits)
  have f: "input_channels m2 = ucast (byte_at ?b 8)" "output_channels m2 = ucast (byte_at ?b 9)"
    "grid_points m2 = ucast (byte_at ?b 10)" "table_byte_width m2 = 1"
    "input_table_size m2 = 256" "output_table_size m2 = 256"
    "matrix m2 = map (\<lambda>r. map (\<lambda>c. be_fixed (ptr_add ?b (12 + 4 * (3 * r + c)))) [0..<3]) [0..<3]"
    by (simp_all add: m2_def m0_def)
  from ok ok_eq have cond: "unat (byte_at ?b 9) = 3" "1 \<le> unat (byte_at ?b 8)"
    "unat (byte_at ?b 8) \<le> 4" "2 \<le> unat (byte_at ?b 10)"
    by (simp_all add: m0_def)
  have b: "unat (input_channels m2) \<le> 4" "unat (output_channels m2) \<le> 4"
    "unat (grid_points m2) \<le> 255" "unat (table_byte_width m2) \<le> 2"
    "unat (input_table_size m2) \<le> 65535" "unat (output_table_size m2) \<le> 65535"
    using cond unat_u8_lt[of "byte_at ?b 10"] by (simp_all add: f)
  note T = init_mft_tables_True[OF b i]
  have ml: "unat ((ucast (tag_size t) :: u64) - 48) = unat (tag_size t) - 48"
    using sz by (simp add: unat_sub_layout)
  show "spec_mft_accepted t"
    using T(1) cond sz by (simp add: spec_mft_accepted_def Let_def ty f ml)
  show "input_channels m' = input_channels (mft_fields t mft)"
    "output_channels m' = output_channels (mft_fields t mft)"
    "grid_points m' = grid_points (mft_fields t mft)"
    "table_byte_width m' = table_byte_width (mft_fields t mft)"
    "input_table_size m' = input_table_size (mft_fields t mft)"
    "output_table_size m' = output_table_size (mft_fields t mft)"
    "matrix m' = matrix (mft_fields t mft)"
    by (simp_all add: T f ty)
  show "grid m' = Some (ptr_add (tag_buf t)
           (48 + unat (input_channels m') * unat (input_table_size m') * unat (table_byte_width m')))"
    by (simp add: T)
  show "output_tables m' ! 0 = Some (ptr_add (tag_buf t)
           (48 + unat (input_channels m') * unat (input_table_size m') * unat (table_byte_width m')
            + unat (output_channels m') * unat (table_byte_width m')
                * unat (grid_points m') ^ unat (input_channels m')))"
    by (simp add: T add.assoc)
qed

lemma read_tag_mft2_True:
  assumes r: "read_tag_mft2 t mft = Some (True, m')" and ty: "tag_type t = sig ''mft2''"
  shows "spec_mft_accepted t"
    and "input_channels m' = input_channels (mft_fields t mft)"
    and "output_channels m' = output_channels (mft_fields t mft)"
    and "grid_points m' = grid_points (mft_fields t mft)"
    and "table_byte_width m' = table_byte_width (mft_fields t mft)"
    and "input_table_size m' = input_table_size (mft_fields t mft)"
    and "output_table_size m' = output_table_size (mft_fields t mft)"
    and "matrix m' = matrix (mft_fields t mft)"
    and "grid m' = Some (ptr_add (tag_buf t)
           (52 + unat (input_channels m') * unat (input_table_size m') * unat (table_byte_width m')))"
    and "output_tables m' ! 0 = Some (ptr_add (tag_buf t)
           (52 + unat (input_channels m') * unat (input_table_size m') * unat (table_byte_width m')
            + unat (output_channels m') * unat (table_byte_width m')
                * unat (grid_points m') ^ unat (input_channels m')))"
proof -
  let ?b = "tag_buf t"
  have ty1: "tag_type t \<noteq> sig ''mft1''" using ty sig_mft_neq by simp
  from r have sz: "52 \<le> unat (tag_size t)"
    by (auto simp: read_tag_mft2_def SAFE_SIZEOF_mft2_Layout_def word_less_nat_alt
        split: if_splits)
  from r sz obtain ok m1 where c: "read_mft_common ?b mft = Some (ok, m1)"
    by (auto simp: read_tag_mft2_def SAFE_SIZEOF_mft2_Layout_def word_less_nat_alt
        split: if_splits Option.bind_splits)
  have ib: "in_bounds ?b 48" by (rule read_mft_common_in_bounds[OF c])
  define m0 where "m0 = mft\<lparr>matrix := map (\<lambda>r. map (\<lambda>c. be_fixed (ptr_add ?b (12 + 4 * (3 * r + c)))) [0..<3]) [0..<3],
                  input_channels := ucast (byte_at ?b 8), grid_points := ucast (byte_at ?b 10),
                  output_channels := ucast (byte_at ?b 9)\<rparr>"
  from c read_mft_common_eq[OF ib, of mft]
  have ok_eq: "ok = (unat (output_channels m0) = 3 \<and> 1 \<le> unat (input_channels m0)
            \<and> unat (input_channels m0) \<le> 4 \<and> 2 \<le> unat (grid_points m0))" and m1: "m1 = m0"
    by (auto simp: Let_def m0_def)
  from r c sz have ok: ok
    by (auto simp: read_tag_mft2_def SAFE_SIZEOF_mft2_Layout_def word_less_nat_alt
        split: if_splits)
  from r c sz ok obtain its ots where its: "read_big_u16 (ptr_add ?b 48) = Some its"
    and ots: "read_big_u16 (ptr_add ?b 50) = Some ots"
    by (auto simp: read_tag_mft2_def SAFE_SIZEOF_mft2_Layout_def word_less_nat_alt
        split: if_splits Option.bind_splits)
  have its_eq: "its = be_u16 (ptr_add ?b 48)" and ots_eq: "ots = be_u16 (ptr_add ?b 50)"
    using read_big_u16_Some_in_bounds[OF its] read_big_u16_Some_in_bounds[OF ots] by simp_all
  define m2 where "m2 = m0\<lparr>input_table_size := ucast its, output_table_size := ucast ots,
                        table_byte_width := 2\<rparr>"
  from r c sz ok its ots
  have rng: "\<not> (input_table_size m2 < 2 \<or> input_table_size m2 > 4096
             \<or> output_table_size m2 < 2 \<or> output_table_size m2 > 4096)"
    and i: "init_mft_tables (ptr_add ?b 52) (ucast (tag_size t) - 52) m2 = (True, m')"
    by (auto simp: read_tag_mft2_def SAFE_SIZEOF_mft2_Layout_def word_less_nat_alt m1 m2_def
        Let_def split: if_splits)
  have f: "input_channels m2 = ucast (byte_at ?b 8)" "output_channels m2 = ucast (byte_at ?b 9)"
    "grid_points m2 = ucast (byte_at ?b 10)" "table_byte_width m2 = 2"
    "input_table_size m2 = ucast (be_u16 (ptr_add ?b 48))"
    "output_table_size m2 = ucast (be_u16 (ptr_add ?b 50))"
    "matrix m2 = map (\<lambda>r. map (\<lambda>c. be_fixed (ptr_add ?b (12 + 4 * (3 * r + c)))) [0..<3]) [0..<3]"
    by (simp_all add: m2_def m0_def its_eq ots_eq)
  from ok ok_eq have cond: "unat (byte_at ?b 9) = 3" "1 \<le> unat (byte_at ?b 8)"
    "unat (byte_at ?b 8) \<le> 4" "2 \<le> unat (byte_at ?b 10)"
    by (simp_all add: m0_def)
  from rng have rng': "2 \<le> unat (be_u16 (ptr_add ?b 48))" "unat (be_u16 (ptr_add ?b 48)) \<le> 4096"
    "2 \<le> unat (be_u16 (ptr_add ?b 50))" "unat (be_u16 (ptr_add ?b 50)) \<le> 4096"
    by (simp_all add: f word_less_nat_alt)
  have b: "unat (input_channels m2) \<le> 4" "unat (output_channels m2) \<le> 4"
    "unat (grid_points m2) \<le> 255" "unat (table_byte_width m2) \<le> 2"
    "unat (input_table_size m2) \<le> 65535" "unat (output_table_size m2) \<le> 65535"
    using cond rng' unat_u8_lt[of "byte_at ?b 10"] by (simp_all add: f)
  note T = init_mft_tables_True[OF b i]
  have ml: "unat ((ucast (tag_size t) :: u64) - 52) = unat (tag_size t) - 52"
    using sz by (simp add: unat_sub_layout)
  show "spec_mft_accepted t"
    using T(1) cond sz rng' by (simp add: spec_mft_accepted_def Let_def ty f ml sig_mft_neq[symmetric])
  show "input_channels m' = input_channels (mft_fields t mft)"
    "output_channels m' = output_channels (mft_fields t mft)"
    "grid_points m' = grid_points (mft_fields t mft)"
    "table_byte_width m' = table_byte_width (mft_fields t mft)"
    "input_table_size m' = input_table_size (mft_fields t mft)"
    "output_table_size m' = output_table_size (mft_fields t mft)"
    "matrix m' = matrix (mft_fields t mft)"
    by (simp_all add: T f ty sig_mft_neq[symmetric])
  show "grid m' = Some (ptr_add (tag_buf t)
           (52 + unat (input_channels m') * unat (input_table_size m') * unat (table_byte_width m')))"
    by (simp add: T)
  show "output_tables m' ! 0 = Some (ptr_add (tag_buf t)
           (52 + unat (input_channels m') * unat (input_table_size m') * unat (table_byte_width m')
            + unat (output_channels m') * unat (table_byte_width m')
                * unat (grid_points m') ^ unat (input_channels m')))"
    by (simp add: T add.assoc)
qed

text \<open>Conversely, an accepted tag whose bytes lie inside the buffer is read with a true return.\<close>

lemma read_tag_mft1_accepts:
  assumes acc: "spec_mft_accepted t" and ib: "in_bounds (tag_buf t) (unat (tag_size t))"
    and ty: "tag_type t = sig ''mft1''"
  shows "\<exists>m'. read_tag_mft1 t mft = Some (True, m')"
proof -
  let ?b = "tag_buf t"
  from acc have sz: "48 \<le> unat (tag_size t)"
    and cond: "unat (byte_at ?b 9) = 3" "1 \<le> unat (byte_at ?b 8)"
      "unat (byte_at ?b 8) \<le> 4" "2 \<le> unat (byte_at ?b 10)"
    and sum: "unat (byte_at ?b 8) * 256 * 1 + 3 * 1 * unat (byte_at ?b 10) ^ unat (byte_at ?b 8)
        + 3 * 256 * 1 \<le> unat (tag_size t) - 48"
    by (auto simp: spec_mft_accepted_def Let_def ty)
  have ib48: "in_bounds ?b 48" using ib sz by (rule in_bounds_weaken)
  define m0 where "m0 = mft\<lparr>matrix := map (\<lambda>r. map (\<lambda>c. be_fixed (ptr_add ?b (12 + 4 * (3 * r + c)))) [0..<3]) [0..<3],
                  input_channels := ucast (byte_at ?b 8), grid_points := ucast (byte_at ?b 10),
                  output_channels := ucast (byte_at ?b 9)\<rparr>"
  have c: "read_mft_common ?b mft = Some (True, m0)"
    using read_mft_common_eq[OF ib48, of mft] cond by (simp add: Let_def m0_def)
  define m2 where "m2 = m0\<lparr>input_table_size := 256, output_table_size := 256,
                        table_byte_width := 1\<rparr>"
  have f: "input_channels m2 = ucast (byte_at ?b 8)" "output_channels m2 = ucast (byte_at ?b 9)"
    "grid_points m2 = ucast (byte_at ?b 10)" "table_byte_width m2 = 1"
    "input_table_size m2 = 256" "output_table_size m2 = 256"
    by (simp_all add: m2_def m0_def)
  have b: "unat (input_channels m2) \<le> 4" "unat (output_channels m2) \<le> 4"
    "unat (grid_points m2) \<le> 255" "unat (table_byte_width m2) \<le> 2"
    "unat (input_table_size m2) \<le> 65535" "unat (output_table_size m2) \<le> 65535"
    using cond unat_u8_lt[of "byte_at ?b 10"] by (simp_all add: f)
  have ml: "unat ((ucast (tag_size t) :: u64) - 48) = unat (tag_size t) - 48"
    using sz by (simp add: unat_sub_layout)
  have "fst (init_mft_tables (ptr_add ?b 48) (ucast (tag_size t) - 48) m2)"
    unfolding init_mft_tables_fst[OF b] using sum cond by (simp add: f ml)
  then obtain m' where "init_mft_tables (ptr_add ?b 48) (ucast (tag_size t) - 48) m2 = (True, m')"
    by (cases "init_mft_tables (ptr_add ?b 48) (ucast (tag_size t) - 48) m2") auto
  then have "read_tag_mft1 t mft = Some (True, m')"
    using sz c
    by (simp add: read_tag_mft1_def SAFE_SIZEOF_mft1_Layout_def word_less_nat_alt m2_def)
  then show ?thesis by blast
qed

lemma read_tag_mft2_accepts:
  assumes acc: "spec_mft_accepted t" and ib: "in_bounds (tag_buf t) (unat (tag_size t))"
    and ty: "tag_type t = sig ''mft2''"
  shows "\<exists>m'. read_tag_mft2 t mft = Some (True, m')"
proof -
  let ?b = "tag_buf t"
  let ?its = "be_u16 (ptr_add ?b 48)"
  let ?ots = "be_u16 (ptr_add ?b 50)"
  from acc have sz: "52 \<le> unat (tag_size t)"
    and cond: "unat (byte_at ?b 9) = 3" "1 \<le> unat (byte_at ?b 8)"
      "unat (byte_at ?b 8) \<le> 4" "2 \<le> unat (byte_at ?b 10)"
    and rng: "2 \<le> unat ?its" "unat ?its \<le> 4096" "2 \<le> unat ?ots" "unat ?ots \<le> 4096"
    and sum: "unat (byte_at ?b 8) * unat ?its * 2
        + 3 * 2 * unat (byte_at ?b 10) ^ unat (byte_at ?b 8)
        + 3 * unat ?ots * 2 \<le> unat (tag_size t) - 52"
    by (auto simp: spec_mft_accepted_def Let_def ty sig_mft_neq[symmetric])
  have ib48: "in_bounds ?b 48" using ib sz by (intro in_bounds_weaken[OF ib]) simp
  have r16: "read_big_u16 (ptr_add ?b 48) = Some ?its" "read_big_u16 (ptr_add ?b 50) = Some ?ots"
    using ib sz by (simp_all add: read_big_u16_def in_bounds_def ptr_add_def)
  define m0 where "m0 = mft\<lparr>matrix := map (\<lambda>r. map (\<lambda>c. be_fixed (ptr_add ?b (12 + 4 * (3 * r + c)))) [0..<3]) [0..<3],
                  input_channels := ucast (byte_at ?b 8), grid_points := ucast (byte_at ?b 10),
                  output_channels := ucast (byte_at ?b 9)\<rparr>"
  have c: "read_mft_common ?b mft = Some (True, m0)"
    using read_mft_common_eq[OF ib48, of mft] cond by (simp add: Let_def m0_def)
  define m2 where "m2 = m0\<lparr>input_table_size := ucast ?its, output_table_size := ucast ?ots,
                        table_byte_width := 2\<rparr>"
  have f: "input_channels m2 = ucast (byte_at ?b 8)" "output_channels m2 = ucast (byte_at ?b 9)"
    "grid_points m2 = ucast (byte_at ?b 10)" "table_byte_width m2 = 2"
    "input_table_size m2 = ucast ?its" "output_table_size m2 = ucast ?ots"
    by (simp_all add: m2_def m0_def)
  have b: "unat (input_channels m2) \<le> 4" "unat (output_channels m2) \<le> 4"
    "unat (grid_points m2) \<le> 255" "unat (table_byte_width m2) \<le> 2"
    "unat (input_table_size m2) \<le> 65535" "unat (output_table_size m2) \<le> 65535"
    using cond rng unat_u8_lt[of "byte_at ?b 10"] by (simp_all add: f)
  have ml: "unat ((ucast (tag_size t) :: u64) - 52) = unat (tag_size t) - 52"
    using sz by (simp add: unat_sub_layout)
  have "fst (init_mft_tables (ptr_add ?b 52) (ucast (tag_size t) - 52) m2)"
    unfolding init_mft_tables_fst[OF b] using sum cond by (simp add: f ml)
  then obtain m' where i: "init_mft_tables (ptr_add ?b 52) (ucast (tag_size t) - 52) m2 = (True, m')"
    by (cases "init_mft_tables (ptr_add ?b 52) (ucast (tag_size t) - 52) m2") auto
  have rng': "\<not> (input_table_size m2 < 2 \<or> input_table_size m2 > 4096
             \<or> output_table_size m2 < 2 \<or> output_table_size m2 > 4096)"
    using rng by (simp add: f word_less_nat_alt)
  have "read_tag_mft2 t mft = Some (True, m')"
    using sz c r16 i rng'
    by (simp add: read_tag_mft2_def SAFE_SIZEOF_mft2_Layout_def word_less_nat_alt m2_def Let_def)
  then show ?thesis by blast
qed

lemma skcms_GetMultiFunctionTable_True:
  assumes "skcms_GetMultiFunctionTable profile mft = Some (True, m')"
  shows "\<exists>a2b. skcms_GetTagBySignature profile (sig ''A2B0'') ICCTag_uninit = Some (True, a2b)
     \<and> (tag_type a2b = sig ''mft1'' \<and> read_tag_mft1 a2b mft = Some (True, m')
        \<or> tag_type a2b = sig ''mft2'' \<and> read_tag_mft2 a2b mft = Some (True, m'))"
  using assms
  by (auto simp: skcms_GetMultiFunctionTable_def split: Option.bind_splits if_splits)

text \<open>
  On a parsed profile \<open>skcms_GetMultiFunctionTable\<close> reads inside the buffer, and it
  returns true exactly for an accepted A2B0 tag.
\<close>

lemma skcms_GetMultiFunctionTable_parsed:
  assumes "table_in_buffer bytes" "spec_tag_table_valid bytes"
    and "buffer h = Some (bytes, 0)" "tag_count h = be_u32 (bytes, 128)"
  shows "(\<exists>m'. skcms_GetMultiFunctionTable h mft = Some (True, m'))
      = (\<exists>j. find_tag bytes (sig ''A2B0'') = Some j \<and> spec_mft_accepted (tag_entry bytes j))"
proof (cases "find_tag bytes (sig ''A2B0'')")
  case None
  then show ?thesis
    by (simp add: skcms_GetMultiFunctionTable_def skcms_GetTagBySignature_eq[OF assms])
next
  case (Some j)
  let ?t = "tag_entry bytes j"
  have g: "skcms_GetMultiFunctionTable h mft =
      (if tag_type ?t = sig ''mft1'' then read_tag_mft1 ?t mft
       else if tag_type ?t = sig ''mft2'' then read_tag_mft2 ?t mft else Some (False, mft))"
    by (simp add: skcms_GetMultiFunctionTable_def skcms_GetTagBySignature_eq[OF assms] Some)
  have ib: "in_bounds (tag_buf ?t) (unat (tag_size ?t))"
    by (rule tag_entry_in_bounds(1)[OF assms(1,2) find_tag_Some(1)[OF Some]])
  show ?thesis
  proof
    assume "\<exists>m'. skcms_GetMultiFunctionTable h mft = Some (True, m')"
    then obtain m' where "skcms_GetMultiFunctionTable h mft = Some (True, m')" by blast
    then have "spec_mft_accepted ?t"
      unfolding g by (auto split: if_splits intro: read_tag_mft1_True(1) read_tag_mft2_True(1))
    then show "\<exists>j. find_tag bytes (sig ''A2B0'') = Some j \<and> spec_mft_accepted (tag_entry bytes j)"
      using Some by simp
  next
    assume "\<exists>j. find_tag bytes (sig ''A2B0'') = Some j \<and> spec_mft_accepted (tag_entry bytes j)"
    then have acc: "spec_mft_accepted ?t" using Some by simp
    then have "tag_type ?t = sig ''mft1'' \<or> tag_type ?t = sig ''mft2''"
      by (simp add: spec_mft_accepted_def Let_def)
    then show "\<exists>m'. skcms_GetMultiFunctionTable h mft = Some (True, m')"
      unfolding g using read_tag_mft1_accepts[OF acc ib] read_tag_mft2_accepts[OF acc ib]
        sig_mft_neq by auto
  qed
qed

section \<open>The examples with an A2B0 tag\<close>

lemma profile_a2b_facts:
  "length profile_a2b = 224" "be_u32 (profile_a2b, 0) = 224"
  "be_u32 (profile_a2b, 8) = 0x04000000" "be_u32 (profile_a2b, 36) = 0x61637370"
  "be_u32 (profile_a2b, 68) = 0xF6D6" "be_u32 (profile_a2b, 72) = 0x10000"
  "be_u32 (profile_a2b, 76) = 0xD32D" "be_u32 (profile_a2b, 128) = 1"
  "be_u32 (profile_a2b, 132) = 0x41324230" "be_u32 (profile_a2b, 136) = 144"
  "be_u32 (profile_a2b, 140) = 80" "be_u32 (profile_a2b, 144) = 0x6D667432"
  "be_u16 (profile_a2b, 192) = 2" "be_u16 (profile_a2b, 194) = 2"
  "byte_at (profile_a2b, 144) 8 = 1" "byte_at (profile_a2b, 144) 9 = 3"
  "byte_at (profile_a2b, 144) 10 = 2"
  by (simp_all add: be_eval byte_at_def profile_a2b_def)

lemma profile_a2b_valid: "spec_header_valid profile_a2b \<and> spec_tag_table_valid profile_a2b"
  by (simp add: spec_header_valid_def spec_tag_table_valid_def spec_tag_entry_valid_def
      profile_a2b_facts sig_values)

lemma profile_a2b_tag:
  "find_tag profile_a2b (sig ''A2B0'') = Some 0"
  "tag_entry profile_a2b 0 = \<lparr>tag_signature = 0x41324230, tag_type = 0x6D667432,
     tag_size = 80, tag_buf = (profile_a2b, 144)\<rparr>"
  by (simp_all add: find_tag_def tag_entry_def profile_a2b_facts sig_values)

lemma profile_a2b_accepted: "spec_mft_accepted (tag_entry profile_a2b 0)"
  by (simp add: spec_mft_accepted_def profile_a2b_tag profile_a2b_facts sig_values Let_def)

lemma profile_a2b_four_facts:
  "length profile_a2b_four = 320" "be_u32 (profile_a2b_four, 0) = 320"
  "be_u32 (profile_a2b_four, 8) = 0x04000000" "be_u32 (profile_a2b_four, 36) = 0x61637370"
  "be_u32 (profile_a2b_four, 68) = 0xF6D6" "be_u32 (profile_a2b_four, 72) = 0x10000"
  "be_u32 (profile_a2b_four, 76) = 0xD32D" "be_u32 (profile_a2b_four, 128) = 1"
  "be_u32 (profile_a2b_four, 132) = 0x41324230" "be_u32 (profile_a2b_four, 136) = 144"
  "be_u32 (profile_a2b_four, 140) = 176" "be_u32 (profile_a2b_four, 144) = 0x6D667432"
  "be_u16 (profile_a2b_four, 192) = 2" "be_u16 (profile_a2b_four, 194) = 2"
  "byte_at (profile_a2b_four, 144) 8 = 4" "byte_at (profile_a2b_four, 144) 9 = 3"
  "byte_at (profile_a2b_four, 144) 10 = 2"
  by (simp_all add: be_eval byte_at_def profile_a2b_four_def)

lemma profile_a2b_four_valid:
  "spec_header_valid profile_a2b_four \<and> spec_tag_table_valid profile_a2b_four"
  by (simp add: spec_header_valid_def spec_tag_table_valid_def spec_tag_entry_valid_def
      profile_a2b_four_facts sig_values)

lemma profile_a2b_four_tag:
  "find_tag profile_a2b_four (sig ''A2B0'') = Some 0"
  "tag_entry profile_a2b_four 0 = \<lparr>tag_signature = 0x41324230, tag_type = 0x6D667432,
     tag_size = 176, tag_buf = (profile_a2b_four, 144)\<rparr>"
  by (simp_all add: find_tag_def tag_entry_def profile_a2b_four_facts sig_values)

lemma profile_a2b_four_accepted: "spec_mft_accepted (tag_entry profile_a2b_four 0)"
  by (simp add: spec_mft_accepted_def profile_a2b_four_tag profile_a2b_four_facts sig_values
      Let_def)

section \<open>The claims\<close>

text \<open>
  Claim C1. \<open>skcms_Parse\<close> returns true only if the buffer has at least 132 bytes,
  the signature at offset 36 is \<open>acsp\<close>, the declared size is at most the length of
  the buffer and at least \<open>132 + 12 * tag_count\<close>, the top byte of the version is at
  most 4, and each illuminant component, read as s15.16, is within 0.01 of
  (0.9642, 1.0000, 0.8249). When one of these fails, the call returns false.
\<close>

theorem C1_parse_true_only_if_header_valid:
  "(skcms_Parse bytes = Some (True, p) \<longrightarrow> spec_header_valid bytes)
   \<and> (\<not> spec_header_valid bytes \<longrightarrow> (\<exists>q. skcms_Parse bytes = Some (False, q)))"
proof (intro conjI impI)
  assume "skcms_Parse bytes = Some (True, p)"
  then show "spec_header_valid bytes"
    unfolding skcms_Parse_True_iff using header_accepted_valid by blast
next
  assume "\<not> spec_header_valid bytes"
  then show "\<exists>q. skcms_Parse bytes = Some (False, q)" by (rule skcms_Parse_rejects)
qed

theorem C1_parse_true_only_if_header_valid_witness:
  "(\<exists>p. skcms_Parse profile_minimal = Some (True, p)) \<and> spec_header_valid profile_minimal
   \<and> \<not> spec_header_valid profile_v5 \<and> (\<exists>q. skcms_Parse profile_v5 = Some (False, q))"
proof -
  obtain p where p: "skcms_Parse profile_minimal = Some (True, p)"
    using profile_minimal_valid skcms_Parse_True_iff_valid[of profile_minimal] by blast
  from p C1_parse_true_only_if_header_valid[of profile_minimal p]
  have 1: "spec_header_valid profile_minimal" by blast
  from profile_v5_invalid C1_parse_true_only_if_header_valid[of profile_v5 p]
  have 2: "\<exists>q. skcms_Parse profile_v5 = Some (False, q)" by blast
  show ?thesis using p 1 2 profile_v5_invalid by blast
qed

text \<open>
  Claim C2, as stated, fails on the code: \<open>get_transfer_function\<close> keeps the three
  curves in locals and writes one transfer function to the profile only when it returns
  true. For the profile whose three TRC tags hold a table of two samples, the parse
  succeeds, \<open>has_tf\<close> is false, and the profile is the one the header gave: no curve
  has been stored in it, though each tag parses as a tabulated curve.
\<close>

theorem C2_curves_not_stored_counterexample:
  "\<exists>p c. skcms_Parse profile_tabulated = Some (True, p)
     \<and> \<not> has_tf p \<and> tf p = tf_zero
     \<and> parse_header (profile_tabulated, 0) profile_zero = Some p
     \<and> find_tag profile_tabulated (sig ''rTRC'') = Some 0
     \<and> find_tag profile_tabulated (sig ''gTRC'') = Some 1
     \<and> find_tag profile_tabulated (sig ''bTRC'') = Some 2
     \<and> read_curve (Some (profile_tabulated, 168)) 16 Curve_uninit = Some (True, c)
     \<and> curve_table c = Some (profile_tabulated, 180) \<and> curve_table_size c = 2"
proof -
  have len: "132 \<le> length profile_tabulated" by (simp add: profile_tabulated_facts)
  obtain h where h: "parse_header (profile_tabulated, 0) profile_zero = Some h"
    using parse_header_Some[OF len] by blast
  note f = parse_header_fields[OF len h]
  have acc: "\<not> (header_rejected h (length profile_tabulated) \<or> illuminant_rejected h
      \<or> \<not> spec_tag_table_valid profile_tabulated)"
    using header_accepted_iff[OF len h] profile_tabulated_valid by blast
  have same: "h\<lparr>tf := tf_zero, has_tf := False, toXYZD50 := matrix_zero, has_toXYZD50 := False\<rparr> = h"
    using f by (simp add: profile_zero_def)
  have p: "skcms_Parse profile_tabulated = Some (True, h)"
    unfolding skcms_Parse_eq[OF len h] using acc by (simp add: profile_tabulated_results same)
  have "\<not> has_tf h \<and> tf h = tf_zero" using f by (simp add: profile_zero_def)
  then show ?thesis
    using p h profile_tabulated_tags(1-3) profile_tabulated_curve by auto
qed

text \<open>
  Claim C2, amended. After a successful \<open>skcms_Parse\<close>, \<open>has_tf\<close> is true iff the
  tags rTRC, gTRC and bTRC are all present, each parses as a 'para' or 'curv' curve
  without a table, and the three parameter sets are equal as bytes; then \<open>tf\<close> is that
  parameter set. Otherwise \<open>has_tf\<close> is false and \<open>tf\<close> is still zero.
  \<open>parametric_of_tag\<close> is the lookup of the tag followed by \<open>read_curve\<close> and the
  test that the curve has no table.
\<close>

theorem C2_has_tf_iff_three_equal_parametric_curves:
  assumes "skcms_Parse bytes = Some (True, p)"
  shows "has_tf p =
      (\<exists>r. parametric_of_tag bytes (sig ''rTRC'') = Some r
          \<and> parametric_of_tag bytes (sig ''gTRC'') = Some r
          \<and> parametric_of_tag bytes (sig ''bTRC'') = Some r)
    \<and> (if has_tf p then parametric_of_tag bytes (sig ''rTRC'') = Some (tf p)
        else tf p = tf_zero)"
proof -
  have r: "(has_tf p, tf p) = tf_result bytes tf_zero"
    by (rule skcms_Parse_True_result(6)[OF assms])
  show ?thesis
  proof (cases "parametric_of_tag bytes (sig ''rTRC'')")
    case None
    then show ?thesis using r by (simp add: tf_result_def)
  next
    case r1: (Some a)
    show ?thesis
    proof (cases "parametric_of_tag bytes (sig ''gTRC'')")
      case None
      then show ?thesis using r r1 by (simp add: tf_result_def)
    next
      case r2: (Some b)
      show ?thesis
      proof (cases "parametric_of_tag bytes (sig ''bTRC'')")
        case None
        then show ?thesis using r r1 r2 by (simp add: tf_result_def)
      next
        case r3: (Some c)
        show ?thesis using r r1 r2 r3 by (auto simp: tf_result_def split: if_splits)
      qed
    qed
  qed
qed

theorem C2_has_tf_iff_three_equal_parametric_curves_witness:
  "\<exists>p. skcms_Parse profile_matrix = Some (True, p) \<and> has_tf p
     \<and> tf p = tf_gamma (F32 False (563 / 256))"
proof -
  obtain p where p: "skcms_Parse profile_matrix = Some (True, p)"
    using profile_matrix_valid skcms_Parse_True_iff_valid[of profile_matrix] by blast
  from C2_has_tf_iff_three_equal_parametric_curves[OF p]
  have "has_tf p \<and> tf p = tf_gamma (F32 False (563 / 256))"
    by (auto simp: profile_matrix_parametric split: if_splits)
  with p show ?thesis by blast
qed

text \<open>
  Claim C3. \<open>skcms_Parse\<close> returns false when some entry of the tag table has a size
  below 4 or an offset plus size beyond the declared size of the profile; when the header
  is valid and every entry is valid, the call returns true. The sum of offset and size is
  formed in 64 bits and does not wrap.
\<close>

theorem C3_tag_table_validation:
  "(\<not> spec_tag_table_valid bytes \<longrightarrow> (\<exists>q. skcms_Parse bytes = Some (False, q)))
   \<and> (spec_header_valid bytes \<and> spec_tag_table_valid bytes
        \<longrightarrow> (\<exists>p. skcms_Parse bytes = Some (True, p)))
   \<and> unat ((ucast (tag_offset :: u32) :: u64) + ucast (tag_sz :: u32))
        = unat tag_offset + unat tag_sz"
  using skcms_Parse_False_iff_invalid[of bytes] skcms_Parse_True_iff_valid[of bytes]
    tag_end_nowrap[of tag_offset tag_sz]
  by blast

theorem C3_tag_table_validation_witness:
  "\<not> spec_tag_table_valid profile_bad_tag
   \<and> (\<exists>q. skcms_Parse profile_bad_tag = Some (False, q))
   \<and> spec_header_valid profile_tabulated \<and> spec_tag_table_valid profile_tabulated
   \<and> (\<exists>p. skcms_Parse profile_tabulated = Some (True, p))"
  using C3_tag_table_validation[of profile_bad_tag 0 0]
    C3_tag_table_validation[of profile_tabulated 0 0]
    profile_bad_tag_invalid profile_tabulated_valid
  by blast

text \<open>
  Claim C4. For a 'curv' tag that lies inside the buffer, \<open>read_curve_curv\<close> fails when
  the tag is shorter than 12 bytes or too short for \<open>value_count\<close> 16-bit samples, and
  otherwise succeeds: with no value it yields the parametric curve with \<open>g = 1\<close>,
  \<open>a = 1\<close> and the rest 0, which evaluates to \<open>x\<close>; with one value \<open>u\<close> the
  parametric curve with \<open>g = u / 256\<close>, which evaluates to \<open>x\<close> to the power
  \<open>u / 256\<close> (written for every sign of \<open>x\<close>); with two or more values a table of
  \<open>value_count\<close> entries that starts 12 bytes into the tag. The evaluation is the
  formula of the comment on \<open>skcms_TransferFunction\<close> in skcms.h, over the reals.
\<close>

theorem C4_read_curve_curv:
  assumes "in_bounds buf (unat sz)"
  shows "read_curve_curv buf sz curve =
      (if unat sz < 12 \<or> unat sz < 12 + 2 * unat (be_u32 (ptr_add buf 8))
       then Some (False, curve) else Some (True, spec_curv_curve buf))
    \<and> tf_eval (tf_gamma (F32 False 1)) x = x
    \<and> tf_eval (tf_gamma (F32 False (of_nat (unat u) / 256))) x
        = sgn x * (\<bar>x\<bar> powr (real (unat u) / 256))"
proof (intro conjI)
  show "read_curve_curv buf sz curve =
      (if unat sz < 12 \<or> unat sz < 12 + 2 * unat (be_u32 (ptr_add buf 8))
       then Some (False, curve) else Some (True, spec_curv_curve buf))"
    by (rule read_curve_curv_eq[OF assms])
  show "tf_eval (tf_gamma (F32 False 1)) x = x" by (rule tf_eval_identity)
  show "tf_eval (tf_gamma (F32 False (of_nat (unat u) / 256))) x
        = sgn x * (\<bar>x\<bar> powr (real (unat u) / 256))"
    by (rule tf_eval_gamma)
qed

theorem C4_read_curve_curv_witness:
  "in_bounds (curv_empty, 0) (unat (12 :: u32))
   \<and> read_curve_curv (curv_empty, 0) 12 Curve_uninit =
       Some (True, \<lparr>curve_parametric = tf_gamma (F32 False 1), curve_table = None,
                     curve_table_size = 0\<rparr>)
   \<and> in_bounds (curv_gamma, 0) (unat (14 :: u32))
   \<and> read_curve_curv (curv_gamma, 0) 14 Curve_uninit =
       Some (True, \<lparr>curve_parametric = tf_gamma (F32 False (563 / 256)), curve_table = None,
                     curve_table_size = 0\<rparr>)
   \<and> in_bounds (curv_table, 0) (unat (16 :: u32))
   \<and> read_curve_curv (curv_table, 0) 16 Curve_uninit =
       Some (True, \<lparr>curve_parametric = tf_zero, curve_table = Some (curv_table, 12),
                     curve_table_size = 2\<rparr>)
   \<and> read_curve_curv (curv_table, 0) 15 Curve_uninit = Some (False, Curve_uninit)"
proof -
  have e: "in_bounds (curv_empty, 0) (unat (12 :: u32))" by (simp add: curv_empty_facts)
  have g: "in_bounds (curv_gamma, 0) (unat (14 :: u32))" by (simp add: curv_gamma_facts)
  have t: "in_bounds (curv_table, 0) (unat (16 :: u32))" by (simp add: curv_table_facts)
  have t': "in_bounds (curv_table, 0) (unat (15 :: u32))" by (simp add: curv_table_facts)
  show ?thesis
    using e g t
      C4_read_curve_curv[OF e, of Curve_uninit 0 0]
      C4_read_curve_curv[OF g, of Curve_uninit 0 0]
      C4_read_curve_curv[OF t, of Curve_uninit 0 0]
      C4_read_curve_curv[OF t', of Curve_uninit 0 0]
    by (simp add: spec_curv_curve_def curv_empty_facts curv_gamma_facts curv_table_facts)
qed

text \<open>
  Claim C5. For a 'para' tag that lies inside the buffer, \<open>read_curve_para\<close> succeeds
  only for the function types 0 to 4 with room for 1, 3, 4, 5 or 7 parameters; the
  parameters that the type does not give are 0, and \<open>a\<close> is 1; for the types 1 and 2 it
  fails when \<open>a\<close> is zero and otherwise sets \<open>d\<close> to \<open>-b / a\<close>, and for type 2
  it also sets \<open>f\<close> to \<open>e\<close>.
\<close>

theorem C5_read_curve_para:
  assumes "in_bounds buf (unat sz)"
  shows "read_curve_para buf sz curve =
     (let ft = be_u16 (ptr_add buf 8); P = para_parameter buf;
          partial = (tf_gamma (P 0))\<lparr>tf_a := P 1, tf_b := P 2\<rparr> in
      if unat sz < 12 \<or> 4 < ft \<or> unat sz < 12 + 4 * spec_para_count ft then Some (False, curve)
      else if ft = 1 \<and> f32_is_zero (P 1)
      then Some (False,
        \<lparr>curve_parametric = partial, curve_table = None, curve_table_size = 0\<rparr>)
      else if ft = 2 \<and> f32_is_zero (P 1)
      then Some (False,
        \<lparr>curve_parametric = partial\<lparr>tf_e := P 3\<rparr>, curve_table = None, curve_table_size = 0\<rparr>)
      else Some (True, \<lparr>curve_parametric = spec_para_function ft P, curve_table = None,
                         curve_table_size = 0\<rparr>))"
  by (rule read_curve_para_eq[OF assms])

theorem C5_read_curve_para_witness:
  "in_bounds (para_GAB, 0) (unat (24 :: u32))
   \<and> read_curve_para (para_GAB, 0) 24 Curve_uninit =
       Some (True, \<lparr>curve_parametric = \<lparr>tf_g = F32 False 2, tf_a = F32 False 1,
           tf_b = F32 False (1 / 2), tf_c = F32 False 0, tf_d = F32 True (1 / 2),
           tf_e = F32 False 0, tf_f = F32 False 0\<rparr>,
         curve_table = None, curve_table_size = 0\<rparr>)
   \<and> read_curve_para (para_GAB, 0) 23 Curve_uninit = Some (False, Curve_uninit)"
proof -
  have a: "in_bounds (para_GAB, 0) (unat (24 :: u32))" by (simp add: para_GAB_facts)
  have b: "in_bounds (para_GAB, 0) (unat (23 :: u32))" by (simp add: para_GAB_facts)
  have s: "sint (0x20000 :: u32) = 0x20000" "sint (0x10000 :: u32) = 0x10000"
    "sint (0x8000 :: u32) = 0x8000" by simp_all
  show ?thesis
    using a C5_read_curve_para[OF a, of Curve_uninit] C5_read_curve_para[OF b, of Curve_uninit]
    by (simp add: Let_def para_GAB_facts spec_para_count_def spec_para_function_def
        para_parameter_def be_fixed_def s para_GAB_values tf_gamma_def f32_is_zero_def)
qed

text \<open>
  Claim C6. After a successful \<open>skcms_Parse\<close>, \<open>has_toXYZD50\<close> is true iff the
  tags rXYZ, gXYZ and bXYZ are all present, of type 'XYZ ' and at least 20 bytes long;
  then the columns 0, 1 and 2 of \<open>toXYZD50\<close> are the (X, Y, Z) triples of rXYZ, gXYZ
  and bXYZ, read as s15.16 at the offsets 8, 12 and 16 of the tag. \<open>xyz_of_tag\<close> is the
  lookup of the tag with the two tests and the three reads.
\<close>

theorem C6_has_toXYZD50_iff_three_XYZ_tags:
  assumes "skcms_Parse bytes = Some (True, p)"
  shows "has_toXYZD50 p =
      (xyz_of_tag bytes (sig ''rXYZ'') \<noteq> None \<and> xyz_of_tag bytes (sig ''gXYZ'') \<noteq> None
       \<and> xyz_of_tag bytes (sig ''bXYZ'') \<noteq> None)
    \<and> (has_toXYZD50 p \<longrightarrow>
          xyz_of_tag bytes (sig ''rXYZ'') = Some (get_col (toXYZD50 p) 0)
        \<and> xyz_of_tag bytes (sig ''gXYZ'') = Some (get_col (toXYZD50 p) 1)
        \<and> xyz_of_tag bytes (sig ''bXYZ'') = Some (get_col (toXYZD50 p) 2))"
proof -
  have r: "(has_toXYZD50 p, toXYZD50 p) = xyz_result bytes matrix_zero"
    by (rule skcms_Parse_True_result(7)[OF assms])
  show ?thesis
  proof (cases "xyz_of_tag bytes (sig ''rXYZ'')")
    case None
    then show ?thesis using r by (auto simp: xyz_result_def split: if_splits)
  next
    case r1: (Some a)
    show ?thesis
    proof (cases "xyz_of_tag bytes (sig ''gXYZ'')")
      case None
      then show ?thesis using r r1 by (auto simp: xyz_result_def split: if_splits)
    next
      case r2: (Some b)
      show ?thesis
      proof (cases "xyz_of_tag bytes (sig ''bXYZ'')")
        case None
        then show ?thesis using r r1 r2 by (auto simp: xyz_result_def split: if_splits)
      next
        case r3: (Some c)
        obtain rx ry rz gx gy gz bx "by" bz where
          abc: "a = (rx, ry, rz)" "b = (gx, gy, gz)" "c = (bx, by, bz)"
          by (metis prod_cases3)
        have found: "find_tag bytes (sig ''rXYZ'') \<noteq> None" "find_tag bytes (sig ''gXYZ'') \<noteq> None"
          "find_tag bytes (sig ''bXYZ'') \<noteq> None"
          using r1 r2 r3 by (auto dest: xyz_of_tag_Some_found)
        have "has_toXYZD50 p" "toXYZD50 p = [[rx, gx, bx], [ry, gy, by], [rz, gz, bz]]"
          using r r1 r2 r3 found
          by (auto simp: xyz_result_def abc columns_of_filled_matrix_Suc)
        then show ?thesis using r1 r2 r3 by (simp add: abc get_col_def)
      qed
    qed
  qed
qed

theorem C6_has_toXYZD50_iff_three_XYZ_tags_witness:
  "\<exists>p. skcms_Parse profile_matrix = Some (True, p) \<and> has_toXYZD50 p
     \<and> get_col (toXYZD50 p) 0
         = (F32 False (0x6FA2 / 65536), F32 False (0x38F5 / 65536), F32 False (0x0390 / 65536))
     \<and> get_col (toXYZD50 p) 1
         = (F32 False (0x6299 / 65536), F32 False (0xB785 / 65536), F32 False (0x18DA / 65536))
     \<and> get_col (toXYZD50 p) 2
         = (F32 False (0x24A0 / 65536), F32 False (0x0F84 / 65536), F32 False (0xB6CF / 65536))"
proof -
  obtain p where p: "skcms_Parse profile_matrix = Some (True, p)"
    using profile_matrix_valid skcms_Parse_True_iff_valid[of profile_matrix] by blast
  from C6_has_toXYZD50_iff_three_XYZ_tags[OF p] p show ?thesis
    by (auto simp: profile_matrix_xyz)
qed

text \<open>
  Claim C7. \<open>skcms_GetMultiFunctionTable\<close> returns true only when the A2B0 tag is
  found and accepted: its type is 'mft1' or 'mft2', it has three output channels, one to
  four input channels and at least two grid points, for 'mft2' both table sizes lie in
  [2, 4096] (for 'mft1' they are 256, with entries of one byte), and the bytes of the tag
  after the fixed layout of 48 or 52 bytes are at least
  \<open>input_channels * input_table_size * width
     + output_channels * width * grid_points ^ input_channels
     + output_channels * output_table_size * width\<close>,
  with width 1 for 'mft1' and 2 for 'mft2'. \<open>spec_mft_accepted\<close> is the conjunction
  of these conditions on the bytes of the tag.
\<close>

theorem C7_mft_accepted_only_if:
  assumes "skcms_GetMultiFunctionTable profile mft = Some (True, m')"
  shows "\<exists>a2b. skcms_GetTagBySignature profile (sig ''A2B0'') ICCTag_uninit = Some (True, a2b)
     \<and> spec_mft_accepted a2b"
proof -
  from skcms_GetMultiFunctionTable_True[OF assms] obtain a2b where
    a: "skcms_GetTagBySignature profile (sig ''A2B0'') ICCTag_uninit = Some (True, a2b)"
    and r: "tag_type a2b = sig ''mft1'' \<and> read_tag_mft1 a2b mft = Some (True, m')
        \<or> tag_type a2b = sig ''mft2'' \<and> read_tag_mft2 a2b mft = Some (True, m')"
    by blast
  from r have "spec_mft_accepted a2b"
    using read_tag_mft1_True(1) read_tag_mft2_True(1) by blast
  with a show ?thesis by blast
qed

theorem C7_mft_accepted_only_if_witness:
  "\<exists>p m' a2b. skcms_Parse profile_a2b = Some (True, p)
     \<and> skcms_GetMultiFunctionTable p mft_zero = Some (True, m')
     \<and> skcms_GetTagBySignature p (sig ''A2B0'') ICCTag_uninit = Some (True, a2b)
     \<and> tag_type a2b = sig ''mft2'' \<and> spec_mft_accepted a2b"
proof -
  obtain p where p: "skcms_Parse profile_a2b = Some (True, p)"
    using profile_a2b_valid skcms_Parse_True_iff_valid[of profile_a2b] by blast
  note f = skcms_Parse_True_result(2-5)[OF p]
  obtain m' where m: "skcms_GetMultiFunctionTable p mft_zero = Some (True, m')"
    using skcms_GetMultiFunctionTable_parsed[OF f, of mft_zero] profile_a2b_tag(1)
      profile_a2b_accepted by auto
  from C7_mft_accepted_only_if[OF m] obtain a2b where
    a: "skcms_GetTagBySignature p (sig ''A2B0'') ICCTag_uninit = Some (True, a2b)"
    and acc: "spec_mft_accepted a2b" by blast
  from a have "a2b = tag_entry profile_a2b 0"
    by (simp add: skcms_GetTagBySignature_eq[OF f] profile_a2b_tag(1))
  then have "tag_type a2b = sig ''mft2''" by (simp add: profile_a2b_tag(2) sig_values)
  with p m a acc show ?thesis by blast
qed

text \<open>
  Claim C8. When \<open>skcms_Parse\<close> returns false, the flags \<open>has_tf\<close>,
  \<open>has_toXYZD50\<close> and \<open>has_A2B\<close> of the profile are false, and the transfer
  function and the matrix are still the zeros that \<open>memset\<close> wrote.
\<close>

theorem C8_failed_parse_leaves_flags_false:
  assumes "skcms_Parse bytes = Some (False, p)"
  shows "\<not> has_tf p \<and> \<not> has_toXYZD50 p \<and> \<not> has_A2B p
    \<and> tf p = tf_zero \<and> toXYZD50 p = matrix_zero"
  using skcms_Parse_False_result[OF assms] by simp

theorem C8_failed_parse_leaves_flags_false_witness:
  "\<exists>q. skcms_Parse profile_v5 = Some (False, q)
     \<and> \<not> has_tf q \<and> \<not> has_toXYZD50 q \<and> \<not> has_A2B q
     \<and> tf q = tf_zero \<and> toXYZD50 q = matrix_zero"
proof -
  obtain q where q: "skcms_Parse profile_v5 = Some (False, q)"
    using profile_v5_invalid skcms_Parse_False_iff_invalid[of profile_v5] by blast
  from C8_failed_parse_leaves_flags_false[OF q] q show ?thesis by blast
qed

text \<open>
  Claim C9 fails on the code for the index equal to \<open>tag_count\<close>: the source tests
  \<open>idx > profile->tag_count\<close>, so this index is not rejected and entry
  \<open>tag_count\<close>, one past the tag table, is read. On the parsed profile of 132 bytes
  with no tag, index 0 reads at offset 132, outside the buffer. On the parsed profile
  with three tags, index 3 reads the twelve bytes that follow the tag table, which are
  the 'curv' tag data, and overwrites the output tag with them.
\<close>

theorem C9_index_equal_to_tag_count_is_read:
  "\<exists>p q t. skcms_Parse profile_minimal = Some (True, p) \<and> tag_count p = 0
     \<and> skcms_GetTagByIndex p 0 ICCTag_uninit = None
     \<and> skcms_Parse profile_tabulated = Some (True, q) \<and> tag_count q = 3
     \<and> skcms_GetTagByIndex q 3 ICCTag_uninit = Some t \<and> t \<noteq> ICCTag_uninit
     \<and> t = \<lparr>tag_signature = sig ''curv'', tag_type = 184, tag_size = 2,
             tag_buf = (profile_tabulated, 0)\<rparr>"
proof -
  obtain p where p: "skcms_Parse profile_minimal = Some (True, p)"
    using profile_minimal_valid skcms_Parse_True_iff_valid[of profile_minimal] by blast
  note f = skcms_Parse_True_result(4,5)[OF p]
  have tc: "tag_count p = 0" by (simp add: f profile_minimal_facts)
  have 1: "skcms_GetTagByIndex p 0 ICCTag_uninit = None"
    by (simp add: skcms_GetTagByIndex_def f tc read_big_u32_def profile_minimal_facts)
  obtain q where q: "skcms_Parse profile_tabulated = Some (True, q)"
    using profile_tabulated_valid skcms_Parse_True_iff_valid[of profile_tabulated] by blast
  note g = skcms_Parse_True_result(4,5)[OF q]
  have tq: "tag_count q = 3" by (simp add: g profile_tabulated_facts)
  have e: "be_u32 (profile_tabulated, 172) = 0"
    by (simp add: be_eval profile_tabulated_def)
  have 2: "skcms_GetTagByIndex q 3 ICCTag_uninit
      = Some \<lparr>tag_signature = sig ''curv'', tag_type = 184, tag_size = 2,
             tag_buf = (profile_tabulated, 0)\<rparr>"
    by (simp add: skcms_GetTagByIndex_def g tq read_big_u32_def fill_tag_def
        profile_tabulated_facts e sig_values)
  have 3: "\<lparr>tag_signature = sig ''curv'', tag_type = 184, tag_size = 2,
             tag_buf = (profile_tabulated, 0)\<rparr> \<noteq> ICCTag_uninit"
    by (simp add: ICCTag_uninit_def)
  show ?thesis using p tc 1 q tq 2 3 by blast
qed

text \<open>
  Claim C10. A table accepted by \<open>skcms_GetMultiFunctionTable\<close> has one number of
  grid points for all input axes: \<open>grid_points\<close> is the byte at offset 10 of the tag,
  and the grid, which starts at \<open>grid\<close> and ends where the first output table
  starts, has \<open>output_channels * width * grid_points ^ input_channels\<close> bytes.
\<close>

theorem C10_one_grid_points_for_all_axes:
  assumes "skcms_GetMultiFunctionTable profile mft = Some (True, m')"
  shows "\<exists>a2b base. skcms_GetTagBySignature profile (sig ''A2B0'') ICCTag_uninit = Some (True, a2b)
     \<and> grid_points m' = ucast (byte_at (tag_buf a2b) 10)
     \<and> input_channels m' = ucast (byte_at (tag_buf a2b) 8)
     \<and> grid m' = Some base
     \<and> output_tables m' ! 0 = Some (ptr_add base
          (unat (output_channels m') * unat (table_byte_width m')
             * unat (grid_points m') ^ unat (input_channels m')))"
proof -
  from skcms_GetMultiFunctionTable_True[OF assms] obtain a2b where
    a: "skcms_GetTagBySignature profile (sig ''A2B0'') ICCTag_uninit = Some (True, a2b)"
    and r: "tag_type a2b = sig ''mft1'' \<and> read_tag_mft1 a2b mft = Some (True, m')
        \<or> tag_type a2b = sig ''mft2'' \<and> read_tag_mft2 a2b mft = Some (True, m')"
    by blast
  from r show ?thesis
  proof
    assume "tag_type a2b = sig ''mft1'' \<and> read_tag_mft1 a2b mft = Some (True, m')"
    then have t: "read_tag_mft1 a2b mft = Some (True, m')" "tag_type a2b = sig ''mft1''"
      by simp_all
    note T = read_tag_mft1_True[OF t]
    show ?thesis using a T(2,4) by (simp add: T(9,10))
  next
    assume "tag_type a2b = sig ''mft2'' \<and> read_tag_mft2 a2b mft = Some (True, m')"
    then have t: "read_tag_mft2 a2b mft = Some (True, m')" "tag_type a2b = sig ''mft2''"
      by simp_all
    note T = read_tag_mft2_True[OF t]
    show ?thesis using a T(2,4) by (simp add: T(9,10))
  qed
qed

theorem C10_one_grid_points_for_all_axes_witness:
  "\<exists>p m'. skcms_Parse profile_a2b_four = Some (True, p)
     \<and> skcms_GetMultiFunctionTable p mft_zero = Some (True, m')
     \<and> grid_points m' = 2 \<and> input_channels m' = 4
     \<and> output_channels m' = 3 \<and> table_byte_width m' = 2
     \<and> grid m' = Some (profile_a2b_four, 212)
     \<and> output_tables m' ! 0 = Some (profile_a2b_four, 212 + 3 * 2 * 2 ^ 4)
     \<and> output_tables m' ! 0 = Some (profile_a2b_four, 308)"
proof -
  obtain p where p: "skcms_Parse profile_a2b_four = Some (True, p)"
    using profile_a2b_four_valid skcms_Parse_True_iff_valid[of profile_a2b_four] by blast
  note f = skcms_Parse_True_result(2-5)[OF p]
  obtain m' where m: "skcms_GetMultiFunctionTable p mft_zero = Some (True, m')"
    using skcms_GetMultiFunctionTable_parsed[OF f, of mft_zero] profile_a2b_four_tag(1)
      profile_a2b_four_accepted by auto
  have g: "skcms_GetTagBySignature p (sig ''A2B0'') ICCTag_uninit
      = Some (True, tag_entry profile_a2b_four 0)"
    by (simp add: skcms_GetTagBySignature_eq[OF f] profile_a2b_four_tag(1))
  from skcms_GetMultiFunctionTable_True[OF m] g
  have r: "read_tag_mft2 (tag_entry profile_a2b_four 0) mft_zero = Some (True, m')"
    by (auto simp: profile_a2b_four_tag(2) sig_values)
  have ty: "tag_type (tag_entry profile_a2b_four 0) = sig ''mft2''"
    by (simp add: profile_a2b_four_tag(2) sig_values)
  note T = read_tag_mft2_True[OF r ty]
  have s: "output_channels m' = 3" "table_byte_width m' = 2"
    by (simp_all add: T(3,5) profile_a2b_four_tag(2) profile_a2b_four_facts sig_values)
  from C10_one_grid_points_for_all_axes[OF m] obtain a2b base where
    c: "skcms_GetTagBySignature p (sig ''A2B0'') ICCTag_uninit = Some (True, a2b)"
      "grid_points m' = ucast (byte_at (tag_buf a2b) 10)"
      "input_channels m' = ucast (byte_at (tag_buf a2b) 8)"
      "grid m' = Some base"
      "output_tables m' ! 0 = Some (ptr_add base
          (unat (output_channels m') * unat (table_byte_width m')
             * unat (grid_points m') ^ unat (input_channels m')))"
    by blast
  from c(1) g have a2b: "a2b = tag_entry profile_a2b_four 0" by simp
  have gp: "grid_points m' = 2" "input_channels m' = 4"
    by (simp_all add: c(2,3) a2b profile_a2b_four_tag(2) profile_a2b_four_facts)
  have base: "base = (profile_a2b_four, 212)"
    using c(4)
    by (simp add: T(9) T(2,5,6) profile_a2b_four_tag(2) profile_a2b_four_facts sig_values)
  have o: "output_tables m' ! 0 = Some (profile_a2b_four, 308)"
    by (simp add: c(5) base gp s)
  with p m gp s c(4) base show ?thesis by simp
qed
end
